theory Spec2Isabelle
  imports Complex_Main
begin

section \<open>JavaScript strings and values\<close>

text \<open>
  A string of the gateway is a list of code units in the range 0 to 255 (ASCII and the
  Latin-1 supplement). The JavaScript string operations used by the routes are written
  out below on this range.
\<close>

text \<open>
  \<open>toLowerCase\<close>: the capital letters \<open>A\<close> to \<open>Z\<close> and the capital letters of the
  Latin-1 supplement (U+00C0 to U+00DE without the multiplication sign U+00D7) move up by
  32; every other code unit of the range is its own lower-case form.
\<close>

definition toLowerChar :: "char \<Rightarrow> char" where
  "toLowerChar c =
     (let n = (of_char c :: nat)
      in if (65 \<le> n \<and> n \<le> 90) \<or> (192 \<le> n \<and> n \<le> 222 \<and> n \<noteq> 215) then char_of (n + 32) else c)"

definition toLowerCase :: "string \<Rightarrow> string" where
  "toLowerCase s = map toLowerChar s"

text \<open>
  \<open>toUpperCase\<close>: the small letters \<open>a\<close> to \<open>z\<close> and the small letters of the Latin-1
  supplement (U+00E0 to U+00FE without the division sign U+00F7) move down by 32, and the
  sharp s (U+00DF) becomes \<open>SS\<close>. The upper-case forms of the micro sign (U+00B5) and of
  the y with diaeresis (U+00FF) are U+039C and U+0178, which are no code units of the
  range: \<open>upperCaseInRange\<close> tells whether a string is free of these two, and on such
  strings \<open>toUpperCase\<close> is the JavaScript operation. (The two are left as they are.)
\<close>

definition toUpperChar :: "char \<Rightarrow> string" where
  "toUpperChar c =
     (let n = (of_char c :: nat)
      in if (97 \<le> n \<and> n \<le> 122) \<or> (224 \<le> n \<and> n \<le> 254 \<and> n \<noteq> 247) then [char_of (n - 32)]
         else if n = 223 then ''SS''
         else [c])"

definition toUpperCase :: "string \<Rightarrow> string" where
  "toUpperCase s = concat (map toUpperChar s)"

definition upperCaseInRange :: "string \<Rightarrow> bool" where
  "upperCaseInRange s = list_all (\<lambda>c. (of_char c :: nat) \<noteq> 181 \<and> (of_char c :: nat) \<noteq> 255) s"

text \<open>\<open>s.startsWith(p)\<close>.\<close>

fun startsWith :: "string \<Rightarrow> string \<Rightarrow> bool" where
  "startsWith s [] = True"
| "startsWith [] (p # ps) = False"
| "startsWith (c # cs) (p # ps) = (c = p \<and> startsWith cs ps)"

text \<open>\<open>s.includes(p)\<close>: \<open>p\<close> occurs at some position of \<open>s\<close>.\<close>

fun str_includes :: "string \<Rightarrow> string \<Rightarrow> bool" where
  "str_includes [] p = (p = [])"
| "str_includes (c # cs) p = (startsWith (c # cs) p \<or> str_includes cs p)"

text \<open>
  The white space and line terminators that \<open>trim\<close> removes, as far as they lie in the
  range: tab, line feed, vertical tab, form feed, carriage return, space and the no-break
  space (U+00A0).
\<close>

definition isWhiteSpace :: "char \<Rightarrow> bool" where
  "isWhiteSpace c = (let n = (of_char c :: nat) in (9 \<le> n \<and> n \<le> 13) \<or> n = 32 \<or> n = 160)"

definition trim :: "string \<Rightarrow> string" where
  "trim s = rev (dropWhile isWhiteSpace (rev (dropWhile isWhiteSpace s)))"

text \<open>\<open>xs.join(sep)\<close> on an array of strings.\<close>

fun join :: "string \<Rightarrow> string list \<Rightarrow> string" where
  "join sep [] = []"
| "join sep [x] = x"
| "join sep (x # y # ys) = x @ sep @ join sep (y # ys)"

text \<open>
  JavaScript values as far as the routes inspect them. A number is a finite rational,
  an infinity or NaN (rounding of floating point is not modelled). An object is its list
  of properties in insertion order.
\<close>

datatype jsnum = Finite rat | PosInfinity | NegInfinity | NaN

text \<open>\<open>Number.isFinite\<close> on a number.\<close>

fun finite_value :: "jsnum \<Rightarrow> rat option" where
  "finite_value (Finite r) = Some r"
| "finite_value _ = None"

datatype jsval =
    Undefined
  | Null
  | Bool bool
  | Num jsnum
  | Str string
  | Arr "jsval list"
  | Obj "(string \<times> jsval) list"

type_synonym jsobj = "(string \<times> jsval) list"

text \<open>\<open>obj[key]\<close>: \<open>undefined\<close> for a missing property.\<close>

definition get_prop :: "jsobj \<Rightarrow> string \<Rightarrow> jsval" where
  "get_prop ps key = (case map_of ps key of None \<Rightarrow> Undefined | Some v \<Rightarrow> v)"

text \<open>\<open>value.key\<close> on any value with optional chaining: \<open>undefined\<close> unless an object.\<close>

definition get_field :: "jsval \<Rightarrow> string \<Rightarrow> jsval" where
  "get_field v key = (case v of Obj ps \<Rightarrow> get_prop ps key | _ \<Rightarrow> Undefined)"

text \<open>\<open>a ?? b\<close>: the nullish coalescing operator.\<close>

definition nullish :: "jsval \<Rightarrow> bool" where
  "nullish v = (v = Undefined \<or> v = Null)"

definition coalesce :: "jsval \<Rightarrow> jsval \<Rightarrow> jsval" where
  "coalesce a b = (if nullish a then b else a)"

text \<open>Truthiness, as \<open>if (v)\<close> and \<open>!v\<close> test it.\<close>

fun truthy :: "jsval \<Rightarrow> bool" where
  "truthy Undefined = False"
| "truthy Null = False"
| "truthy (Bool b) = b"
| "truthy (Num (Finite r)) = (r \<noteq> 0)"
| "truthy (Num NaN) = False"
| "truthy (Num _) = True"
| "truthy (Str s) = (s \<noteq> [])"
| "truthy (Arr _) = True"
| "truthy (Obj _) = True"

text \<open>An optional string as a value: \<open>undefined\<close> when absent.\<close>

definition opt_str :: "string option \<Rightarrow> jsval" where
  "opt_str s = (case s of None \<Rightarrow> Undefined | Some x \<Rightarrow> Str x)"

text \<open>Assigning a property: an existing key keeps its place, a new one goes last.\<close>

fun obj_put :: "jsobj \<Rightarrow> string \<Rightarrow> jsval \<Rightarrow> jsobj" where
  "obj_put [] k v = [(k, v)]"
| "obj_put ((k', v') # rest) k v =
     (if k' = k then (k, v) # rest else (k', v') # obj_put rest k v)"

text \<open>The object spread \<open>{ ...a, ...b }\<close>.\<close>

definition obj_spread :: "jsobj \<Rightarrow> jsobj \<Rightarrow> jsobj" where
  "obj_spread a b = fold (\<lambda>(k, v) acc. obj_put acc k v) b a"

section \<open>The response envelope (responses.ts)\<close>

text \<open>
  Every success body is \<open>{success: true, data}\<close>; every error body is
  \<open>{error, code?, details?, retryAfter?}\<close>.
\<close>

datatype 'a api_body =
    ApiSuccess 'a
  | ApiError string "string option" "jsval option" "nat option"

record 'a response =
  status :: nat
  body :: "'a api_body"

definition singleResponse :: "'a \<Rightarrow> nat \<Rightarrow> 'a response" where
  "singleResponse data st = \<lparr>status = st, body = ApiSuccess data\<rparr>"

definition errorResponse ::
  "string \<Rightarrow> string \<Rightarrow> nat \<Rightarrow> jsval option \<Rightarrow> nat option \<Rightarrow> 'a response" where
  "errorResponse code message st details retryAfter =
     \<lparr>status = st,
      body = ApiError message (if code = [] then None else Some code) details retryAfter\<rparr>"

definition badRequestResponse :: "string \<Rightarrow> jsval option \<Rightarrow> 'a response" where
  "badRequestResponse message details = errorResponse ''INVALID_PARAMS'' message 400 details None"

definition notFoundResponse :: "string \<Rightarrow> 'a response" where
  "notFoundResponse resource = errorResponse ''NOT_FOUND'' (resource @ '' not found'') 404 None None"

definition internalErrorResponse :: "string \<Rightarrow> 'a response" where
  "internalErrorResponse message = errorResponse ''INTERNAL_ERROR'' message 500 None None"

definition userExistsResponse :: "string \<Rightarrow> 'a response" where
  "userExistsResponse message = errorResponse ''USER_EXISTS'' message 409 None None"

text \<open>
  What reading and validating a request body gives: \<open>request.json()\<close> may throw, the
  schema may reject the body with its field errors, or the parsed data is returned.
\<close>

datatype 'a parsed_body = JsonError string | Invalid jsval | Valid 'a

section \<open>Provisioning: deriving a display name (users/provision/route.ts)\<close>

text \<open>
  \<open>email.split('@')\<close> destructured to its first element: the code units before the
  first \<open>@\<close>, or the whole string when there is none.
\<close>

fun split_at_first :: "string \<Rightarrow> string" where
  "split_at_first [] = []"
| "split_at_first (c # cs) = (if c = CHR ''@'' then [] else c # split_at_first cs)"

text \<open>The character class \<open>[._-]\<close> of the separator pattern.\<close>

definition isDelimiter :: "char \<Rightarrow> bool" where
  "isDelimiter c = (c = CHR ''.'' \<or> c = CHR ''_'' \<or> c = CHR ''-'')"

text \<open>
  \<open>s.split(/[._-]+/)\<close> on a non-empty string, as the split algorithm runs it: the scan
  keeps the segment collected so far; at a separator character the segment is emitted
  and the greedy match consumes the whole run; the rest after the last match is emitted
  at the end.
\<close>

function split_delimiters :: "string \<Rightarrow> string \<Rightarrow> string list" where
  "split_delimiters seg [] = [seg]"
| "split_delimiters seg (c # cs) =
     (if isDelimiter c then seg # split_delimiters [] (dropWhile isDelimiter cs)
      else split_delimiters (seg @ [c]) cs)"
  by pat_completeness auto
termination
  by (relation "measure (\<lambda>(seg, s). length s)")
     (auto simp: length_dropWhile_le less_Suc_eq_le)

text \<open>\<open>segment.charAt(0).toUpperCase() + segment.slice(1)\<close>.\<close>

definition capitalize :: "string \<Rightarrow> string" where
  "capitalize segment = toUpperCase (take 1 segment) @ drop 1 segment"

definition deriveNameFromEmail :: "string \<Rightarrow> string" where
  "deriveNameFromEmail email =
     (let localPart = split_at_first email
      in if localPart = [] then ''Canvas User''
         else join '' '' (map capitalize (split_delimiters [] localPart)))"

section \<open>Provisioning: the tables and the handler (users/provision/route.ts)\<close>

definition CANVAS_PROVIDER_ID :: string where
  "CANVAS_PROVIDER_ID = ''canvas''"

definition DEFAULT_CANVAS_USER_CREDITS :: string where
  "DEFAULT_CANVAS_USER_CREDITS = ''1000000''"

text \<open>The rows the route reads and writes; timestamps are milliseconds.\<close>

record user_row =
  user_id :: string
  user_name :: string
  user_email :: string
  user_emailVerified :: bool
  user_createdAt :: nat
  user_updatedAt :: nat

record account_row =
  account_id :: string
  account_accountId :: string
  account_providerId :: string
  account_userId :: string
  account_scope :: jsobj
  account_createdAt :: nat
  account_updatedAt :: nat

record userStats_row =
  userStats_id :: string
  userStats_userId :: string
  userStats_currentUsageLimit :: string

record workspace_row =
  workspace_id :: string
  workspace_name :: string
  workspace_ownerId :: string
  workspace_billedAccountUserId :: string
  workspace_allowPersonalApiKeys :: bool
  workspace_createdAt :: nat
  workspace_updatedAt :: nat

record permissions_row =
  permissions_id :: string
  permissions_entityType :: string
  permissions_entityId :: string
  permissions_userId :: string
  permissions_permissionType :: string
  permissions_createdAt :: nat
  permissions_updatedAt :: nat

record workflow_row =
  workflow_id :: string
  workflow_userId :: string
  workflow_workspaceId :: string
  workflow_name :: string
  workflow_description :: string
  workflow_color :: string
  workflow_lastSynced :: nat
  workflow_createdAt :: nat
  workflow_updatedAt :: nat
  workflow_isDeployed :: bool
  workflow_runCount :: nat

text \<open>
  The database as the provisioning route sees it. \<open>seeded\<close> lists the workflows whose
  default state \<open>saveWorkflowToNormalizedTables\<close> has stored; \<open>uuid_counter\<close> counts
  the calls of \<open>crypto.randomUUID\<close> so far.
\<close>

record prov_db =
  users :: "user_row list"
  accounts :: "account_row list"
  userStats :: "userStats_row list"
  workspaces :: "workspace_row list"
  permissions :: "permissions_row list"
  workflows :: "workflow_row list"
  seeded :: "string list"
  uuid_counter :: nat

text \<open>
  What the route cannot decide by itself: the stream of random UUIDs, the clock, the
  message of the error a database write throws (if it does), and whether seeding the
  default workflow state throws.
\<close>

record prov_env =
  uuid :: "nat \<Rightarrow> string"
  now :: nat
  write_fault :: "string option"
  seed_fault :: bool

definition randomUUID :: "prov_env \<Rightarrow> prov_db \<Rightarrow> string \<times> prov_db" where
  "randomUUID env db = (uuid env (uuid_counter db), db\<lparr>uuid_counter := Suc (uuid_counter db)\<rparr>)"

record UserProvisioningRequest =
  req_canvasUserId :: string
  req_email :: string
  req_name :: "string option"
  req_workspaceId :: "string option"
  req_metadata :: "jsobj option"

record UserProvisioningResponseData =
  pr_simUserId :: string
  pr_canvasUserId :: string
  pr_email :: string
  pr_createdAt :: nat
  pr_linkId :: string
  pr_alreadyExisted :: "bool option"

record canvas_link =
  link_linkId :: string
  link_userId :: string
  link_createdAt :: nat
  link_email :: string

text \<open>
  \<open>findExistingCanvasLink\<close>: the inner join of \<open>account\<close> with \<open>user\<close> on the user
  id, restricted to the Canvas user id and the Canvas provider, first row.
\<close>

definition findExistingCanvasLink :: "prov_db \<Rightarrow> string \<Rightarrow> canvas_link option" where
  "findExistingCanvasLink db cid =
     (case [(a, u). a \<leftarrow> accounts db, u \<leftarrow> users db,
                    account_userId a = user_id u,
                    account_accountId a = cid \<and> account_providerId a = CANVAS_PROVIDER_ID] of
        [] \<Rightarrow> None
      | (a, u) # _ \<Rightarrow>
          Some \<lparr>link_linkId = account_id a, link_userId = account_userId a,
                link_createdAt = account_createdAt a, link_email = user_email u\<rparr>)"

definition findUserByEmail :: "prov_db \<Rightarrow> string \<Rightarrow> user_row option" where
  "findUserByEmail db e =
     (case filter (\<lambda>u. user_email u = e) (users db) of [] \<Rightarrow> None | u # _ \<Rightarrow> Some u)"

text \<open>
  \<open>createCanvasAccountLink\<close>: draws the link id, inserts the link; a failing insert
  throws its message and leaves the table as it was.
\<close>

definition createCanvasAccountLink ::
  "prov_env \<Rightarrow> prov_db \<Rightarrow> string \<Rightarrow> string \<Rightarrow> jsobj \<Rightarrow> (string + string \<times> nat) \<times> prov_db" where
  "createCanvasAccountLink env db userId cid metadata =
     (let (lid, db1) = randomUUID env db
      in case write_fault env of
           Some msg \<Rightarrow> (Inl msg, db1)
         | None \<Rightarrow>
             (Inr (lid, now env),
              db1\<lparr>accounts := accounts db1 @
                   [\<lparr>account_id = lid, account_accountId = cid,
                     account_providerId = CANVAS_PROVIDER_ID, account_userId = userId,
                     account_scope = metadata, account_createdAt = now env,
                     account_updatedAt = now env\<rparr>]\<rparr>))"

text \<open>\<open>name.split(' ')[0]\<close>: the code units before the first space.\<close>

definition firstName :: "string \<Rightarrow> string" where
  "firstName name = takeWhile (\<lambda>c. c \<noteq> CHR '' '') name"

record new_sim_user =
  new_userId :: string
  new_workspaceId :: string
  new_linkId :: string
  new_linkCreatedAt :: nat

text \<open>
  \<open>createNewSimUser\<close>: four ids are drawn first; the transaction inserts the user, the
  usage limit, the link, the workspace, the admin permission and the first workflow, or
  nothing at all when it throws; seeding the workflow state afterwards may fail without
  failing the call.
\<close>

definition createNewSimUser ::
  "prov_env \<Rightarrow> prov_db \<Rightarrow> string \<Rightarrow> string \<Rightarrow> string \<Rightarrow> jsobj \<Rightarrow>
     (string + new_sim_user) \<times> prov_db" where
  "createNewSimUser env db cid e name metadata =
     (let (userId, db1) = randomUUID env db;
          (workspaceId, db2) = randomUUID env db1;
          (workflowId, db3) = randomUUID env db2;
          (lid, db4) = randomUUID env db3;
          (statsId, db5) = randomUUID env db4;
          (permId, db6) = randomUUID env db5;
          t = now env
      in case write_fault env of
           Some msg \<Rightarrow> (Inl msg, db6)
         | None \<Rightarrow>
             (let db7 = db6
                   \<lparr>users := users db6 @
                      [\<lparr>user_id = userId, user_name = name, user_email = e,
                        user_emailVerified = True, user_createdAt = t, user_updatedAt = t\<rparr>],
                    userStats := userStats db6 @
                      [\<lparr>userStats_id = statsId, userStats_userId = userId,
                        userStats_currentUsageLimit = DEFAULT_CANVAS_USER_CREDITS\<rparr>],
                    accounts := accounts db6 @
                      [\<lparr>account_id = lid, account_accountId = cid,
                        account_providerId = CANVAS_PROVIDER_ID, account_userId = userId,
                        account_scope = metadata, account_createdAt = t,
                        account_updatedAt = t\<rparr>],
                    workspaces := workspaces db6 @
                      [\<lparr>workspace_id = workspaceId,
                        workspace_name = firstName name @ [CHR 0x27] @ ''s Workspace'',
                        workspace_ownerId = userId, workspace_billedAccountUserId = userId,
                        workspace_allowPersonalApiKeys = True, workspace_createdAt = t,
                        workspace_updatedAt = t\<rparr>],
                    permissions := permissions db6 @
                      [\<lparr>permissions_id = permId, permissions_entityType = ''workspace'',
                        permissions_entityId = workspaceId, permissions_userId = userId,
                        permissions_permissionType = ''admin'', permissions_createdAt = t,
                        permissions_updatedAt = t\<rparr>],
                    workflows := workflows db6 @
                      [\<lparr>workflow_id = workflowId, workflow_userId = userId,
                        workflow_workspaceId = workspaceId, workflow_name = ''canvas-workflow'',
                        workflow_description = ''Your first Canvas workflow'',
                        workflow_color = ''#3972F6'', workflow_lastSynced = t,
                        workflow_createdAt = t, workflow_updatedAt = t,
                        workflow_isDeployed = False, workflow_runCount = 0\<rparr>]\<rparr>;
                  db8 = (if seed_fault env then db7 else db7\<lparr>seeded := seeded db7 @ [workflowId]\<rparr>)
              in (Inr \<lparr>new_userId = userId, new_workspaceId = workspaceId, new_linkId = lid,
                       new_linkCreatedAt = t\<rparr>, db8)))"

text \<open>The \<open>catch\<close> of the handler: a message mentioning \<open>unique\<close> is a conflict.\<close>

definition provision_catch :: "string \<Rightarrow> UserProvisioningResponseData response" where
  "provision_catch msg =
     (if str_includes msg ''unique''
      then userExistsResponse ''User provisioning conflict - please retry''
      else internalErrorResponse ''Failed to provision user'')"

text \<open>\<open>name ?? deriveNameFromEmail(email)\<close>.\<close>

definition derivedName :: "UserProvisioningRequest \<Rightarrow> string" where
  "derivedName r = (case req_name r of Some n \<Rightarrow> n | None \<Rightarrow> deriveNameFromEmail (req_email r))"

text \<open>
  \<open>{ ...(metadata ?? {}), ...(workspaceId ? { canvasWorkspaceId: workspaceId } : {}) }\<close>;
  an empty workspace id is falsy.
\<close>

definition linkMetadata :: "UserProvisioningRequest \<Rightarrow> jsobj" where
  "linkMetadata r =
     obj_spread (case req_metadata r of None \<Rightarrow> [] | Some m \<Rightarrow> m)
       (case req_workspaceId r of
          None \<Rightarrow> []
        | Some w \<Rightarrow> if w = [] then [] else [(''canvasWorkspaceId'', Str w)])"

text \<open>The \<open>POST\<close> handler of the provisioning route, behind the authentication wrapper.\<close>

definition POST_provision ::
  "prov_env \<Rightarrow> prov_db \<Rightarrow> UserProvisioningRequest parsed_body \<Rightarrow>
     UserProvisioningResponseData response \<times> prov_db" where
  "POST_provision env db parsed =
     (case parsed of
        JsonError msg \<Rightarrow> (provision_catch msg, db)
      | Invalid errors \<Rightarrow> (badRequestResponse ''Validation failed'' (Some errors), db)
      | Valid r \<Rightarrow>
          (case findExistingCanvasLink db (req_canvasUserId r) of
             Some existingLink \<Rightarrow>
               (singleResponse
                  \<lparr>pr_simUserId = link_userId existingLink, pr_canvasUserId = req_canvasUserId r,
                   pr_email = link_email existingLink, pr_createdAt = link_createdAt existingLink,
                   pr_linkId = link_linkId existingLink, pr_alreadyExisted = Some True\<rparr> 409, db)
           | None \<Rightarrow>
               (case findUserByEmail db (req_email r) of
                  Some existingUser \<Rightarrow>
                    (case createCanvasAccountLink env db (user_id existingUser)
                            (req_canvasUserId r) (linkMetadata r) of
                       (Inl msg, db') \<Rightarrow> (provision_catch msg, db')
                     | (Inr (lid, t), db') \<Rightarrow>
                         (singleResponse
                            \<lparr>pr_simUserId = user_id existingUser,
                             pr_canvasUserId = req_canvasUserId r,
                             pr_email = user_email existingUser, pr_createdAt = t, pr_linkId = lid,
                             pr_alreadyExisted = None\<rparr> 201, db'))
                | None \<Rightarrow>
                    (case createNewSimUser env db (req_canvasUserId r) (req_email r)
                            (derivedName r) (linkMetadata r) of
                       (Inl msg, db') \<Rightarrow> (provision_catch msg, db')
                     | (Inr result, db') \<Rightarrow>
                         (singleResponse
                            \<lparr>pr_simUserId = new_userId result, pr_canvasUserId = req_canvasUserId r,
                             pr_email = req_email r, pr_createdAt = new_linkCreatedAt result,
                             pr_linkId = new_linkId result, pr_alreadyExisted = None\<rparr> 201, db')))))"

section \<open>Service key authentication (auth.ts)\<close>

definition SERVICE_KEY_PREFIX :: string where
  "SERVICE_KEY_PREFIX = ''sim_svc_''"

definition CANVAS_SERVICE_ID :: string where
  "CANVAS_SERVICE_ID = ''canvas''"

datatype auth_failure_code =
  MISSING_KEY | INVALID_KEY | EXPIRED_KEY | INACTIVE_KEY | INSUFFICIENT_SCOPE | INTERNAL_ERROR

text \<open>A row of \<open>service_api_keys\<close>.\<close>

record service_api_key =
  key_id :: string
  key_keyHash :: string
  key_keyPrefix :: string
  key_serviceName :: string
  key_permissions :: jsval
  key_rateLimitPerMinute :: "jsnum option"
  key_rateLimitPerDay :: "jsnum option"
  key_isActive :: bool
  key_expiresAt :: "nat option"
  key_lastUsedAt :: "nat option"
  key_metadata :: jsval

record ServiceContext =
  serviceName :: string
  keyId :: string
  keyPrefix :: string
  scopes :: "string list"
  rateLimitPerMinute :: "jsnum option"
  rateLimitPerDay :: "jsnum option"
  metadata :: jsval

datatype CanvasAuthResult =
    Authenticated ServiceContext
  | NotAuthenticated string auth_failure_code

text \<open>
  What the authenticator takes from outside: the SHA-256 digest, \<open>JSON.parse\<close>
  (\<open>None\<close> when it throws), the clock, and whether the key query or the last-used
  update throws.
\<close>

record auth_env =
  hashKey :: "string \<Rightarrow> string"
  JSON_parse :: "string \<Rightarrow> jsval option"
  auth_now :: nat
  select_fault :: bool
  update_fault :: bool

text \<open>The string elements of an array: \<open>filter(s => typeof s === 'string')\<close>.\<close>

fun string_elements :: "jsval list \<Rightarrow> string list" where
  "string_elements [] = []"
| "string_elements (Str s # vs) = s # string_elements vs"
| "string_elements (_ # vs) = string_elements vs"

definition parseScopes :: "auth_env \<Rightarrow> jsval \<Rightarrow> string list" where
  "parseScopes env v =
     (case v of
        Arr vs \<Rightarrow> string_elements vs
      | Str s \<Rightarrow> (case JSON_parse env s of Some (Arr vs) \<Rightarrow> string_elements vs | _ \<Rightarrow> [])
      | _ \<Rightarrow> [])"

definition updateLastUsed :: "auth_env \<Rightarrow> service_api_key list \<Rightarrow> string \<Rightarrow> service_api_key list" where
  "updateLastUsed env ks kid =
     map (\<lambda>k. if key_id k = kid then k\<lparr>key_lastUsedAt := Some (auth_now env)\<rparr> else k) ks"

text \<open>
  The scope test: with required scopes given and not empty, every one of them must be
  among the key's scopes; the result is the required list when the test fails.
\<close>

definition lacking_scopes :: "string list \<Rightarrow> string list option \<Rightarrow> string list option" where
  "lacking_scopes keyScopes requiredScopes =
     (case requiredScopes of
        None \<Rightarrow> None
      | Some rs \<Rightarrow>
          if rs \<noteq> [] \<and> \<not> list_all (\<lambda>scope. scope \<in> set keyScopes) rs then Some rs else None)"

text \<open>
  \<open>authenticateCanvasRequest\<close>, given the value of the \<open>x-service-key\<close> header and the
  required scopes. The checks run in the order of the source: key present, prefix, lookup
  by hash and service, active, expiry, scopes. The table is returned with the last-used
  time recorded, which happens only on success and may fail silently.
\<close>

definition authenticateCanvasRequest ::
  "auth_env \<Rightarrow> service_api_key list \<Rightarrow> string option \<Rightarrow> string list option \<Rightarrow>
     CanvasAuthResult \<times> service_api_key list" where
  "authenticateCanvasRequest env ks providedKey requiredScopes =
     (case providedKey of
        None \<Rightarrow>
          (NotAuthenticated ''Service API key required. Provide x-service-key header.'' MISSING_KEY, ks)
      | Some k \<Rightarrow>
          if k = [] then
            (NotAuthenticated ''Service API key required. Provide x-service-key header.'' MISSING_KEY, ks)
          else if \<not> startsWith k SERVICE_KEY_PREFIX then
            (NotAuthenticated ''Invalid service API key format'' INVALID_KEY, ks)
          else if select_fault env then
            (NotAuthenticated ''Authentication service error'' INTERNAL_ERROR, ks)
          else
            (case filter (\<lambda>r. key_keyHash r = hashKey env k \<and> key_serviceName r = CANVAS_SERVICE_ID) ks of
               [] \<Rightarrow> (NotAuthenticated ''Invalid service API key'' INVALID_KEY, ks)
             | keyRecord # _ \<Rightarrow>
                 if \<not> key_isActive keyRecord then
                   (NotAuthenticated ''Service API key is inactive'' INACTIVE_KEY, ks)
                 else if (case key_expiresAt keyRecord of None \<Rightarrow> False | Some t \<Rightarrow> t < auth_now env) then
                   (NotAuthenticated ''Service API key has expired'' EXPIRED_KEY, ks)
                 else
                   (let keyScopes = parseScopes env (key_permissions keyRecord)
                    in case lacking_scopes keyScopes requiredScopes of
                         Some rs \<Rightarrow>
                           (NotAuthenticated
                              (''Insufficient permissions. Required scopes: '' @ join '', '' rs)
                              INSUFFICIENT_SCOPE, ks)
                       | None \<Rightarrow>
                         (Authenticated
                            \<lparr>serviceName = key_serviceName keyRecord, keyId = key_id keyRecord,
                             keyPrefix = key_keyPrefix keyRecord, scopes = keyScopes,
                             rateLimitPerMinute = key_rateLimitPerMinute keyRecord,
                             rateLimitPerDay = key_rateLimitPerDay keyRecord,
                             metadata = coalesce (key_metadata keyRecord) (Obj [])\<rparr>,
                          if update_fault env then ks else updateLastUsed env ks (key_id keyRecord)))))"

section \<open>Rate limiting (rate-limit.ts)\<close>

definition MINUTE_MS :: nat where
  "MINUTE_MS = 60 * 1000"

definition DAY_MS :: nat where
  "DAY_MS = 24 * 60 * 60 * 1000"

record RateLimitCheckResult =
  allowed :: bool
  retryAfterMs :: "nat option"

record TokenBucketConfig =
  maxTokens :: rat
  refillRate :: rat
  refillIntervalMs :: nat

definition buildConfig :: "rat \<Rightarrow> nat \<Rightarrow> TokenBucketConfig" where
  "buildConfig limit intervalMs =
     \<lparr>maxTokens = limit, refillRate = limit, refillIntervalMs = intervalMs\<rparr>"

text \<open>
  The storage adapter is an external collaborator: \<open>consumeTokens(key, tokens, config)\<close>
  acts on the adapter's state and either throws (\<open>Inl\<close> with the message) or answers
  whether the tokens were granted and, if not, after how long to retry.
\<close>

type_synonym 'st storage =
  "'st \<Rightarrow> string \<Rightarrow> nat \<Rightarrow> TokenBucketConfig \<Rightarrow> (string + RateLimitCheckResult) \<times> 'st"

definition consume ::
  "'st storage \<Rightarrow> 'st \<Rightarrow> string \<Rightarrow> jsnum \<Rightarrow> nat \<Rightarrow> (string + RateLimitCheckResult) \<times> 'st" where
  "consume consumeTokens st key limit intervalMs =
     (case finite_value limit of
        None \<Rightarrow> (Inr \<lparr>allowed = True, retryAfterMs = None\<rparr>, st)
      | Some l \<Rightarrow>
          if l \<le> 0 then (Inr \<lparr>allowed = True, retryAfterMs = None\<rparr>, st)
          else
            (case consumeTokens st key 1 (buildConfig l intervalMs) of
               (Inl err, st') \<Rightarrow> (Inl err, st')
             | (Inr result, st') \<Rightarrow>
                 if allowed result then (Inr \<lparr>allowed = True, retryAfterMs = None\<rparr>, st')
                 else (Inr \<lparr>allowed = False, retryAfterMs = retryAfterMs result\<rparr>, st')))"

text \<open>The request context: the service context plus the caller's headers.\<close>

record CanvasRequestContext = ServiceContext +
  ctx_canvasUserId :: "string option"
  ctx_canvasWorkspaceId :: "string option"
  ctx_requestId :: "string option"
  ctx_idempotencyKey :: "string option"
  ctx_ipAddress :: "string option"
  ctx_userAgent :: "string option"

definition serviceKey :: "CanvasRequestContext \<Rightarrow> string" where
  "serviceKey c = ''svc:'' @ serviceName c @ '':'' @ keyPrefix c"

text \<open>The user bucket key; \<open>null\<close> when the user id is absent or empty.\<close>

definition userKey :: "CanvasRequestContext \<Rightarrow> string option" where
  "userKey c =
     (case ctx_canvasUserId c of
        None \<Rightarrow> None
      | Some u \<Rightarrow> if u = [] then None else Some (serviceKey c @ '':user:'' @ u))"

definition perMinute :: "CanvasRequestContext \<Rightarrow> jsnum" where
  "perMinute c = (case rateLimitPerMinute c of None \<Rightarrow> Finite 1000 | Some n \<Rightarrow> n)"

definition perDay :: "CanvasRequestContext \<Rightarrow> jsnum" where
  "perDay c = (case rateLimitPerDay c of None \<Rightarrow> Finite 100000 | Some n \<Rightarrow> n)"

text \<open>
  The body of the \<open>try\<close> block of \<open>enforceCanvasRateLimit\<close>: the four checks in
  order, stopping at the first bucket that refuses; an error thrown by a check leaves the
  block (\<open>Inl\<close>).
\<close>

definition rate_limit_checks ::
  "'st storage \<Rightarrow> 'st \<Rightarrow> CanvasRequestContext \<Rightarrow> (string + RateLimitCheckResult) \<times> 'st" where
  "rate_limit_checks consumeTokens st c =
     (case consume consumeTokens st (serviceKey c) (perMinute c) MINUTE_MS of
        (Inl err, st1) \<Rightarrow> (Inl err, st1)
      | (Inr serviceMinute, st1) \<Rightarrow>
          if \<not> allowed serviceMinute then (Inr serviceMinute, st1)
          else
            (case consume consumeTokens st1 (serviceKey c @ '':day'') (perDay c) DAY_MS of
               (Inl err, st2) \<Rightarrow> (Inl err, st2)
             | (Inr serviceDay, st2) \<Rightarrow>
                 if \<not> allowed serviceDay then (Inr serviceDay, st2)
                 else
                   (case userKey c of
                      None \<Rightarrow> (Inr \<lparr>allowed = True, retryAfterMs = None\<rparr>, st2)
                    | Some uk \<Rightarrow>
                        (case consume consumeTokens st2 uk (perMinute c) MINUTE_MS of
                           (Inl err, st3) \<Rightarrow> (Inl err, st3)
                         | (Inr userMinute, st3) \<Rightarrow>
                             if \<not> allowed userMinute then (Inr userMinute, st3)
                             else
                               (case consume consumeTokens st3 (uk @ '':day'') (perDay c) DAY_MS of
                                  (Inl err, st4) \<Rightarrow> (Inl err, st4)
                                | (Inr userDay, st4) \<Rightarrow>
                                    if \<not> allowed userDay then (Inr userDay, st4)
                                    else (Inr \<lparr>allowed = True, retryAfterMs = None\<rparr>, st4))))))"

text \<open>\<open>enforceCanvasRateLimit\<close>: the \<open>catch\<close> turns a thrown error into a refusal.\<close>

definition enforceCanvasRateLimit ::
  "'st storage \<Rightarrow> 'st \<Rightarrow> CanvasRequestContext \<Rightarrow> RateLimitCheckResult \<times> 'st" where
  "enforceCanvasRateLimit consumeTokens st c =
     (case rate_limit_checks consumeTokens st c of
        (Inl err, st') \<Rightarrow> (\<lparr>allowed = False, retryAfterMs = Some MINUTE_MS\<rparr>, st')
      | (Inr result, st') \<Rightarrow> (result, st'))"

section \<open>Block execution: requests, tools and the execution log (blocks/execute/route.ts)\<close>

definition DEFAULT_EXECUTION_TIMEOUT_MS :: nat where
  "DEFAULT_EXECUTION_TIMEOUT_MS = 30000"

definition MAX_EXECUTION_TIMEOUT_MS :: nat where
  "MAX_EXECUTION_TIMEOUT_MS = 300000"

record BlockExecutionContext =
  rc_workflowId :: "string option"
  rc_executionId :: "string option"
  rc_nodeId :: "string option"

record BlockExecutionOptions =
  opt_timeout :: "nat option"
  opt_retryOnFailure :: "bool option"

record BlockExecutionRequest =
  br_blockType :: string
  br_params :: "jsobj option"
  br_inputs :: "jsobj option"
  br_blockVersion :: "string option"
  br_context :: "BlockExecutionContext option"
  br_options :: "BlockExecutionOptions option"

text \<open>\<open>data.options?.timeout\<close> and \<open>data.options?.retryOnFailure\<close>.\<close>

definition options_timeout :: "BlockExecutionRequest \<Rightarrow> nat option" where
  "options_timeout d = (case br_options d of None \<Rightarrow> None | Some o' \<Rightarrow> opt_timeout o')"

definition options_retryOnFailure :: "BlockExecutionRequest \<Rightarrow> bool option" where
  "options_retryOnFailure d = (case br_options d of None \<Rightarrow> None | Some o' \<Rightarrow> opt_retryOnFailure o')"

text \<open>
  \<open>executeRequestSchema\<close> applied to a body that has the declared shape: the two
  refinements (params or inputs present; the timeout within its bounds) each add an issue,
  and the body is valid when there is none.
\<close>

definition executeRequestSchema :: "BlockExecutionRequest \<Rightarrow> BlockExecutionRequest parsed_body" where
  "executeRequestSchema d =
     (let issues =
            (if br_params d = None \<and> br_inputs d = None
             then [(''params'', Arr [Str ''params or inputs is required''])] else []) @
            (case options_timeout d of
               None \<Rightarrow> []
             | Some t \<Rightarrow>
                 if t < 1000 \<or> t > MAX_EXECUTION_TIMEOUT_MS
                 then [(''options'', Arr [Str ''timeout must be between 1000 and 300000 ms''])]
                 else [])
      in if issues = [] then Valid d else Invalid (Obj issues))"

text \<open>
  A thrown value: an \<open>Error\<close> with its message, or anything else. A tool call settles
  after some milliseconds with a response or a rejection, or never settles.
\<close>

datatype js_error = Error string | Thrown jsval

record ToolResponse =
  tr_success :: bool
  tr_output :: "jsobj option"
  tr_error :: "string option"

datatype tool_behaviour = Resolves nat ToolResponse | Rejects nat js_error | Never

text \<open>
  The block catalog entry as far as the route uses it. \<open>bc_transforms\<close> stands for
  \<open>applyBlockTransforms(blockConfig, \<cdot>)\<close>, the hydration of the parameters, which the
  properties below do not depend on; \<open>bc_tool\<close> is \<open>tools.config?.tool\<close> and
  \<open>bc_access\<close> is \<open>tools.access\<close>.
\<close>

record BlockConfig =
  bc_type :: string
  bc_transforms :: "jsobj \<Rightarrow> jsobj"
  bc_tool :: "(jsobj \<Rightarrow> string option) option"
  bc_access :: "string list"

record ExecutionContext =
  ec_workflowId :: string
  ec_workspaceId :: string
  ec_executionId :: string
  ec_userId :: string

text \<open>One invocation of \<open>executeTool\<close>: the tool, its inputs and the execution context.\<close>

record tool_call =
  call_toolId :: string
  call_inputs :: jsobj
  call_context :: ExecutionContext

text \<open>
  The external collaborators of the route: the block registry, the tool executor (its
  behaviour may depend on how many invocations came before), the redaction of secrets,
  \<open>Number(\<cdot>)\<close> on strings, and the stream of random UUIDs.
\<close>

record exec_env =
  getBlock :: "string \<Rightarrow> BlockConfig option"
  getBlockByToolName :: "string \<Rightarrow> BlockConfig option"
  executeTool :: "nat \<Rightarrow> tool_call \<Rightarrow> tool_behaviour"
  redactApiKeys :: "jsobj \<Rightarrow> jsobj"
  toNumber :: "string \<Rightarrow> jsnum"
  exec_uuid :: "nat \<Rightarrow> string"

text \<open>A row of \<open>workflow_execution_logs\<close>.\<close>

record execution_log =
  log_id :: string
  log_workspaceId :: string
  log_executionId :: string
  log_level :: string
  log_trigger :: string
  log_startedAt :: nat
  log_endedAt :: "nat option"
  log_totalDurationMs :: "nat option"
  log_executionData :: jsval
  log_blockType :: string
  log_blockVersion :: "string option"
  log_callerId :: string
  log_callerUserId :: string
  log_callerWorkspaceId :: "string option"
  log_callerWorkflowId :: "string option"
  log_callerNodeId :: "string option"
  log_apiCallsMade :: jsval
  log_creditsConsumed :: jsval

text \<open>
  The state the route acts on: the database (the tables of the provisioning route and
  the execution log), the invocations of \<open>executeTool\<close> so far, and the clock in
  milliseconds.
\<close>

record exec_world =
  xw_db :: prov_db
  xw_logs :: "execution_log list"
  xw_calls :: "tool_call list"
  xw_clock :: nat

definition exec_randomUUID :: "exec_env \<Rightarrow> exec_world \<Rightarrow> string \<times> exec_world" where
  "exec_randomUUID env w =
     (exec_uuid env (uuid_counter (xw_db w)),
      w\<lparr>xw_db := (xw_db w)\<lparr>uuid_counter := Suc (uuid_counter (xw_db w))\<rparr>\<rparr>)"

text \<open>
  \<open>executeWithTimeout\<close>: the tool is invoked and raced against the timer. A call that
  settles before the timer gives its own outcome; otherwise the timer rejects with
  \<open>EXECUTION_TIMEOUT\<close>. The clock advances by the time waited.
\<close>

definition executeWithTimeout ::
  "exec_env \<Rightarrow> exec_world \<Rightarrow> string \<Rightarrow> jsobj \<Rightarrow> ExecutionContext \<Rightarrow> nat \<Rightarrow>
     (js_error + ToolResponse) \<times> exec_world" where
  "executeWithTimeout env w toolId toolInputs executionContext timeoutMs =
     (let c = \<lparr>call_toolId = toolId, call_inputs = toolInputs, call_context = executionContext\<rparr>;
          w1 = w\<lparr>xw_calls := xw_calls w @ [c]\<rparr>;
          expired = (Inl (Error ''EXECUTION_TIMEOUT''), w1\<lparr>xw_clock := xw_clock w + timeoutMs\<rparr>)
      in case executeTool env (length (xw_calls w)) c of
           Resolves d result \<Rightarrow>
             if d < timeoutMs then (Inr result, w1\<lparr>xw_clock := xw_clock w + d\<rparr>) else expired
         | Rejects d err \<Rightarrow>
             if d < timeoutMs then (Inl err, w1\<lparr>xw_clock := xw_clock w + d\<rparr>) else expired
         | Never \<Rightarrow> expired)"

text \<open>
  \<open>executeWithRetry\<close>. The retry after a reported failure is awaited inside the
  \<open>try\<close> block, so its rejection reaches the \<open>catch\<close> of the same function.
\<close>

definition executeWithRetry ::
  "exec_env \<Rightarrow> exec_world \<Rightarrow> string \<Rightarrow> jsobj \<Rightarrow> ExecutionContext \<Rightarrow> nat \<Rightarrow> bool \<Rightarrow>
     (js_error + ToolResponse) \<times> exec_world" where
  "executeWithRetry env w toolId toolInputs executionContext timeoutMs retryOnFailure =
     (case executeWithTimeout env w toolId toolInputs executionContext timeoutMs of
        (Inr result, w1) \<Rightarrow>
          if retryOnFailure \<and> \<not> tr_success result then
            (case executeWithTimeout env w1 toolId toolInputs executionContext timeoutMs of
               (Inr result2, w2) \<Rightarrow> (Inr result2, w2)
             | (Inl err, w2) \<Rightarrow>
                 if retryOnFailure
                 then executeWithTimeout env w2 toolId toolInputs executionContext timeoutMs
                 else (Inl err, w2))
          else (Inr result, w1)
      | (Inl err, w1) \<Rightarrow>
          if retryOnFailure
          then executeWithTimeout env w1 toolId toolInputs executionContext timeoutMs
          else (Inl err, w1))"

text \<open>\<open>resolveBlock\<close>: by type, else by tool name (the token is then the tool id).\<close>

definition resolveBlock :: "exec_env \<Rightarrow> string \<Rightarrow> (BlockConfig \<times> string option) option" where
  "resolveBlock env blockType =
     (case getBlock env blockType of
        Some blockConfig \<Rightarrow> Some (blockConfig, None)
      | None \<Rightarrow>
          (case getBlockByToolName env blockType of
             Some byToolName \<Rightarrow> Some (byToolName, Some blockType)
           | None \<Rightarrow> None))"

definition resolveToolId :: "BlockConfig \<Rightarrow> jsobj \<Rightarrow> string option" where
  "resolveToolId blockConfig params =
     (case bc_tool blockConfig of
        Some tool \<Rightarrow> tool params
      | None \<Rightarrow> (case bc_access blockConfig of [] \<Rightarrow> None | t # _ \<Rightarrow> Some t))"

definition findExistingExecution :: "exec_world \<Rightarrow> string \<Rightarrow> execution_log option" where
  "findExistingExecution w eid =
     (case filter (\<lambda>l. log_executionId l = eid) (xw_logs w) of [] \<Rightarrow> None | l # _ \<Rightarrow> Some l)"

definition findLinkedSimUser :: "exec_world \<Rightarrow> string \<Rightarrow> string option" where
  "findLinkedSimUser w cid =
     (case filter (\<lambda>a. account_accountId a = cid \<and> account_providerId a = CANVAS_PROVIDER_ID)
             (accounts (xw_db w)) of
        [] \<Rightarrow> None
      | a # _ \<Rightarrow> Some (account_userId a))"

definition findUserWorkspace :: "exec_world \<Rightarrow> string \<Rightarrow> string option" where
  "findUserWorkspace w userId =
     (case filter (\<lambda>ws. workspace_ownerId ws = userId) (workspaces (xw_db w)) of
        [] \<Rightarrow> None
      | ws # _ \<Rightarrow> Some (workspace_id ws))"

text \<open>
  \<open>buildCanvasExecutionContext\<close>; the state-tracking collections of the context are all
  empty and are left out.
\<close>

definition buildCanvasExecutionContext ::
  "string \<Rightarrow> string \<Rightarrow> string \<Rightarrow> string option \<Rightarrow> ExecutionContext" where
  "buildCanvasExecutionContext eid workspaceId userId canvasWorkflowId =
     \<lparr>ec_workflowId = (case canvasWorkflowId of Some wid \<Rightarrow> wid | None \<Rightarrow> ''canvas-'' @ eid),
      ec_workspaceId = workspaceId, ec_executionId = eid, ec_userId = userId\<rparr>"

section \<open>Block execution: detecting an asynchronous job\<close>

definition ASYNC_STATUS_VALUES :: "string list" where
  "ASYNC_STATUS_VALUES =
     [''queued'', ''running'', ''processing'', ''pending'', ''in_progress'', ''in-progress'',
      ''started'']"

text \<open>
  \<open>ASYNC_MESSAGE_PATTERN\<close> is
  \<open>/\b(async|asynchronous|queued|processing|running|pending|in progress)\b/i\<close>.
  Its \<open>test\<close> succeeds when, at some position, one of the alternatives matches without
  regard to case, with a word boundary before and after. A word boundary lies between a
  word character (letter, digit, underscore) and anything else, the ends of the string
  included.
\<close>

definition ASYNC_MESSAGE_WORDS :: "string list" where
  "ASYNC_MESSAGE_WORDS =
     [''async'', ''asynchronous'', ''queued'', ''processing'', ''running'', ''pending'',
      ''in progress'']"

definition isWordChar :: "char \<Rightarrow> bool" where
  "isWordChar c =
     (let n = (of_char c :: nat)
      in (48 \<le> n \<and> n \<le> 57) \<or> (65 \<le> n \<and> n \<le> 90) \<or> (97 \<le> n \<and> n \<le> 122) \<or> n = 95)"

definition isWordAt :: "char option \<Rightarrow> bool" where
  "isWordAt c = (case c of None \<Rightarrow> False | Some x \<Rightarrow> isWordChar x)"

definition wordBoundary :: "char option \<Rightarrow> char option \<Rightarrow> bool" where
  "wordBoundary l r = (isWordAt l \<noteq> isWordAt r)"

definition charAt :: "string \<Rightarrow> nat \<Rightarrow> char option" where
  "charAt s i = (if i < length s then Some (s ! i) else None)"

text \<open>One alternative matched at the current position; \<open>prev\<close> is the character before it.\<close>

definition alternative_matches :: "char option \<Rightarrow> string \<Rightarrow> string \<Rightarrow> bool" where
  "alternative_matches prev rest word =
     (wordBoundary prev (charAt rest 0) \<and>
      startsWith (toLowerCase rest) word \<and>
      wordBoundary (charAt rest (length word - 1)) (charAt rest (length word)))"

fun pattern_test_from :: "char option \<Rightarrow> string \<Rightarrow> bool" where
  "pattern_test_from prev [] = list_ex (alternative_matches prev []) ASYNC_MESSAGE_WORDS"
| "pattern_test_from prev (c # cs) =
     (list_ex (alternative_matches prev (c # cs)) ASYNC_MESSAGE_WORDS \<or>
      pattern_test_from (Some c) cs)"

definition ASYNC_MESSAGE_PATTERN_test :: "string \<Rightarrow> bool" where
  "ASYNC_MESSAGE_PATTERN_test message = pattern_test_from None message"

definition getString :: "jsval \<Rightarrow> string option" where
  "getString v = (case v of Str s \<Rightarrow> if trim s \<noteq> [] then Some (trim s) else None | _ \<Rightarrow> None)"

definition getNumber :: "exec_env \<Rightarrow> jsval \<Rightarrow> rat option" where
  "getNumber env v =
     (case v of
        Num n \<Rightarrow> finite_value n
      | Str s \<Rightarrow> if trim s \<noteq> [] then finite_value (toNumber env s) else None
      | _ \<Rightarrow> None)"

definition normalizeProgress :: "rat \<Rightarrow> rat" where
  "normalizeProgress v = (if v \<le> 0 then 0 else if v \<le> 1 then v else if v \<le> 100 then v / 100 else 1)"

record async_execution =
  ax_progress :: "rat option"
  ax_currentStep :: "string option"
  ax_estimatedCompletionMs :: "rat option"

text \<open>A chain \<open>output.a ?? output.b ?? \<dots>\<close> over the listed properties.\<close>

fun first_of :: "jsobj \<Rightarrow> string list \<Rightarrow> jsval" where
  "first_of output [] = Undefined"
| "first_of output [k] = get_prop output k"
| "first_of output (k # ks) = coalesce (get_prop output k) (first_of output ks)"

definition status_of_output :: "jsobj \<Rightarrow> string option" where
  "status_of_output output =
     map_option toLowerCase
       (getString (first_of output [''status'', ''state'', ''jobStatus'', ''job_state'']))"

definition jobId_of_output :: "jsobj \<Rightarrow> string option" where
  "jobId_of_output output =
     getString (first_of output [''jobId'', ''job_id'', ''taskId'', ''task_id''])"

definition message_of_output :: "jsobj \<Rightarrow> string option" where
  "message_of_output output =
     getString (first_of output [''currentStep'', ''message'', ''statusMessage'', ''status_message''])"

definition detectAsyncExecution :: "exec_env \<Rightarrow> jsobj option \<Rightarrow> async_execution option" where
  "detectAsyncExecution env out =
     (case out of
        None \<Rightarrow> None
      | Some output \<Rightarrow>
          (let normalizedStatus = status_of_output output;
               isRunningStatus =
                 (case normalizedStatus of None \<Rightarrow> False | Some st \<Rightarrow> st \<in> set ASYNC_STATUS_VALUES);
               jobId = jobId_of_output output;
               message = message_of_output output;
               hasAsyncMessage =
                 (case message of None \<Rightarrow> False | Some m \<Rightarrow> ASYNC_MESSAGE_PATTERN_test m)
           in if \<not> isRunningStatus \<and> \<not> (jobId \<noteq> None \<and> hasAsyncMessage) then None
              else
                Some
                  \<lparr>ax_progress =
                     map_option normalizeProgress
                       (getNumber env (first_of output [''progress'', ''percentage'', ''percent''])),
                   ax_currentStep =
                     (case message of
                        Some m \<Rightarrow> Some m
                      | None \<Rightarrow> map_option (\<lambda>st. ''Status: '' @ st) normalizedStatus),
                   ax_estimatedCompletionMs =
                     getNumber env (first_of output [''estimatedCompletionMs'', ''etaMs'', ''eta_ms''])\<rparr>))"

section \<open>Block execution: usage counters\<close>

definition is_number :: "jsval \<Rightarrow> bool" where
  "is_number v = (case v of Num _ \<Rightarrow> True | _ \<Rightarrow> False)"

definition extractTokensUsed :: "jsobj option \<Rightarrow> jsval" where
  "extractTokensUsed out =
     (case out of
        None \<Rightarrow> Null
      | Some output \<Rightarrow>
          (let t1 = get_field (get_prop output ''tokens'') ''total'';
               t2 = get_field (get_prop output ''usage'') ''total_tokens'';
               t3 = get_field (get_field (get_prop output ''cost'') ''tokens'') ''total''
           in if truthy t1 then t1 else if truthy t2 then t2 else if truthy t3 then t3 else Null))"

definition extractApiCallsMade :: "jsobj option \<Rightarrow> jsval" where
  "extractApiCallsMade out =
     (case out of
        None \<Rightarrow> Num (Finite 1)
      | Some output \<Rightarrow>
          (let a = get_field (get_prop output ''usage'') ''apiCallsMade''
           in if is_number a then a else Num (Finite 1)))"

definition extractCreditsConsumed :: "jsobj option \<Rightarrow> jsval" where
  "extractCreditsConsumed out =
     (case out of
        None \<Rightarrow> Null
      | Some output \<Rightarrow>
          (let c1 = get_field (get_prop output ''usage'') ''creditsConsumed'';
               c2 = get_field (get_prop output ''cost'') ''total''
           in if is_number c1 then c1 else if is_number c2 then c2 else Null))"

definition usage_object :: "jsval \<Rightarrow> jsval \<Rightarrow> jsval \<Rightarrow> jsval" where
  "usage_object tokensUsed apiCallsMade creditsConsumed =
     Obj [(''tokensUsed'', tokensUsed), (''apiCallsMade'', apiCallsMade),
          (''creditsConsumed'', creditsConsumed)]"

section \<open>Block execution: the execution log and the stored status\<close>

datatype execution_status = Completed | Running | Failed

record timing =
  t_startedAt :: nat
  t_completedAt :: "nat option"
  t_durationMs :: "nat option"

text \<open>
  The response payload. The fields read back from the stored JSON are values of any
  kind; a property that is \<open>undefined\<close> is absent from the serialised body.
  Timestamps stay in milliseconds (their ISO rendering is not modelled).
\<close>

record BlockExecutionResponseData =
  d_executionId :: string
  d_blockType :: jsval
  d_status :: execution_status
  d_output :: jsval
  d_progress :: jsval
  d_currentStep :: jsval
  d_timing :: "timing option"
  d_usage :: jsval
  d_pollUrl :: "string option"
  d_estimatedCompletionMs :: jsval

definition pollUrl :: "string \<Rightarrow> string" where
  "pollUrl eid = ''/api/v1/executions/'' @ eid @ ''/status''"

definition opt_num :: "rat option \<Rightarrow> jsval" where
  "opt_num n = (case n of None \<Rightarrow> Undefined | Some r \<Rightarrow> Num (Finite r))"

definition buildExecutionStatusResponse ::
  "execution_log \<Rightarrow> string \<Rightarrow> BlockExecutionResponseData response" where
  "buildExecutionStatusResponse existing eid =
     (case log_endedAt existing of
        None \<Rightarrow>
          singleResponse
            \<lparr>d_executionId = eid,
             d_blockType =
               coalesce (get_field (get_field (log_executionData existing) ''request'') ''blockType'')
                 (Str ''unknown''),
             d_status = Running,
             d_output = Undefined,
             d_progress = coalesce (get_field (log_executionData existing) ''progress'') (Num (Finite 0)),
             d_currentStep =
               coalesce (get_field (log_executionData existing) ''currentStep'') (Str ''Running''),
             d_timing =
               Some \<lparr>t_startedAt = log_startedAt existing, t_completedAt = None, t_durationMs = None\<rparr>,
             d_usage = Undefined,
             d_pollUrl = Some (pollUrl eid),
             d_estimatedCompletionMs = get_field (log_executionData existing) ''estimatedCompletionMs''\<rparr>
            202
      | Some endedAt \<Rightarrow>
          (let executionData = coalesce (log_executionData existing) (Obj []);
               responseData = coalesce (get_field executionData ''response'') (Obj [])
           in singleResponse
                \<lparr>d_executionId = eid,
                 d_blockType =
                   coalesce (get_field responseData ''blockType'')
                     (coalesce (get_field (get_field executionData ''request'') ''blockType'')
                        (Str ''unknown'')),
                 d_status = (if log_level existing = ''error'' then Failed else Completed),
                 d_output = coalesce (get_field responseData ''output'') (Obj []),
                 d_progress = Undefined,
                 d_currentStep = Undefined,
                 d_timing =
                   Some \<lparr>t_startedAt = log_startedAt existing, t_completedAt = Some endedAt,
                         t_durationMs = log_totalDurationMs existing\<rparr>,
                 d_usage = get_field responseData ''usage'',
                 d_pollUrl = None,
                 d_estimatedCompletionMs = Undefined\<rparr>
                200))"

text \<open>
  \<open>logExecutionStart\<close>: a row in state running (no end time, level \<open>info\<close>). The
  insert is written with \<open>onConflictDoNothing\<close>; the row's primary key is a fresh
  random UUID and requests are handled one after the other here, so the conflict clause
  never applies and the row is always added.
\<close>

definition logExecutionStart ::
  "exec_env \<Rightarrow> exec_world \<Rightarrow> string \<Rightarrow> string \<Rightarrow> string \<Rightarrow> string option \<Rightarrow> string \<Rightarrow>
     string option \<Rightarrow> string option \<Rightarrow> string option \<Rightarrow> jsobj \<Rightarrow> exec_world" where
  "logExecutionStart env w eid workspaceId blockType blockVersion callerUserId callerWorkspaceId
       callerWorkflowId callerNodeId requestData =
     (let (rid, w1) = exec_randomUUID env w;
          row = \<lparr>log_id = rid, log_workspaceId = workspaceId, log_executionId = eid,
                 log_level = ''info'', log_trigger = ''api'', log_startedAt = xw_clock w1,
                 log_endedAt = None, log_totalDurationMs = None,
                 log_executionData = Obj [(''request'', Obj requestData), (''status'', Str ''running'')],
                 log_blockType = blockType, log_blockVersion = blockVersion,
                 log_callerId = CANVAS_PROVIDER_ID, log_callerUserId = callerUserId,
                 log_callerWorkspaceId = callerWorkspaceId,
                 log_callerWorkflowId = callerWorkflowId, log_callerNodeId = callerNodeId,
                 log_apiCallsMade = Null, log_creditsConsumed = Null\<rparr>
      in w1\<lparr>xw_logs := xw_logs w1 @ [row]\<rparr>)"

text \<open>An update of the rows with the given execution id.\<close>

definition update_logs :: "exec_world \<Rightarrow> string \<Rightarrow> (execution_log \<Rightarrow> execution_log) \<Rightarrow> exec_world" where
  "update_logs w eid f =
     w\<lparr>xw_logs := map (\<lambda>l. if log_executionId l = eid then f l else l) (xw_logs w)\<rparr>"

definition status_word :: "bool \<Rightarrow> string" where
  "status_word ok = (if ok then ''completed'' else ''failed'')"

text \<open>
  \<open>logExecutionCompletion\<close>: the terminal write. It sets the end time, the duration,
  the level (\<open>error\<close> for a failure) and the stored response; a usage counter that is
  \<open>null\<close> leaves its column as it is.
\<close>

definition logExecutionCompletion ::
  "exec_world \<Rightarrow> string \<Rightarrow> nat \<Rightarrow> bool \<Rightarrow> jsobj \<Rightarrow> string option \<Rightarrow> jsval \<Rightarrow> jsval \<Rightarrow> jsval \<Rightarrow>
     jsobj \<Rightarrow> string \<Rightarrow> exec_world" where
  "logExecutionCompletion w eid durationMs ok output err tokensUsed apiCallsMade creditsConsumed
       requestData responseBlockType =
     update_logs w eid
       (\<lambda>l. l\<lparr>log_endedAt := Some (xw_clock w),
              log_totalDurationMs := Some durationMs,
              log_level := (if ok then ''info'' else ''error''),
              log_executionData :=
                Obj [(''request'', Obj requestData),
                     (''response'',
                        Obj [(''blockType'', Str responseBlockType), (''output'', Obj output),
                             (''error'', opt_str err),
                             (''usage'', usage_object tokensUsed apiCallsMade creditsConsumed),
                             (''success'', Bool ok), (''status'', Str (status_word ok)),
                             (''durationMs'', Num (Finite (of_nat durationMs))),
                             (''completedAt'', Num (Finite (of_nat (xw_clock w))))]),
                     (''status'', Str (status_word ok))],
              log_apiCallsMade := (if nullish apiCallsMade then log_apiCallsMade l else apiCallsMade),
              log_creditsConsumed :=
                (if creditsConsumed = Null then log_creditsConsumed l else creditsConsumed)\<rparr>)"

text \<open>\<open>logExecutionRunning\<close>: progress of an asynchronous job; the row stays running.\<close>

definition logExecutionRunning ::
  "exec_world \<Rightarrow> string \<Rightarrow> nat \<Rightarrow> jsobj \<Rightarrow> jsval \<Rightarrow> jsval \<Rightarrow> jsval \<Rightarrow> jsobj \<Rightarrow> string \<Rightarrow>
     async_execution \<Rightarrow> exec_world" where
  "logExecutionRunning w eid durationMs output tokensUsed apiCallsMade creditsConsumed requestData
       responseBlockType ax =
     update_logs w eid
       (\<lambda>l. l\<lparr>log_executionData :=
                Obj [(''request'', Obj requestData),
                     (''response'',
                        Obj [(''blockType'', Str responseBlockType), (''output'', Obj output),
                             (''usage'', usage_object tokensUsed apiCallsMade creditsConsumed),
                             (''success'', Bool True), (''status'', Str ''running''),
                             (''durationMs'', Num (Finite (of_nat durationMs)))]),
                     (''status'', Str ''running''),
                     (''progress'', opt_num (ax_progress ax)),
                     (''currentStep'', opt_str (ax_currentStep ax)),
                     (''estimatedCompletionMs'', opt_num (ax_estimatedCompletionMs ax))],
              log_apiCallsMade := (if nullish apiCallsMade then log_apiCallsMade l else apiCallsMade),
              log_creditsConsumed :=
                (if creditsConsumed = Null then log_creditsConsumed l else creditsConsumed)\<rparr>)"

section \<open>Block execution: the handler\<close>

text \<open>
  The execution id:
  \<open>context?.executionId ?? serviceContext.idempotencyKey ?? crypto.randomUUID()\<close>.
  A UUID is drawn only when both are absent.
\<close>

definition context_executionId :: "BlockExecutionRequest \<Rightarrow> string option" where
  "context_executionId d = (case br_context d of None \<Rightarrow> None | Some c \<Rightarrow> rc_executionId c)"

definition context_workflowId :: "BlockExecutionRequest \<Rightarrow> string option" where
  "context_workflowId d = (case br_context d of None \<Rightarrow> None | Some c \<Rightarrow> rc_workflowId c)"

definition context_nodeId :: "BlockExecutionRequest \<Rightarrow> string option" where
  "context_nodeId d = (case br_context d of None \<Rightarrow> None | Some c \<Rightarrow> rc_nodeId c)"

definition chooseExecutionId ::
  "exec_env \<Rightarrow> exec_world \<Rightarrow> CanvasRequestContext \<Rightarrow> BlockExecutionRequest \<Rightarrow> string \<times> exec_world" where
  "chooseExecutionId env w sc d =
     (case context_executionId d of
        Some eid \<Rightarrow> (eid, w)
      | None \<Rightarrow>
          (case ctx_idempotencyKey sc of
             Some k \<Rightarrow> (k, w)
           | None \<Rightarrow> exec_randomUUID env w))"

text \<open>
  The \<open>catch\<close> of the handler. With the log started and the execution id and block
  type not empty it writes the terminal failure to the execution log, whatever was thrown,
  and then maps the error: \<open>EXECUTION_TIMEOUT\<close> to 504, anything else to 500.
\<close>

definition POST_catch ::
  "exec_world \<Rightarrow> nat \<Rightarrow> string \<Rightarrow> jsobj option \<Rightarrow> string option \<Rightarrow> bool \<Rightarrow> js_error \<Rightarrow>
     BlockExecutionResponseData response \<times> exec_world" where
  "POST_catch w startTime eid requestPayload responseBlockType logStarted err =
     (let durationMs = xw_clock w - startTime;
          errorMessage = (case err of Error m \<Rightarrow> m | Thrown _ \<Rightarrow> ''Unknown error'');
          w1 = (case (requestPayload, responseBlockType) of
                  (Some rp, Some bt) \<Rightarrow>
                    if logStarted \<and> eid \<noteq> [] \<and> bt \<noteq> []
                    then logExecutionCompletion w eid durationMs False [] (Some errorMessage)
                           Null Null Null rp bt
                    else w
                | _ \<Rightarrow> w);
          details = Obj [(''executionId'', Str eid),
                         (''durationMs'', Num (Finite (of_nat durationMs)))]
      in if err = Error ''EXECUTION_TIMEOUT''
         then (errorResponse ''TIMEOUT'' ''Execution exceeded timeout'' 504 (Some details) None, w1)
         else (errorResponse ''EXECUTION_FAILED'' errorMessage 500 (Some details) None, w1))"

text \<open>After the tool has answered: usage, asynchronous job or terminal write, response.\<close>

definition finish_execution ::
  "exec_env \<Rightarrow> exec_world \<Rightarrow> nat \<Rightarrow> string \<Rightarrow> jsobj \<Rightarrow> BlockConfig \<Rightarrow> ToolResponse \<Rightarrow>
     BlockExecutionResponseData response \<times> exec_world" where
  "finish_execution env w startTime eid requestPayload blockConfig result =
     (let endTime = xw_clock w;
          durationMs = endTime - startTime;
          tokensUsed = extractTokensUsed (tr_output result);
          apiCallsMade = extractApiCallsMade (tr_output result);
          creditsConsumed = extractCreditsConsumed (tr_output result);
          output = (case tr_output result of None \<Rightarrow> [] | Some out \<Rightarrow> out);
          asyncExecution =
            (if tr_success result then detectAsyncExecution env (tr_output result) else None)
      in case asyncExecution of
           Some ax \<Rightarrow>
             (singleResponse
                \<lparr>d_executionId = eid, d_blockType = Str (bc_type blockConfig),
                 d_status = Running, d_output = Undefined,
                 d_progress = opt_num (ax_progress ax),
                 d_currentStep = opt_str (ax_currentStep ax),
                 d_timing = None, d_usage = Undefined, d_pollUrl = Some (pollUrl eid),
                 d_estimatedCompletionMs = opt_num (ax_estimatedCompletionMs ax)\<rparr> 202,
              logExecutionRunning w eid durationMs (redactApiKeys env output) tokensUsed
                apiCallsMade creditsConsumed requestPayload (bc_type blockConfig) ax)
         | None \<Rightarrow>
             (let w1 = logExecutionCompletion w eid durationMs (tr_success result)
                         (redactApiKeys env output) (tr_error result) tokensUsed apiCallsMade
                         creditsConsumed requestPayload (bc_type blockConfig)
              in if \<not> tr_success result then
                   (let errorMessage =
                          (case tr_error result of None \<Rightarrow> ''Block execution failed'' | Some m \<Rightarrow> m);
                        lowerMessage = toLowerCase errorMessage;
                        isMissingCredentials =
                          (str_includes lowerMessage ''credential'' \<or>
                           str_includes lowerMessage ''oauth'' \<or>
                           str_includes lowerMessage ''api key'')
                    in (errorResponse
                          (if isMissingCredentials then ''MISSING_CREDENTIALS'' else ''EXECUTION_FAILED'')
                          errorMessage (if isMissingCredentials then 400 else 500)
                          (Some (Obj [(''executionId'', Str eid),
                                      (''blockType'', Str (bc_type blockConfig))])) None,
                        w1))
                 else
                   (singleResponse
                      \<lparr>d_executionId = eid, d_blockType = Str (bc_type blockConfig),
                       d_status = Completed, d_output = Obj output, d_progress = Undefined,
                       d_currentStep = Undefined,
                       d_timing =
                         Some \<lparr>t_startedAt = startTime, t_completedAt = Some endTime,
                               t_durationMs = Some durationMs\<rparr>,
                       d_usage = usage_object tokensUsed apiCallsMade creditsConsumed,
                       d_pollUrl = None, d_estimatedCompletionMs = Undefined\<rparr> 200,
                    w1)))"

text \<open>The tool inputs: the hydrated parameters plus the \<open>_context\<close> property.\<close>

definition toolInputs_of ::
  "CanvasRequestContext \<Rightarrow> BlockExecutionRequest \<Rightarrow> string \<Rightarrow> string \<Rightarrow> ExecutionContext \<Rightarrow>
     jsobj \<Rightarrow> jsobj" where
  "toolInputs_of sc d eid simUserId executionContext hydratedParams =
     obj_spread hydratedParams
       [(''_context'',
         Obj [(''workflowId'', Str (ec_workflowId executionContext)),
              (''workspaceId'', Str (ec_workspaceId executionContext)),
              (''executionId'', Str eid), (''userId'', Str simUserId),
              (''isCanvasExecution'', Bool True),
              (''canvasWorkspaceId'', opt_str (ctx_canvasWorkspaceId sc)),
              (''canvasNodeId'', opt_str (context_nodeId d)),
              (''canvasWorkflowId'', opt_str (context_workflowId d))])]"

text \<open>The request snapshot kept in the log, with the parameters redacted.\<close>

definition requestPayload_of ::
  "exec_env \<Rightarrow> CanvasRequestContext \<Rightarrow> BlockExecutionRequest \<Rightarrow> string \<Rightarrow> string \<Rightarrow> string \<Rightarrow>
     jsobj \<Rightarrow> jsobj" where
  "requestPayload_of env sc d eid canvasUserId toolId hydratedParams =
     [(''requestId'', Str (case ctx_requestId sc of Some r \<Rightarrow> r | None \<Rightarrow> eid)),
      (''idempotencyKey'', opt_str (ctx_idempotencyKey sc)),
      (''serviceKeyPrefix'', Str (keyPrefix sc)),
      (''serviceName'', Str (serviceName sc)),
      (''ipAddress'', opt_str (ctx_ipAddress sc)),
      (''userAgent'', opt_str (ctx_userAgent sc)),
      (''blockType'', Str (br_blockType d)),
      (''blockVersion'', opt_str (br_blockVersion d)),
      (''toolId'', Str toolId),
      (''params'', Obj (redactApiKeys env hydratedParams)),
      (''context'',
       Obj [(''canvasUserId'', Str canvasUserId),
            (''canvasWorkspaceId'', opt_str (ctx_canvasWorkspaceId sc)),
            (''canvasWorkflowId'', opt_str (context_workflowId d)),
            (''canvasNodeId'', opt_str (context_nodeId d))])]"

text \<open>\<open>options?.timeout ?? DEFAULT_EXECUTION_TIMEOUT_MS\<close> and \<open>options?.retryOnFailure ?? false\<close>.\<close>

definition timeoutMs_of :: "BlockExecutionRequest \<Rightarrow> nat" where
  "timeoutMs_of d = (case options_timeout d of Some t \<Rightarrow> t | None \<Rightarrow> DEFAULT_EXECUTION_TIMEOUT_MS)"

definition retryOnFailure_of :: "BlockExecutionRequest \<Rightarrow> bool" where
  "retryOnFailure_of d = (case options_retryOnFailure d of Some b \<Rightarrow> b | None \<Rightarrow> False)"

text \<open>
  From the resolved user and workspace on: the log row is inserted, then the tool runs
  under the timeout with the optional retry; a thrown error goes to the \<open>catch\<close>.
\<close>

definition run_block ::
  "exec_env \<Rightarrow> exec_world \<Rightarrow> CanvasRequestContext \<Rightarrow> BlockExecutionRequest \<Rightarrow> nat \<Rightarrow> string \<Rightarrow>
     string \<Rightarrow> BlockConfig \<Rightarrow> jsobj \<Rightarrow> string \<Rightarrow> string \<Rightarrow> string \<Rightarrow>
     BlockExecutionResponseData response \<times> exec_world" where
  "run_block env w sc d startTime eid canvasUserId blockConfig hydratedParams toolId simUserId
       workspaceId =
     (let executionContext =
            buildCanvasExecutionContext eid workspaceId simUserId (context_workflowId d);
          toolInputs = toolInputs_of sc d eid simUserId executionContext hydratedParams;
          requestPayload = requestPayload_of env sc d eid canvasUserId toolId hydratedParams;
          w1 = logExecutionStart env w eid workspaceId (bc_type blockConfig) (br_blockVersion d)
                 canvasUserId (ctx_canvasWorkspaceId sc) (context_workflowId d)
                 (context_nodeId d) requestPayload
      in case executeWithRetry env w1 toolId toolInputs executionContext (timeoutMs_of d)
                (retryOnFailure_of d) of
           (Inl err, w2) \<Rightarrow>
             POST_catch w2 startTime eid (Some requestPayload) (Some (bc_type blockConfig)) True err
         | (Inr result, w2) \<Rightarrow>
             finish_execution env w2 startTime eid requestPayload blockConfig result)"

text \<open>\<open>data.params ?? data.inputs ?? {}\<close>.\<close>

definition params_of :: "BlockExecutionRequest \<Rightarrow> jsobj" where
  "params_of d =
     (case br_params d of
        Some ps \<Rightarrow> ps
      | None \<Rightarrow> (case br_inputs d of Some i \<Rightarrow> i | None \<Rightarrow> []))"

text \<open>
  \<open>presetToolId ?? resolveToolId(blockConfig, hydratedParams)\<close>; the empty string stands
  for \<open>null\<close>, which \<open>!toolId\<close> rejects like the empty string itself.
\<close>

definition chosen_toolId :: "BlockConfig \<Rightarrow> string option \<Rightarrow> jsobj \<Rightarrow> string" where
  "chosen_toolId blockConfig presetToolId hydratedParams =
     (case presetToolId of
        Some t \<Rightarrow> t
      | None \<Rightarrow> (case resolveToolId blockConfig hydratedParams of Some t \<Rightarrow> t | None \<Rightarrow> []))"

text \<open>
  The handler on a validated body: the user header, the execution id, the idempotency
  check, then the resolution of the block, the tool, the user and the workspace.
\<close>

definition execute_validated ::
  "exec_env \<Rightarrow> exec_world \<Rightarrow> CanvasRequestContext \<Rightarrow> BlockExecutionRequest \<Rightarrow>
     BlockExecutionResponseData response \<times> exec_world" where
  "execute_validated env w sc d =
     (let startTime = xw_clock w;
          canvasUserId = (case ctx_canvasUserId sc of None \<Rightarrow> [] | Some u \<Rightarrow> u)
      in if canvasUserId = [] then (badRequestResponse ''Missing X-Canvas-User-Id header'' None, w)
         else
           (let (eid, w1) = chooseExecutionId env w sc d
            in case findExistingExecution w1 eid of
                 Some existing \<Rightarrow> (buildExecutionStatusResponse existing eid, w1)
               | None \<Rightarrow>
                   (case resolveBlock env (br_blockType d) of
                      None \<Rightarrow>
                        (errorResponse ''INVALID_BLOCK_TYPE'' ''Unknown block type'' 400
                           (Some (Obj [(''blockType'', Str (br_blockType d))])) None, w1)
                    | Some (blockConfig, presetToolId) \<Rightarrow>
                        (let hydratedParams = bc_transforms blockConfig (params_of d);
                             toolId = chosen_toolId blockConfig presetToolId hydratedParams
                         in if toolId = [] then
                              (errorResponse ''INVALID_BLOCK_TYPE''
                                 ''Unable to resolve tool for block type'' 400
                                 (Some (Obj [(''blockType'', Str (br_blockType d))])) None, w1)
                            else
                              (case findLinkedSimUser w1 canvasUserId of
                                 None \<Rightarrow>
                                   (errorResponse ''USER_NOT_PROVISIONED''
                                      ''Canvas user not linked to Sim Studio. Call /users/provision first.''
                                      404 None None, w1)
                               | Some simUserId \<Rightarrow>
                                   (case findUserWorkspace w1 simUserId of
                                      None \<Rightarrow> (internalErrorResponse ''User workspace not found'', w1)
                                    | Some workspaceId \<Rightarrow>
                                        run_block env w1 sc d startTime eid canvasUserId blockConfig
                                          hydratedParams toolId simUserId workspaceId))))))"

text \<open>
  \<open>POST /blocks/execute\<close> behind the authentication wrapper. A body that cannot be
  read throws into the \<open>catch\<close> before anything was logged.
\<close>

definition POST_execute ::
  "exec_env \<Rightarrow> exec_world \<Rightarrow> CanvasRequestContext \<Rightarrow> BlockExecutionRequest parsed_body \<Rightarrow>
     BlockExecutionResponseData response \<times> exec_world" where
  "POST_execute env w sc parsed =
     (case parsed of
        JsonError msg \<Rightarrow> POST_catch w (xw_clock w) [] None None False (Error msg)
      | Invalid errors \<Rightarrow> (badRequestResponse ''Validation failed'' (Some errors), w)
      | Valid shaped \<Rightarrow>
          (case executeRequestSchema shaped of
             Valid d \<Rightarrow> execute_validated env w sc d
           | Invalid errors \<Rightarrow> (badRequestResponse ''Validation failed'' (Some errors), w)
           | JsonError msg \<Rightarrow> POST_catch w (xw_clock w) [] None None False (Error msg)))"

section \<open>The execution status endpoint (executions/[executionId]/status/route.ts)\<close>

text \<open>
  \<open>GET /executions/:executionId/status\<close>: read-only, driven by the stored row; a
  failing query is answered like a missing execution.
\<close>

definition GET_status ::
  "exec_world \<Rightarrow> bool \<Rightarrow> string \<Rightarrow> BlockExecutionResponseData response" where
  "GET_status w query_fault eid =
     (if query_fault then notFoundResponse ''Execution''
      else
        (case filter (\<lambda>l. log_executionId l = eid) (xw_logs w) of
           [] \<Rightarrow> notFoundResponse ''Execution''
         | row # _ \<Rightarrow>
             (let executionData = coalesce (log_executionData row) (Obj []);
                  requestData = coalesce (get_field executionData ''request'') (Obj []);
                  responseData = coalesce (get_field executionData ''response'') (Obj [])
              in case log_endedAt row of
                   None \<Rightarrow>
                     \<lparr>status = 200,
                      body = ApiSuccess
                        \<lparr>d_executionId = eid,
                         d_blockType = coalesce (get_field requestData ''blockType'') (Str ''unknown''),
                         d_status = Running, d_output = Undefined,
                         d_progress = coalesce (get_field executionData ''progress'') (Num (Finite 0)),
                         d_currentStep =
                           coalesce (get_field executionData ''currentStep'') (Str ''Running''),
                         d_timing =
                           Some \<lparr>t_startedAt = log_startedAt row, t_completedAt = None,
                                 t_durationMs = None\<rparr>,
                         d_usage = Undefined, d_pollUrl = Some (pollUrl eid),
                         d_estimatedCompletionMs = get_field executionData ''estimatedCompletionMs''\<rparr>\<rparr>
                 | Some endedAt \<Rightarrow>
                     \<lparr>status = 200,
                      body = ApiSuccess
                        \<lparr>d_executionId = eid,
                         d_blockType =
                           coalesce (get_field responseData ''blockType'')
                             (coalesce (get_field requestData ''blockType'') (Str ''unknown'')),
                         d_status = (if log_level row = ''error'' then Failed else Completed),
                         d_output = coalesce (get_field responseData ''output'') (Obj []),
                         d_progress = Undefined, d_currentStep = Undefined,
                         d_timing =
                           Some \<lparr>t_startedAt = log_startedAt row, t_completedAt = Some endedAt,
                                 t_durationMs = log_totalDurationMs row\<rparr>,
                         d_usage = get_field responseData ''usage'',
                         d_pollUrl = None, d_estimatedCompletionMs = Undefined\<rparr>\<rparr>)))"

section \<open>The specification's reading of the display name\<close>

text \<open>
  The specification derives the name from the local part of the email, the part before
  the first \<open>@\<close>: it is cut at the delimiters \<open>.\<close>, \<open>_\<close> and \<open>-\<close>, a run of
  delimiters counting as one cut, and the segments are joined, one space between
  neighbours.
\<close>

definition local_part :: "string \<Rightarrow> string" where
  "local_part e = takeWhile (\<lambda>c. c \<noteq> CHR ''@'') e"

definition spec_delimiter :: "char \<Rightarrow> bool" where
  "spec_delimiter c = (c \<in> set ''._-'')"

function spec_segments :: "string \<Rightarrow> string list" where
  "spec_segments s =
     (let seg = takeWhile (\<lambda>c. \<not> spec_delimiter c) s;
          rest = dropWhile (\<lambda>c. \<not> spec_delimiter c) s
      in if rest = [] then [seg] else seg # spec_segments (dropWhile spec_delimiter rest))"
  by pat_completeness auto
termination
proof (relation "measure length", goal_cases)
  case 1
  then show ?case by simp
next
  case (2 s seg rest)
  have "dropWhile (\<lambda>c. \<not> spec_delimiter c) t \<noteq> [] \<Longrightarrow>
        length (dropWhile spec_delimiter (dropWhile (\<lambda>c. \<not> spec_delimiter c) t)) < length t" for t
  proof (induction t)
    case Nil
    then show ?case by simp
  next
    case (Cons c cs)
    then show ?case
      by (cases "spec_delimiter c") (auto simp: less_Suc_eq_le length_dropWhile_le)
  qed
  with 2 show ?case by simp
qed

declare spec_segments.simps [simp del]

definition spaced :: "string list \<Rightarrow> string" where
  "spaced segs = (case segs of [] \<Rightarrow> [] | x # xs \<Rightarrow> x @ concat (map (\<lambda>y. CHR '' '' # y) xs))"

text \<open>
  Title case, as the specification words it: the first letter of a segment in upper
  case, the letters after it in lower case.
\<close>

definition title_case :: "string \<Rightarrow> string" where
  "title_case seg = toUpperCase (take 1 seg) @ toLowerCase (drop 1 seg)"

definition spec_name :: "string \<Rightarrow> string" where
  "spec_name e =
     (if local_part e = [] then ''Canvas User''
      else spaced (map title_case (spec_segments (local_part e))))"

text \<open>
  The weaker reading that the route satisfies: only the first code unit of a segment is
  put in upper case, the code units after it stay as they are.
\<close>

definition first_upper :: "string \<Rightarrow> string" where
  "first_upper seg = (case seg of [] \<Rightarrow> [] | c # cs \<Rightarrow> toUpperChar c @ cs)"

section \<open>The specification's reading of the fields of an output\<close>

text \<open>
  The text of a field that an output may carry under several names: the first of the
  named properties that is neither \<open>undefined\<close> nor \<open>null\<close> counts; it gives a text
  only if it is a string that is not blank, and the text is that string without the white
  space around it.
\<close>

definition spec_field_text :: "jsobj \<Rightarrow> string list \<Rightarrow> string option" where
  "spec_field_text output names =
     (case List.find (\<lambda>v. v \<noteq> Undefined \<and> v \<noteq> Null) (map (get_prop output) names) of
        Some (Str s) \<Rightarrow> if trim s = [] then None else Some (trim s)
      | _ \<Rightarrow> None)"

section \<open>Observations on responses and on the execution state\<close>

text \<open>The status of the payload of a success body, and the code of an error body.\<close>

definition payload_status :: "BlockExecutionResponseData response \<Rightarrow> execution_status option" where
  "payload_status r = (case body r of ApiSuccess p \<Rightarrow> Some (d_status p) | ApiError _ _ _ _ \<Rightarrow> None)"

definition response_code :: "'a response \<Rightarrow> string option" where
  "response_code r = (case body r of ApiSuccess _ \<Rightarrow> None | ApiError _ code _ _ \<Rightarrow> code)"

text \<open>How often the tool has been invoked for an execution id.\<close>

definition invocations :: "exec_world \<Rightarrow> string \<Rightarrow> nat" where
  "invocations w eid = length (filter (\<lambda>c. ec_executionId (call_context c) = eid) (xw_calls w))"

text \<open>The execution ids of the log rows, in table order.\<close>

definition log_ids :: "exec_world \<Rightarrow> string list" where
  "log_ids w = map log_executionId (xw_logs w)"

text \<open>The request body asks for the automatic retry.\<close>

definition retry_requested :: "BlockExecutionRequest parsed_body \<Rightarrow> bool" where
  "retry_requested b = (case b of Valid d \<Rightarrow> options_retryOnFailure d = Some True | _ \<Rightarrow> False)"

text \<open>A sequence of requests handled one after the other.\<close>

fun run_requests ::
  "exec_env \<Rightarrow> exec_world \<Rightarrow> (CanvasRequestContext \<times> BlockExecutionRequest parsed_body) list \<Rightarrow>
     exec_world" where
  "run_requests env w [] = w"
| "run_requests env w ((sc, b) # rs) = run_requests env (snd (POST_execute env w sc b)) rs"

text \<open>The number of requests of the sequence that invoke the tool for the execution id.\<close>

fun invoking_requests ::
  "exec_env \<Rightarrow> exec_world \<Rightarrow> (CanvasRequestContext \<times> BlockExecutionRequest parsed_body) list \<Rightarrow>
     string \<Rightarrow> nat" where
  "invoking_requests env w [] eid = 0"
| "invoking_requests env w ((sc, b) # rs) eid =
     (if invocations w eid < invocations (snd (POST_execute env w sc b)) eid then 1 else 0) +
     invoking_requests env (snd (POST_execute env w sc b)) rs eid"

text \<open>The tool call settles before a timer of \<open>t\<close> milliseconds fires.\<close>

definition settles_within :: "tool_behaviour \<Rightarrow> nat \<Rightarrow> bool" where
  "settles_within b t = (case b of Resolves d _ \<Rightarrow> d < t | Rejects d _ \<Rightarrow> d < t | Never \<Rightarrow> False)"

section \<open>Concrete inputs\<close>

text \<open>
  Small concrete states and requests on which the properties below are exercised:
  provisioning requests without a display name on an empty database; an inactive service
  key; a storage adapter that is down; and, for the execution route, a catalog with one
  block, a linked user with a workspace, and tools that succeed, answer with a queued job,
  report a failure, fail first and then throw, or never answer.
\<close>

definition john_request :: UserProvisioningRequest where
  "john_request = \<lparr>req_canvasUserId = ''11111111-1111-1111-1111-111111111111'',
          req_email = ''john.doe@example.com'', req_name = None, req_workspaceId = None,
          req_metadata = None\<rparr>"

definition unnamed_request :: "string \<Rightarrow> UserProvisioningRequest" where
  "unnamed_request email =
     \<lparr>req_canvasUserId = ''22222222-2222-2222-2222-222222222222'', req_email = email,
      req_name = None, req_workspaceId = None, req_metadata = None\<rparr>"

definition demo_prov_env :: prov_env where
  "demo_prov_env = \<lparr>uuid = (\<lambda>n. ''uuid-'' @ replicate n CHR ''x''), now = 1000,
                      write_fault = None, seed_fault = False\<rparr>"

definition empty_db :: prov_db where
  "empty_db = \<lparr>users = [], accounts = [], userStats = [], workspaces = [], permissions = [],
                 workflows = [], seeded = [], uuid_counter = 0\<rparr>"

definition demo_auth_env :: auth_env where
  "demo_auth_env = \<lparr>hashKey = (\<lambda>k. ''hash:'' @ k), JSON_parse = (\<lambda>s. None), auth_now = 5000,
                     select_fault = False, update_fault = False\<rparr>"

definition inactive_key :: service_api_key where
  "inactive_key =
     \<lparr>key_id = ''key-id'', key_keyHash = ''hash:sim_svc_inactive'', key_keyPrefix = ''sim_svc_inactive'',
      key_serviceName = ''canvas'', key_permissions = Arr [Str ''blocks:list''],
      key_rateLimitPerMinute = None, key_rateLimitPerDay = None, key_isActive = False,
      key_expiresAt = None, key_lastUsedAt = None, key_metadata = Obj []\<rparr>"

definition failing_storage :: "unit storage" where
  "failing_storage st key tokens config = (Inl ''storage unavailable'', st)"

definition limited_context :: CanvasRequestContext where
  "limited_context =
     \<lparr>serviceName = ''canvas'', keyId = ''key-id'', keyPrefix = ''sim_svc_'', scopes = [''blocks:execute''],
      rateLimitPerMinute = None, rateLimitPerDay = None, metadata = Obj [],
      ctx_canvasUserId = Some ''canvas-user-1'', ctx_canvasWorkspaceId = None,
      ctx_requestId = None, ctx_idempotencyKey = None, ctx_ipAddress = None,
      ctx_userAgent = None\<rparr>"

definition gmail_block :: BlockConfig where
  "gmail_block = \<lparr>bc_type = ''gmail'', bc_transforms = (\<lambda>ps. ps), bc_tool = None,
                  bc_access = [''gmail_send'']\<rparr>"

definition ok_response :: ToolResponse where
  "ok_response = \<lparr>tr_success = True, tr_output = Some [(''messageId'', Str ''msg-1'')], tr_error = None\<rparr>"

definition failed_response :: ToolResponse where
  "failed_response = \<lparr>tr_success = False, tr_output = None, tr_error = Some ''mailbox unavailable''\<rparr>"

definition ok_behaviour :: "nat \<Rightarrow> tool_behaviour" where
  "ok_behaviour n = Resolves 5 ok_response"

definition queued_response :: ToolResponse where
  "queued_response = \<lparr>tr_success = True, tr_output = Some [(''state'', Str '' Queued '')], tr_error = None\<rparr>"

definition queued_behaviour :: "nat \<Rightarrow> tool_behaviour" where
  "queued_behaviour n = Resolves 5 queued_response"

definition never_behaviour :: "nat \<Rightarrow> tool_behaviour" where
  "never_behaviour n = Never"

definition failing_behaviour :: "nat \<Rightarrow> tool_behaviour" where
  "failing_behaviour n = Resolves 5 failed_response"

definition flaky_behaviour :: "nat \<Rightarrow> tool_behaviour" where
  "flaky_behaviour n =
     (if n = 0 then Resolves 5 failed_response
      else if n = 1 then Rejects 3 (Error ''connection reset'')
      else Resolves 5 ok_response)"

definition demo_env :: "(nat \<Rightarrow> tool_behaviour) \<Rightarrow> exec_env" where
  "demo_env behaviour =
     \<lparr>getBlock = (\<lambda>t. if t = ''gmail'' then Some gmail_block else None),
      getBlockByToolName = (\<lambda>t. None),
      executeTool = (\<lambda>n c. behaviour n),
      redactApiKeys = (\<lambda>ps. ps),
      toNumber = (\<lambda>s. NaN),
      exec_uuid = (\<lambda>n. ''uuid-'' @ replicate n CHR ''x'')\<rparr>"

definition demo_db :: prov_db where
  "demo_db =
     \<lparr>users = [],
      accounts = [\<lparr>account_id = ''link-1'', account_accountId = ''canvas-user-1'',
                   account_providerId = ''canvas'', account_userId = ''sim-user-1'',
                   account_scope = [], account_createdAt = 0, account_updatedAt = 0\<rparr>],
      userStats = [],
      workspaces = [\<lparr>workspace_id = ''workspace-1'', workspace_name = ''Workspace'',
                     workspace_ownerId = ''sim-user-1'', workspace_billedAccountUserId = ''sim-user-1'',
                     workspace_allowPersonalApiKeys = True, workspace_createdAt = 0,
                     workspace_updatedAt = 0\<rparr>],
      permissions = [], workflows = [], seeded = [], uuid_counter = 0\<rparr>"

definition demo_world :: exec_world where
  "demo_world = \<lparr>xw_db = demo_db, xw_logs = [], xw_calls = [], xw_clock = 1000\<rparr>"

definition demo_context :: "string option \<Rightarrow> CanvasRequestContext" where
  "demo_context idem =
     \<lparr>serviceName = ''canvas'', keyId = ''key-id'', keyPrefix = ''sim_svc_'', scopes = [''blocks:execute''],
      rateLimitPerMinute = None, rateLimitPerDay = None, metadata = Obj [],
      ctx_canvasUserId = Some ''canvas-user-1'', ctx_canvasWorkspaceId = None,
      ctx_requestId = None, ctx_idempotencyKey = idem, ctx_ipAddress = None,
      ctx_userAgent = None\<rparr>"

definition demo_request :: "string option \<Rightarrow> bool \<Rightarrow> BlockExecutionRequest" where
  "demo_request eid retry =
     \<lparr>br_blockType = ''gmail'', br_params = Some [(''to'', Str ''a@b.com'')], br_inputs = None,
      br_blockVersion = None,
      br_context = Some \<lparr>rc_workflowId = None, rc_executionId = eid, rc_nodeId = None\<rparr>,
      br_options = Some \<lparr>opt_timeout = Some 1000, opt_retryOnFailure = Some retry\<rparr>\<rparr>"

definition demo_execution_context :: ExecutionContext where
  "demo_execution_context =
     \<lparr>ec_workflowId = ''canvas-exec-1'', ec_workspaceId = ''workspace-1'',
      ec_executionId = ''exec-1'', ec_userId = ''sim-user-1''\<rparr>"

definition running_row :: execution_log where
  "running_row =
     \<lparr>log_id = ''row-1'', log_workspaceId = ''workspace-1'', log_executionId = ''exec-1'',
      log_level = ''info'', log_trigger = ''api'', log_startedAt = 900, log_endedAt = None,
      log_totalDurationMs = None,
      log_executionData = Obj [(''request'', Obj [(''blockType'', Str ''gmail'')]),
                               (''status'', Str ''running'')],
      log_blockType = ''gmail'', log_blockVersion = None, log_callerId = ''canvas'',
      log_callerUserId = ''canvas-user-1'', log_callerWorkspaceId = None,
      log_callerWorkflowId = None, log_callerNodeId = None, log_apiCallsMade = Null,
      log_creditsConsumed = Null\<rparr>"

definition replay_world :: exec_world where
  "replay_world = \<lparr>xw_db = demo_db, xw_logs = [running_row], xw_calls = [], xw_clock = 1000\<rparr>"

definition demo_sequence :: "(CanvasRequestContext \<times> BlockExecutionRequest parsed_body) list" where
  "demo_sequence =
     [(demo_context None, Valid (demo_request (Some ''exec-1'') False)),
      (demo_context None, Valid (demo_request (Some ''exec-1'') False))]"

text \<open>The rows of the join that \<open>findExistingCanvasLink\<close> selects from.\<close>

definition joined_links :: "prov_db \<Rightarrow> string \<Rightarrow> (account_row \<times> user_row) list" where
  "joined_links db cid =
     [(a, u). a \<leftarrow> accounts db, u \<leftarrow> users db,
              account_userId a = user_id u,
              account_accountId a = cid \<and> account_providerId a = CANVAS_PROVIDER_ID]"

section \<open>The derived display name\<close>

lemma split_at_first_eq: "split_at_first e = local_part e"
  by (induction e) (auto simp: local_part_def)

lemma isDelimiter_eq: "isDelimiter = spec_delimiter"
  by (rule ext) (auto simp: isDelimiter_def spec_delimiter_def)

lemma capitalize_eq: "capitalize = first_upper"
  by (rule ext) (simp add: capitalize_def first_upper_def toUpperCase_def split: list.splits)

lemma case_examples:
  "toUpperCase ''john'' = ''JOHN''"
  "toLowerCase ''J. Doe-X_9'' = ''j. doe-x_9''"
  "toUpperCase [char_of (233::nat), char_of (254::nat), char_of (247::nat)] =
     [char_of (201::nat), char_of (222::nat), char_of (247::nat)]"
  "toUpperCase [char_of (223::nat)] = ''SS''"
  "toLowerCase [char_of (201::nat), char_of (222::nat), char_of (215::nat), char_of (223::nat)] =
     [char_of (233::nat), char_of (254::nat), char_of (215::nat), char_of (223::nat)]"
  "upperCaseInRange ''john.doe@example.com''"
  "\<not> upperCaseInRange [char_of (181::nat)]"
  "\<not> upperCaseInRange [char_of (255::nat)]"
  by code_simp+

lemma join_concat:
  "join sep segs = (case segs of [] \<Rightarrow> [] | x # xs \<Rightarrow> x @ concat (map (\<lambda>y. sep @ y) xs))"
  by (induction sep segs rule: join.induct) simp_all

lemma join_eq: "join '' '' segs = spaced segs"
proof -
  have e: "(@) '' '' = (#) CHR '' ''" by (rule ext) simp
  show ?thesis unfolding join_concat spaced_def e ..
qed

lemma split_delimiters_spec:
  "split_delimiters seg s =
     (let a = takeWhile (\<lambda>c. \<not> spec_delimiter c) s; rest = dropWhile (\<lambda>c. \<not> spec_delimiter c) s
      in if rest = [] then [seg @ a] else (seg @ a) # spec_segments (dropWhile spec_delimiter rest))"
proof (induction seg s rule: split_delimiters.induct)
  case (1 seg)
  then show ?case by simp
next
  case (2 seg c cs)
  show ?case
  proof (cases "isDelimiter c")
    case True
    have "split_delimiters [] (dropWhile isDelimiter cs) = spec_segments (dropWhile spec_delimiter cs)"
      using 2(1)[OF True] by (subst spec_segments.simps) (simp add: Let_def isDelimiter_eq)
    with True show ?thesis by (simp add: isDelimiter_eq)
  next
    case False
    with 2(2)[OF False] show ?thesis by (simp add: Let_def isDelimiter_eq)
  qed
qed

lemma split_delimiters_eq: "split_delimiters [] s = spec_segments s"
  by (subst spec_segments.simps) (simp add: split_delimiters_spec Let_def)

text \<open>
  C8 (amended). For every provisioning request that supplies no display name (and whose
  email is free of the two code units whose upper-case forms leave the range), the derived
  name is computed from the local part of the email: when the local part is empty it is
  the generic label \<open>Canvas User\<close>; otherwise the local part is cut at the runs of the
  delimiters \<open>.\<close>, \<open>_\<close> and \<open>-\<close>, the first code unit of every segment is put in upper
  case while the rest of the segment is left as it is, and the segments are joined with
  single spaces. The segments are not title-cased: a capital letter after the first
  position stays a capital letter.
\<close>

theorem derived_name_from_email:
  assumes "req_name r = None" and "upperCaseInRange (req_email r)"
  shows "derivedName r =
           (if local_part (req_email r) = [] then ''Canvas User''
            else spaced (map first_upper (spec_segments (local_part (req_email r)))))"
  using assms(1)
  by (simp add: derivedName_def deriveNameFromEmail_def split_at_first_eq capitalize_eq
      split_delimiters_eq join_eq Let_def)

text \<open>
  Requests without a name: \<open>john.doe@example.com\<close> is named \<open>John Doe\<close>; the three
  delimiters and a run of them cut \<open>mary_ann-o..neil\<close> into four segments; an address
  that begins with \<open>@\<close> gets the generic label; the capitals of \<open>jOHN.dOE\<close> stay.
\<close>

theorem derived_name_from_email_witness:
  "derivedName john_request = ''John Doe'' \<and>
   derivedName (unnamed_request ''mary_ann-o..neil@example.com'') = ''Mary Ann O Neil'' \<and>
   derivedName (unnamed_request ''@example.com'') = ''Canvas User'' \<and>
   derivedName (unnamed_request ''jOHN.dOE@example.com'') = ''JOHN DOE''"
proof -
  have n: "req_name john_request = None" "req_name (unnamed_request e) = None" for e
    by (simp_all add: john_request_def unnamed_request_def)
  have u: "upperCaseInRange (req_email john_request)"
      "upperCaseInRange (req_email (unnamed_request ''mary_ann-o..neil@example.com''))"
      "upperCaseInRange (req_email (unnamed_request ''@example.com''))"
      "upperCaseInRange (req_email (unnamed_request ''jOHN.dOE@example.com''))"
    by code_simp+
  have rhs:
    "(if local_part (req_email john_request) = [] then ''Canvas User''
      else spaced (map first_upper (spec_segments (local_part (req_email john_request)))))
       = ''John Doe''"
    "(if local_part (req_email (unnamed_request ''mary_ann-o..neil@example.com'')) = []
      then ''Canvas User''
      else spaced (map first_upper (spec_segments
             (local_part (req_email (unnamed_request ''mary_ann-o..neil@example.com''))))))
       = ''Mary Ann O Neil''"
    "(if local_part (req_email (unnamed_request ''@example.com'')) = [] then ''Canvas User''
      else spaced (map first_upper (spec_segments
             (local_part (req_email (unnamed_request ''@example.com''))))))
       = ''Canvas User''"
    "(if local_part (req_email (unnamed_request ''jOHN.dOE@example.com'')) = []
      then ''Canvas User''
      else spaced (map first_upper (spec_segments
             (local_part (req_email (unnamed_request ''jOHN.dOE@example.com''))))))
       = ''JOHN DOE''"
    by code_simp+
  show ?thesis
    by (intro conjI)
       (rule trans[OF derived_name_from_email[OF n(1) u(1)] rhs(1)],
        rule trans[OF derived_name_from_email[OF n(2) u(2)] rhs(2)],
        rule trans[OF derived_name_from_email[OF n(2) u(3)] rhs(3)],
        rule trans[OF derived_name_from_email[OF n(2) u(4)] rhs(4)])
qed

text \<open>
  The statement as worded, every segment title-cased, fails at an address with capitals
  after the first position: for \<open>jOHN.dOE@example.com\<close> the route derives \<open>JOHN DOE\<close>,
  title-casing the segments gives \<open>John Doe\<close>.
\<close>

theorem mixed_case_not_title_cased:
  "derivedName (unnamed_request ''jOHN.dOE@example.com'') = ''JOHN DOE'' \<and>
   spec_name (req_email (unnamed_request ''jOHN.dOE@example.com'')) = ''John Doe''"
  by code_simp

section \<open>Provisioning the same Canvas user twice\<close>

lemma set_joined_links:
  "set (joined_links db cid) =
     {(a, u). a \<in> set (accounts db) \<and> u \<in> set (users db) \<and> account_userId a = user_id u \<and>
              account_accountId a = cid \<and> account_providerId a = CANVAS_PROVIDER_ID}"
  by (auto simp: joined_links_def split: if_splits)

lemma find_link_None:
  "findExistingCanvasLink db cid = None \<longleftrightarrow> set (joined_links db cid) = {}"
  by (auto simp: findExistingCanvasLink_def joined_links_def[symmetric] split: list.splits)

lemma find_link_Some:
  "findExistingCanvasLink db cid = Some l \<Longrightarrow>
     \<exists>(a, u) \<in> set (joined_links db cid). link_userId l = account_userId a"
  by (auto simp: findExistingCanvasLink_def joined_links_def[symmetric] split: list.splits)

lemma find_link_userId:
  assumes "(a0, u0) \<in> set (joined_links db cid)"
      and "\<And>a u. (a, u) \<in> set (joined_links db cid) \<Longrightarrow> account_userId a = x"
  shows "\<exists>l. findExistingCanvasLink db cid = Some l \<and> link_userId l = x"
proof (cases "findExistingCanvasLink db cid")
  case None
  with assms(1) show ?thesis by (simp add: find_link_None)
next
  case (Some l)
  with find_link_Some[OF Some] assms(2) show ?thesis by auto
qed

lemma provision_existing:
  "findExistingCanvasLink db (req_canvasUserId r) = Some l \<Longrightarrow>
   POST_provision env db (Valid r) =
     (singleResponse \<lparr>pr_simUserId = link_userId l, pr_canvasUserId = req_canvasUserId r,
        pr_email = link_email l, pr_createdAt = link_createdAt l, pr_linkId = link_linkId l,
        pr_alreadyExisted = Some True\<rparr> 409, db)"
  by (simp add: POST_provision_def)

lemma createNewSimUser_rows:
  assumes "createNewSimUser env db cid e name md = (Inr res, db')"
  shows "\<exists>nu na. users db' = users db @ [nu] \<and> accounts db' = accounts db @ [na] \<and>
           user_id nu = new_userId res \<and> account_userId na = new_userId res \<and>
           account_accountId na = cid \<and> account_providerId na = CANVAS_PROVIDER_ID"
  using assms
  by (auto simp: createNewSimUser_def randomUUID_def Let_def split: option.splits if_splits)

lemma provision_success_link:
  assumes "POST_provision env db (Valid r) = (resp, db')"
      and "body resp = ApiSuccess d"
  shows "\<exists>l. findExistingCanvasLink db' (req_canvasUserId r) = Some l \<and> link_userId l = pr_simUserId d"
proof (cases "findExistingCanvasLink db (req_canvasUserId r)")
  case (Some l)
  with assms show ?thesis by (auto simp: provision_existing singleResponse_def)
next
  case None
  note nolink = None
  then have empty: "set (joined_links db (req_canvasUserId r)) = {}" by (simp add: find_link_None)
  show ?thesis
  proof (cases "findUserByEmail db (req_email r)")
    case (Some u)
    then obtain us where "filter (\<lambda>u. user_email u = req_email r) (users db) = u # us"
      by (auto simp: findUserByEmail_def split: list.splits)
    then have "u \<in> set (filter (\<lambda>u. user_email u = req_email r) (users db))" by simp
    then have uin: "u \<in> set (users db)" by simp
    from assms nolink Some obtain lid where
      db': "db' = db\<lparr>uuid_counter := Suc (uuid_counter db), accounts := accounts db @
                   [\<lparr>account_id = lid, account_accountId = req_canvasUserId r,
                     account_providerId = CANVAS_PROVIDER_ID, account_userId = user_id u,
                     account_scope = linkMetadata r, account_createdAt = now env,
                     account_updatedAt = now env\<rparr>]\<rparr>"
      and d: "pr_simUserId d = user_id u"
      by (auto simp: POST_provision_def createCanvasAccountLink_def randomUUID_def Let_def
          singleResponse_def provision_catch_def userExistsResponse_def internalErrorResponse_def
          errorResponse_def split: option.splits if_splits)
    show ?thesis unfolding d
    proof (rule find_link_userId)
      show "(\<lparr>account_id = lid, account_accountId = req_canvasUserId r,
                     account_providerId = CANVAS_PROVIDER_ID, account_userId = user_id u,
                     account_scope = linkMetadata r, account_createdAt = now env,
                     account_updatedAt = now env\<rparr>, u) \<in> set (joined_links db' (req_canvasUserId r))"
        using uin by (simp add: set_joined_links db')
    next
      fix a u' assume "(a, u') \<in> set (joined_links db' (req_canvasUserId r))"
      then show "account_userId a = user_id u"
        using empty by (auto simp: set_joined_links db')
    qed
  next
    case None
    with assms nolink obtain res where
      c: "createNewSimUser env db (req_canvasUserId r) (req_email r) (derivedName r) (linkMetadata r)
            = (Inr res, db')"
      and d: "pr_simUserId d = new_userId res"
      by (auto simp: POST_provision_def singleResponse_def provision_catch_def
          userExistsResponse_def internalErrorResponse_def errorResponse_def
          split: prod.splits sum.splits if_splits)
    from createNewSimUser_rows[OF c] obtain nu na where
      rows: "users db' = users db @ [nu]" "accounts db' = accounts db @ [na]"
        "user_id nu = new_userId res" "account_userId na = new_userId res"
        "account_accountId na = req_canvasUserId r" "account_providerId na = CANVAS_PROVIDER_ID"
      by blast
    show ?thesis unfolding d
    proof (rule find_link_userId)
      show "(na, nu) \<in> set (joined_links db' (req_canvasUserId r))"
        using rows by (simp add: set_joined_links)
    next
      fix a u' assume "(a, u') \<in> set (joined_links db' (req_canvasUserId r))"
      then show "account_userId a = new_userId res"
        using empty rows by (auto simp: set_joined_links)
    qed
  qed
qed

text \<open>
  C3. When a provisioning call for a Canvas user id has succeeded and returned a Sim user
  id, a second call for the same Canvas user id (whatever its email, name or metadata)
  answers with HTTP status 409 and a success body flagged \<open>alreadyExisted\<close> that carries
  the same Sim user id, and it leaves the database as it was: no user, link or workspace
  is created.
\<close>

theorem provision_twice_already_linked:
  assumes "POST_provision env1 db (Valid r1) = (resp1, db1)"
      and "body resp1 = ApiSuccess d1"
      and "req_canvasUserId r2 = req_canvasUserId r1"
  shows "\<exists>d2. POST_provision env2 db1 (Valid r2) = (singleResponse d2 409, db1) \<and>
           pr_alreadyExisted d2 = Some True \<and> pr_simUserId d2 = pr_simUserId d1"
proof -
  from provision_success_link[OF assms(1,2)] obtain l where
    l: "findExistingCanvasLink db1 (req_canvasUserId r2) = Some l" "link_userId l = pr_simUserId d1"
    using assms(3) by auto
  show ?thesis using provision_existing[OF l(1), of env2] l(2) by auto
qed

text \<open>
  On the empty database the first call creates the user \<open>uuid-\<close>; the second call
  returns it as already existing.
\<close>

theorem provision_twice_already_linked_witness:
  "\<exists>d2. POST_provision demo_prov_env
           (snd (POST_provision demo_prov_env empty_db (Valid john_request))) (Valid john_request) =
           (singleResponse d2 409, snd (POST_provision demo_prov_env empty_db (Valid john_request))) \<and>
         pr_alreadyExisted d2 = Some True \<and> pr_simUserId d2 = ''uuid-''"
proof -
  have first: "POST_provision demo_prov_env empty_db (Valid john_request) =
                 (fst (POST_provision demo_prov_env empty_db (Valid john_request)),
                  snd (POST_provision demo_prov_env empty_db (Valid john_request)))"
    by simp
  have created: "body (fst (POST_provision demo_prov_env empty_db (Valid john_request))) =
                   ApiSuccess \<lparr>pr_simUserId = ''uuid-'',
                     pr_canvasUserId = ''11111111-1111-1111-1111-111111111111'',
                     pr_email = ''john.doe@example.com'', pr_createdAt = 1000,
                     pr_linkId = ''uuid-xxx'', pr_alreadyExisted = None\<rparr>"
    by code_simp
  show ?thesis
    using provision_twice_already_linked[OF first created refl, of demo_prov_env] by simp
qed

section \<open>Authentication reports an inactive key as inactive\<close>

lemma startsWith_prefix_nonempty: "startsWith k SERVICE_KEY_PREFIX \<Longrightarrow> k \<noteq> []"
  by (auto simp: SERVICE_KEY_PREFIX_def)

text \<open>
  C4. When the presented key has the service prefix and the lookup by hash and service
  name finds a key record that is inactive, authentication fails with the code
  \<open>INACTIVE_KEY\<close>, whatever scopes are required and whatever scopes the key holds: the
  scope check comes after the active check, so the result is never
  \<open>INSUFFICIENT_SCOPE\<close>.
\<close>

theorem inactive_key_reported_inactive:
  assumes "startsWith k SERVICE_KEY_PREFIX"
      and "\<not> select_fault env"
      and "filter (\<lambda>r. key_keyHash r = hashKey env k \<and> key_serviceName r = CANVAS_SERVICE_ID) ks
             = keyRecord # others"
      and "\<not> key_isActive keyRecord"
  shows "authenticateCanvasRequest env ks (Some k) requiredScopes =
           (NotAuthenticated ''Service API key is inactive'' INACTIVE_KEY, ks)"
  using assms startsWith_prefix_nonempty[OF assms(1)]
  by (simp add: authenticateCanvasRequest_def)

text \<open>
  An inactive key that lacks the required scope \<open>blocks:execute\<close> is reported as
  inactive.
\<close>

theorem inactive_key_reported_inactive_witness:
  "authenticateCanvasRequest demo_auth_env [inactive_key] (Some ''sim_svc_inactive'')
       (Some [''blocks:execute'']) =
     (NotAuthenticated ''Service API key is inactive'' INACTIVE_KEY, [inactive_key])"
proof -
  have a: "startsWith ''sim_svc_inactive'' SERVICE_KEY_PREFIX" by (simp add: SERVICE_KEY_PREFIX_def)
  have b: "\<not> select_fault demo_auth_env" by (simp add: demo_auth_env_def)
  have c: "filter (\<lambda>r. key_keyHash r = hashKey demo_auth_env ''sim_svc_inactive'' \<and>
                       key_serviceName r = CANVAS_SERVICE_ID) [inactive_key] = inactive_key # []"
    by (simp add: demo_auth_env_def inactive_key_def CANVAS_SERVICE_ID_def)
  have d: "\<not> key_isActive inactive_key" by (simp add: inactive_key_def)
  show ?thesis by (rule inactive_key_reported_inactive[OF a b c d])
qed

section \<open>The rate limiter fails closed\<close>

text \<open>
  C5. If one of the token-bucket checks throws (the service check per minute, or, after
  the checks before it have allowed the request, the service check per day, the user
  check per minute or the user check per day), \<open>enforceCanvasRateLimit\<close> answers
  not allowed with a retry hint of exactly 60000 milliseconds.
\<close>

theorem rate_limit_fails_closed:
  assumes "fst (consume ct st (serviceKey c) (perMinute c) MINUTE_MS) = Inl err
         \<or> (fst (consume ct st (serviceKey c) (perMinute c) MINUTE_MS) = Inr a1 \<and> allowed a1 \<and>
            st1 = snd (consume ct st (serviceKey c) (perMinute c) MINUTE_MS) \<and>
            (fst (consume ct st1 (serviceKey c @ '':day'') (perDay c) DAY_MS) = Inl err
           \<or> (fst (consume ct st1 (serviceKey c @ '':day'') (perDay c) DAY_MS) = Inr a2 \<and> allowed a2 \<and>
               st2 = snd (consume ct st1 (serviceKey c @ '':day'') (perDay c) DAY_MS) \<and>
               userKey c = Some uk \<and>
               (fst (consume ct st2 uk (perMinute c) MINUTE_MS) = Inl err
              \<or> (fst (consume ct st2 uk (perMinute c) MINUTE_MS) = Inr a3 \<and> allowed a3 \<and>
                  st3 = snd (consume ct st2 uk (perMinute c) MINUTE_MS) \<and>
                  fst (consume ct st3 (uk @ '':day'') (perDay c) DAY_MS) = Inl err)))))"
  shows "fst (enforceCanvasRateLimit ct st c) = \<lparr>allowed = False, retryAfterMs = Some 60000\<rparr>"
  using assms
  by (auto simp: enforceCanvasRateLimit_def rate_limit_checks_def MINUTE_MS_def
      split: prod.splits sum.splits)

text \<open>
  With the storage adapter down the first check throws and the request is refused.
\<close>

theorem rate_limit_fails_closed_witness:
  "fst (enforceCanvasRateLimit failing_storage () limited_context) =
     \<lparr>allowed = False, retryAfterMs = Some 60000\<rparr>"
proof -
  have "fst (consume failing_storage () (serviceKey limited_context) (perMinute limited_context) MINUTE_MS)
          = Inl ''storage unavailable''"
    by (simp add: consume_def failing_storage_def perMinute_def limited_context_def)
  then show ?thesis by (rule rate_limit_fails_closed[OF disjI1])
qed

section \<open>What a request does to the log and to the invocations\<close>

lemma find_None_iff: "findExistingExecution w e = None \<longleftrightarrow> e \<notin> set (log_ids w)"
proof -
  have "filter (\<lambda>l. log_executionId l = e) (xw_logs w) = [] \<longleftrightarrow> e \<notin> set (log_ids w)"
    by (auto simp: log_ids_def filter_empty_conv)
  then show ?thesis by (auto simp: findExistingExecution_def split: list.splits)
qed

lemma update_logs_frame:
  assumes "\<And>l. log_executionId (f l) = log_executionId l"
  shows "log_ids (update_logs w e f) = log_ids w" "xw_calls (update_logs w e f) = xw_calls w"
  using assms by (auto simp: log_ids_def update_logs_def)

lemma logExecutionCompletion_frame:
  "log_ids (logExecutionCompletion w e dur ok out err tu ac cc rd bt) = log_ids w"
  "xw_calls (logExecutionCompletion w e dur ok out err tu ac cc rd bt) = xw_calls w"
  unfolding logExecutionCompletion_def by (rule update_logs_frame; simp)+

lemma logExecutionRunning_frame:
  "log_ids (logExecutionRunning w e dur out tu ac cc rd bt ax) = log_ids w"
  "xw_calls (logExecutionRunning w e dur out tu ac cc rd bt ax) = xw_calls w"
  unfolding logExecutionRunning_def by (rule update_logs_frame; simp)+

lemma logExecutionStart_frame:
  "log_ids (logExecutionStart env w e ws bt bv cu cw cf cn rd) = log_ids w @ [e]"
  "xw_calls (logExecutionStart env w e ws bt bv cu cw cf cn rd) = xw_calls w"
  by (simp_all add: logExecutionStart_def exec_randomUUID_def log_ids_def)

lemma POST_catch_frame:
  assumes "POST_catch w st e rp bt ls err = (r, w')"
  shows "log_ids w' = log_ids w \<and> xw_calls w' = xw_calls w"
  using assms
  by (auto simp: POST_catch_def Let_def logExecutionCompletion_frame
      split: option.splits if_splits)

lemma finish_execution_frame:
  assumes "finish_execution env w st e rp bc result = (r, w')"
  shows "log_ids w' = log_ids w \<and> xw_calls w' = xw_calls w"
  using assms
  by (auto simp: finish_execution_def Let_def logExecutionCompletion_frame
      logExecutionRunning_frame split: option.splits if_splits)

lemma executeWithTimeout_frame:
  assumes "executeWithTimeout env w tid ti ec tm = (r, w')"
  shows "xw_calls w' = xw_calls w @ [\<lparr>call_toolId = tid, call_inputs = ti, call_context = ec\<rparr>]
         \<and> xw_logs w' = xw_logs w"
  using assms
  by (auto simp: executeWithTimeout_def Let_def split: tool_behaviour.splits if_splits)

lemma executeWithRetry_frame:
  assumes "executeWithRetry env w tid ti ec tm retry = (r, w')"
  shows "\<exists>k. xw_calls w' =
           xw_calls w @ replicate k \<lparr>call_toolId = tid, call_inputs = ti, call_context = ec\<rparr>
         \<and> 1 \<le> k \<and> (\<not> retry \<longrightarrow> k = 1) \<and> xw_logs w' = xw_logs w"
proof -
  let ?c = "\<lparr>call_toolId = tid, call_inputs = ti, call_context = ec\<rparr>"
  obtain r1 w1 where a1: "executeWithTimeout env w tid ti ec tm = (r1, w1)" by force
  obtain r2 w2 where a2: "executeWithTimeout env w1 tid ti ec tm = (r2, w2)" by force
  obtain r3 w3 where a3: "executeWithTimeout env w2 tid ti ec tm = (r3, w3)" by force
  note f1 = executeWithTimeout_frame[OF a1]
  note f2 = executeWithTimeout_frame[OF a2]
  note f3 = executeWithTimeout_frame[OF a3]
  have c1: "xw_calls w1 = xw_calls w @ replicate 1 ?c" using f1 by simp
  have c2: "xw_calls w2 = xw_calls w @ replicate 2 ?c" using f1 f2 by (simp add: numeral_2_eq_2)
  have c3: "xw_calls w3 = xw_calls w @ replicate 3 ?c" using f1 f2 f3
    by (simp add: numeral_3_eq_3)
  from assms a1 a2 a3 consider "w' = w1" | "w' = w2" "retry" | "w' = w3" "retry"
    by (auto simp: executeWithRetry_def split: sum.splits if_splits)
  then show ?thesis
  proof cases
    case 1
    with c1 f1 show ?thesis by (intro exI[of _ 1]) simp
  next
    case 2
    with c2 f1 f2 show ?thesis by (intro exI[of _ 2]) simp
  next
    case 3
    with c3 f1 f2 f3 show ?thesis by (intro exI[of _ 3]) simp
  qed
qed

lemma run_block_frame:
  assumes "run_block env w sc d st e cu bc hp tid su ws = (r, w')"
  shows "\<exists>k c. log_ids w' = log_ids w @ [e] \<and> xw_calls w' = xw_calls w @ replicate k c \<and>
           ec_executionId (call_context c) = e \<and> 1 \<le> k \<and>
           (options_retryOnFailure d \<noteq> Some True \<longrightarrow> k = 1)"
proof -
  define ec where "ec = buildCanvasExecutionContext e ws su (context_workflowId d)"
  define ti where "ti = toolInputs_of sc d e su ec hp"
  define rp where "rp = requestPayload_of env sc d e cu tid hp"
  define w1 where "w1 = logExecutionStart env w e ws (bc_type bc) (br_blockVersion d) cu
     (ctx_canvasWorkspaceId sc) (context_workflowId d) (context_nodeId d) rp"
  have ece: "ec_executionId ec = e" by (simp add: ec_def buildCanvasExecutionContext_def)
  have w1: "log_ids w1 = log_ids w @ [e]" "xw_calls w1 = xw_calls w"
    by (simp_all add: w1_def logExecutionStart_frame)
  obtain res w2 where ex: "executeWithRetry env w1 tid ti ec (timeoutMs_of d) (retryOnFailure_of d) = (res, w2)"
    by force
  have fin: "(case res of Inl err \<Rightarrow> POST_catch w2 st e (Some rp) (Some (bc_type bc)) True err
              | Inr result \<Rightarrow> finish_execution env w2 st e rp bc result) = (r, w')"
    using assms ex unfolding run_block_def Let_def ec_def[symmetric] ti_def[symmetric]
      rp_def[symmetric] w1_def[symmetric]
    by (simp split: sum.splits)
  from executeWithRetry_frame[OF ex] obtain k where
    k: "xw_calls w2 = xw_calls w1 @ replicate k \<lparr>call_toolId = tid, call_inputs = ti, call_context = ec\<rparr>"
       "1 \<le> k" "\<not> retryOnFailure_of d \<longrightarrow> k = 1" "xw_logs w2 = xw_logs w1"
    by blast
  have l2: "log_ids w2 = log_ids w1" using k(4) by (simp add: log_ids_def)
  have "log_ids w' = log_ids w2 \<and> xw_calls w' = xw_calls w2"
    using fin by (cases res) (auto dest: POST_catch_frame finish_execution_frame)
  with k w1 l2 ece show ?thesis
    by (intro exI[of _ k] exI[of _ "\<lparr>call_toolId = tid, call_inputs = ti, call_context = ec\<rparr>"])
       (auto simp: retryOnFailure_of_def split: option.splits)
qed

lemma chooseExecutionId_frame:
  assumes "chooseExecutionId env w sc d = (e, w1)"
  shows "xw_logs w1 = xw_logs w" "xw_calls w1 = xw_calls w" "xw_clock w1 = xw_clock w"
  using assms
  by (auto simp: chooseExecutionId_def exec_randomUUID_def split: option.splits)

lemma execute_validated_cases:
  assumes "execute_validated env w sc d = (r, w')"
  shows "(xw_calls w' = xw_calls w \<and> xw_logs w' = xw_logs w \<and> xw_clock w' = xw_clock w) \<or>
         (\<exists>e w1 cu bc hp tid su ws. chooseExecutionId env w sc d = (e, w1) \<and>
            findExistingExecution w1 e = None \<and>
            run_block env w1 sc d (xw_clock w) e cu bc hp tid su ws = (r, w'))"
  using assms unfolding execute_validated_def Let_def
  by (auto split: option.splits if_splits prod.splits dest: chooseExecutionId_frame)

lemma execute_validated_step:
  assumes "execute_validated env w sc d = (r, w')"
  shows "(xw_calls w' = xw_calls w \<and> log_ids w' = log_ids w) \<or>
         (\<exists>e k c. e \<notin> set (log_ids w) \<and> log_ids w' = log_ids w @ [e] \<and>
            xw_calls w' = xw_calls w @ replicate k c \<and> ec_executionId (call_context c) = e \<and>
            1 \<le> k \<and> (options_retryOnFailure d \<noteq> Some True \<longrightarrow> k = 1))"
  using execute_validated_cases[OF assms]
proof (elim disjE exE conjE)
  assume "xw_calls w' = xw_calls w" "xw_logs w' = xw_logs w"
  then show ?thesis by (simp add: log_ids_def)
next
  fix e w1 cu bc hp tid su ws
  assume ch: "chooseExecutionId env w sc d = (e, w1)"
    and n: "findExistingExecution w1 e = None"
    and rb: "run_block env w1 sc d (xw_clock w) e cu bc hp tid su ws = (r, w')"
  note fr = chooseExecutionId_frame[OF ch]
  have ids: "log_ids w1 = log_ids w" using fr by (simp add: log_ids_def)
  from run_block_frame[OF rb] n show ?thesis
    unfolding find_None_iff ids fr by blast
qed

lemma POST_execute_step:
  assumes "POST_execute env w sc b = (r, w')"
  shows "(xw_calls w' = xw_calls w \<and> log_ids w' = log_ids w) \<or>
         (\<exists>e k c. e \<notin> set (log_ids w) \<and> log_ids w' = log_ids w @ [e] \<and>
            xw_calls w' = xw_calls w @ replicate k c \<and> ec_executionId (call_context c) = e \<and>
            1 \<le> k \<and> (\<not> retry_requested b \<longrightarrow> k = 1))"
proof (cases b)
  case (JsonError m)
  with assms show ?thesis by (auto simp: POST_execute_def dest: POST_catch_frame)
next
  case (Invalid x)
  with assms show ?thesis by (auto simp: POST_execute_def)
next
  case (Valid s)
  show ?thesis
  proof (cases "executeRequestSchema s")
    case (Valid d)
    then have ds: "d = s" by (auto simp: executeRequestSchema_def Let_def split: if_splits)
    from assms \<open>b = Valid s\<close> Valid have "execute_validated env w sc d = (r, w')"
      by (simp add: POST_execute_def)
    from execute_validated_step[OF this] show ?thesis
      using \<open>b = Valid s\<close> ds by (simp add: retry_requested_def)
  next
    case (Invalid x)
    with assms \<open>b = Valid s\<close> show ?thesis by (auto simp: POST_execute_def)
  next
    case (JsonError m)
    with assms \<open>b = Valid s\<close> show ?thesis by (auto simp: POST_execute_def dest: POST_catch_frame)
  qed
qed

lemma invocations_append:
  "xw_calls w' = xw_calls w @ replicate k c \<Longrightarrow>
   invocations w' e = invocations w e + (if ec_executionId (call_context c) = e then k else 0)"
  by (simp add: invocations_def)

lemma invocations_same:
  "xw_calls w' = xw_calls w \<Longrightarrow> invocations w' e = invocations w e"
  by (simp add: invocations_def)

lemma step_effect:
  assumes "POST_execute env w sc b = (r, w')"
  shows "(invocations w' e = invocations w e \<and> (e \<in> set (log_ids w') \<longleftrightarrow> e \<in> set (log_ids w))) \<or>
         (e \<notin> set (log_ids w) \<and> e \<in> set (log_ids w') \<and> invocations w e < invocations w' e \<and>
          (\<not> retry_requested b \<longrightarrow> invocations w' e = invocations w e + 1))"
  using POST_execute_step[OF assms]
proof (elim disjE exE conjE)
  assume "xw_calls w' = xw_calls w" "log_ids w' = log_ids w"
  then show ?thesis using invocations_same[of w' w e] by simp
next
  fix e' k c
  assume h: "e' \<notin> set (log_ids w)" "log_ids w' = log_ids w @ [e']"
    "xw_calls w' = xw_calls w @ replicate k c" "ec_executionId (call_context c) = e'"
    "1 \<le> k" "\<not> retry_requested b \<longrightarrow> k = 1"
  have inv: "invocations w' e = invocations w e + (if e' = e then k else 0)"
    using invocations_append[OF h(3), of e] h(4) by simp
  show ?thesis
  proof (cases "e' = e")
    case True
    with h inv show ?thesis by auto
  next
    case False
    with h inv show ?thesis by auto
  qed
qed

lemma step_logged_mono:
  assumes "POST_execute env w sc b = (r, w')" "e \<in> set (log_ids w)"
  shows "e \<in> set (log_ids w')" "invocations w' e = invocations w e"
  using step_effect[OF assms(1), of e] assms(2) by auto

lemma step_invoked:
  assumes "POST_execute env w sc b = (r, w')" "invocations w e < invocations w' e"
  shows "e \<notin> set (log_ids w)" "e \<in> set (log_ids w')"
  using step_effect[OF assms(1), of e] assms(2) by auto

lemma step_bound:
  assumes "POST_execute env w sc b = (r, w')" "\<not> retry_requested b"
  shows "invocations w' e \<le> invocations w e + 1"
    and "invocations w' e = invocations w e \<or> e \<in> set (log_ids w')"
  using step_effect[OF assms(1), of e] assms(2) by auto

lemma invoking_requests_bound:
  "invoking_requests env w rs e \<le> (if e \<in> set (log_ids w) then 0 else 1)"
proof (induction rs arbitrary: w)
  case Nil
  then show ?case by simp
next
  case (Cons x rs)
  obtain sc b where x: "x = (sc, b)" by (cases x)
  obtain r w' where p: "POST_execute env w sc b = (r, w')" by force
  show ?case
  proof (cases "e \<in> set (log_ids w)")
    case True
    with step_logged_mono[OF p True] Cons.IH[of w'] x p show ?thesis by simp
  next
    case False
    show ?thesis
    proof (cases "invocations w e < invocations w' e")
      case True
      with step_invoked[OF p True] Cons.IH[of w'] x p False show ?thesis by simp
    next
      case False
      with Cons.IH[of w'] x p \<open>e \<notin> set (log_ids w)\<close> show ?thesis by (simp split: if_splits)
    qed
  qed
qed

lemma run_requests_bound:
  assumes "\<forall>(sc, b) \<in> set rs. \<not> retry_requested b"
  shows "invocations (run_requests env w rs) e \<le>
           invocations w e + (if e \<in> set (log_ids w) then 0 else 1)"
  using assms
proof (induction rs arbitrary: w)
  case Nil
  then show ?case by simp
next
  case (Cons x rs)
  obtain sc b where x: "x = (sc, b)" by (cases x)
  obtain r w' where p: "POST_execute env w sc b = (r, w')" by force
  from Cons.prems x have nr: "\<not> retry_requested b" and rest: "\<forall>(sc, b) \<in> set rs. \<not> retry_requested b"
    by auto
  note ih = Cons.IH[OF rest, of w']
  show ?case
  proof (cases "e \<in> set (log_ids w)")
    case True
    with step_logged_mono[OF p True] ih x p show ?thesis by simp
  next
    case False
    with step_bound[OF p nr, of e] ih x p show ?thesis by (auto split: if_splits)
  qed
qed

lemma replay_existing:
  assumes "executeRequestSchema shaped = Valid d"
      and "ctx_canvasUserId sc = Some cu" "cu \<noteq> []"
      and "chooseExecutionId env w sc d = (eid, w1)"
      and "findExistingExecution w1 eid = Some existing"
  shows "POST_execute env w sc (Valid shaped) = (buildExecutionStatusResponse existing eid, w1)"
  using assms by (simp add: POST_execute_def execute_validated_def Let_def)

lemma status_response_shape:
  "buildExecutionStatusResponse existing eid =
     (case log_endedAt existing of
        None \<Rightarrow> \<lparr>status = 202, body = body (buildExecutionStatusResponse existing eid)\<rparr>
      | Some t \<Rightarrow> \<lparr>status = 200, body = body (buildExecutionStatusResponse existing eid)\<rparr>)"
  by (simp add: buildExecutionStatusResponse_def singleResponse_def Let_def split: option.splits)

lemma status_response_payload:
  "payload_status (buildExecutionStatusResponse existing eid) =
     Some (case log_endedAt existing of
             None \<Rightarrow> Running
           | Some t \<Rightarrow> if log_level existing = ''error'' then Failed else Completed)"
  by (simp add: buildExecutionStatusResponse_def singleResponse_def Let_def payload_status_def
      split: option.splits)

lemma POST_execute_runs:
  assumes "executeRequestSchema shaped = Valid d"
      and "ctx_canvasUserId sc = Some cu" "cu \<noteq> []"
      and "chooseExecutionId env w sc d = (eid, w1)"
      and "findExistingExecution w1 eid = None"
      and "resolveBlock env (br_blockType d) = Some (bc, preset)"
      and "chosen_toolId bc preset (bc_transforms bc (params_of d)) = tid" "tid \<noteq> []"
      and "findLinkedSimUser w1 cu = Some su" "findUserWorkspace w1 su = Some ws"
  shows "POST_execute env w sc (Valid shaped) =
           run_block env w1 sc d (xw_clock w) eid cu bc (bc_transforms bc (params_of d)) tid su ws"
  using assms by (simp add: POST_execute_def execute_validated_def Let_def)

section \<open>Attempts of the tool under the timeout\<close>

lemma executeWithTimeout_expired:
  assumes "\<not> settles_within (executeTool env (length (xw_calls w))
                \<lparr>call_toolId = tid, call_inputs = ti, call_context = ec\<rparr>) tm"
  shows "executeWithTimeout env w tid ti ec tm =
           (Inl (Error ''EXECUTION_TIMEOUT''),
            w\<lparr>xw_calls := xw_calls w @ [\<lparr>call_toolId = tid, call_inputs = ti, call_context = ec\<rparr>],
              xw_clock := xw_clock w + tm\<rparr>)"
  using assms
  by (auto simp: executeWithTimeout_def settles_within_def Let_def split: tool_behaviour.splits)

lemma executeWithTimeout_resolved:
  assumes "executeTool env (length (xw_calls w))
             \<lparr>call_toolId = tid, call_inputs = ti, call_context = ec\<rparr> = Resolves dl res"
      and "dl < tm"
  shows "executeWithTimeout env w tid ti ec tm =
           (Inr res,
            w\<lparr>xw_calls := xw_calls w @ [\<lparr>call_toolId = tid, call_inputs = ti, call_context = ec\<rparr>],
              xw_clock := xw_clock w + dl\<rparr>)"
  using assms by (simp add: executeWithTimeout_def Let_def)

lemma executeWithRetry_failing:
  assumes "\<forall>n c. executeTool env n c = Resolves dl res" "dl < tm" "\<not> tr_success res"
  shows "executeWithRetry env w tid ti ec tm True =
           (Inr res,
            w\<lparr>xw_calls := xw_calls w @ [\<lparr>call_toolId = tid, call_inputs = ti, call_context = ec\<rparr>,
                                       \<lparr>call_toolId = tid, call_inputs = ti, call_context = ec\<rparr>],
              xw_clock := xw_clock w + dl + dl\<rparr>)"
  using assms by (simp add: executeWithRetry_def executeWithTimeout_resolved)

lemma executeWithRetry_once:
  assumes "executeTool env (length (xw_calls w))
             \<lparr>call_toolId = tid, call_inputs = ti, call_context = ec\<rparr> = Resolves dl res"
      and "dl < tm"
  shows "executeWithRetry env w tid ti ec tm False =
           (Inr res,
            w\<lparr>xw_calls := xw_calls w @ [\<lparr>call_toolId = tid, call_inputs = ti, call_context = ec\<rparr>],
              xw_clock := xw_clock w + dl\<rparr>)"
  using assms by (simp add: executeWithRetry_def executeWithTimeout_resolved)

lemma executeWithRetry_expired_once:
  assumes "\<forall>n c. \<not> settles_within (executeTool env n c) tm"
  shows "executeWithRetry env w tid ti ec tm False =
           (Inl (Error ''EXECUTION_TIMEOUT''),
            w\<lparr>xw_calls := xw_calls w @ [\<lparr>call_toolId = tid, call_inputs = ti, call_context = ec\<rparr>],
              xw_clock := xw_clock w + tm\<rparr>)"
  using assms by (simp add: executeWithRetry_def executeWithTimeout_expired)

lemma executeWithRetry_expired_twice:
  assumes "\<forall>n c. \<not> settles_within (executeTool env n c) tm"
  shows "executeWithRetry env w tid ti ec tm True =
           (Inl (Error ''EXECUTION_TIMEOUT''),
            w\<lparr>xw_calls := xw_calls w @ [\<lparr>call_toolId = tid, call_inputs = ti, call_context = ec\<rparr>,
                                       \<lparr>call_toolId = tid, call_inputs = ti, call_context = ec\<rparr>],
              xw_clock := xw_clock w + tm + tm\<rparr>)"
  using assms by (simp add: executeWithRetry_def executeWithTimeout_expired)

lemma executeWithRetry_all_expired:
  assumes "\<forall>n c. \<not> settles_within (executeTool env n c) tm"
  shows "\<exists>w'. executeWithRetry env w tid ti ec tm retry = (Inl (Error ''EXECUTION_TIMEOUT''), w') \<and>
           xw_logs w' = xw_logs w \<and>
           xw_clock w' = xw_clock w + (if retry then 2 else 1) * tm"
proof (cases retry)
  case True
  then show ?thesis using executeWithRetry_expired_twice[OF assms, of w tid ti ec] by simp
next
  case False
  then show ?thesis using executeWithRetry_expired_once[OF assms, of w tid ti ec] by simp
qed

lemma run_block_result:
  assumes "w1 = logExecutionStart env w e ws (bc_type bc) (br_blockVersion d) cu
              (ctx_canvasWorkspaceId sc) (context_workflowId d) (context_nodeId d)
              (requestPayload_of env sc d e cu tid hp)"
      and "ec = buildCanvasExecutionContext e ws su (context_workflowId d)"
      and "executeWithRetry env w1 tid (toolInputs_of sc d e su ec hp) ec (timeoutMs_of d)
              (retryOnFailure_of d) = (res, w2)"
  shows "run_block env w sc d st e cu bc hp tid su ws =
           (case res of
              Inl err \<Rightarrow> POST_catch w2 st e (Some (requestPayload_of env sc d e cu tid hp))
                           (Some (bc_type bc)) True err
            | Inr result \<Rightarrow> finish_execution env w2 st e (requestPayload_of env sc d e cu tid hp)
                             bc result)"
  using assms(3) unfolding run_block_def Let_def assms(1,2)
  by (simp split: sum.splits)

lemma run_block_invocations:
  assumes "w1 = logExecutionStart env w e ws (bc_type bc) (br_blockVersion d) cu
              (ctx_canvasWorkspaceId sc) (context_workflowId d) (context_nodeId d)
              (requestPayload_of env sc d e cu tid hp)"
      and "ec = buildCanvasExecutionContext e ws su (context_workflowId d)"
      and "executeWithRetry env w1 tid (toolInputs_of sc d e su ec hp) ec (timeoutMs_of d)
              (retryOnFailure_of d) = (res, w2)"
  shows "xw_calls (snd (run_block env w sc d st e cu bc hp tid su ws)) = xw_calls w2"
proof -
  obtain r w' where rw: "run_block env w sc d st e cu bc hp tid su ws = (r, w')" by force
  with run_block_result[OF assms, of st] have
    "(case res of
        Inl err \<Rightarrow> POST_catch w2 st e (Some (requestPayload_of env sc d e cu tid hp))
                     (Some (bc_type bc)) True err
      | Inr result \<Rightarrow> finish_execution env w2 st e (requestPayload_of env sc d e cu tid hp)
                       bc result) = (r, w')"
    by simp
  then have "xw_calls w' = xw_calls w2"
    by (cases res) (auto dest: POST_catch_frame finish_execution_frame)
  with rw show ?thesis by simp
qed

lemma run_block_failing_twice:
  assumes "retryOnFailure_of d"
      and "\<forall>n c. executeTool env n c = Resolves dl res" "dl < timeoutMs_of d" "\<not> tr_success res"
  shows "invocations (snd (run_block env w sc d st e cu bc hp tid su ws)) e = invocations w e + 2"
proof -
  define ec where "ec = buildCanvasExecutionContext e ws su (context_workflowId d)"
  define w1 where "w1 = logExecutionStart env w e ws (bc_type bc) (br_blockVersion d) cu
              (ctx_canvasWorkspaceId sc) (context_workflowId d) (context_nodeId d)
              (requestPayload_of env sc d e cu tid hp)"
  define c where "c = \<lparr>call_toolId = tid, call_inputs = toolInputs_of sc d e su ec hp, call_context = ec\<rparr>"
  have ce: "ec_executionId (call_context c) = e"
    by (simp add: c_def ec_def buildCanvasExecutionContext_def)
  have c1: "xw_calls w1 = xw_calls w" by (simp add: w1_def logExecutionStart_frame)
  have ex: "executeWithRetry env w1 tid (toolInputs_of sc d e su ec hp) ec (timeoutMs_of d)
              (retryOnFailure_of d) =
            (Inr res, w1\<lparr>xw_calls := xw_calls w1 @ [c, c], xw_clock := xw_clock w1 + dl + dl\<rparr>)"
    using executeWithRetry_failing[OF assms(2,3,4)] assms(1) by (simp add: c_def)
  have "xw_calls (snd (run_block env w sc d st e cu bc hp tid su ws)) = xw_calls w @ [c, c]"
    using run_block_invocations[OF w1_def ec_def ex] c1 by simp
  then show ?thesis by (simp add: invocations_def ce)
qed

section \<open>The stored row after a request\<close>

lemma find_update_logs:
  assumes "\<And>l. log_executionId (f l) = log_executionId l"
  shows "findExistingExecution (update_logs w e f) e = map_option f (findExistingExecution w e)"
proof -
  have "filter (\<lambda>l. log_executionId l = e) (map (\<lambda>l. if log_executionId l = e then f l else l) xs)
        = map f (filter (\<lambda>l. log_executionId l = e) xs)" for xs
    using assms by (induction xs) auto
  then show ?thesis
    by (simp add: findExistingExecution_def update_logs_def split: list.splits)
qed

lemma find_same_logs:
  "xw_logs w' = xw_logs w \<Longrightarrow> findExistingExecution w' e = findExistingExecution w e"
  by (simp add: findExistingExecution_def)

lemma logExecutionStart_row:
  assumes "findExistingExecution w e = None"
  shows "findExistingExecution (logExecutionStart env w e ws bt bv cu cw cf cn rd) e \<noteq> None"
    and "map_option log_endedAt
           (findExistingExecution (logExecutionStart env w e ws bt bv cu cw cf cn rd) e) = Some None"
    and "map_option log_level
           (findExistingExecution (logExecutionStart env w e ws bt bv cu cw cf cn rd) e) = Some ''info''"
proof -
  from assms have "filter (\<lambda>l. log_executionId l = e) (xw_logs w) = []"
    by (simp add: findExistingExecution_def split: list.splits)
  then show "findExistingExecution (logExecutionStart env w e ws bt bv cu cw cf cn rd) e \<noteq> None"
    and "map_option log_endedAt
           (findExistingExecution (logExecutionStart env w e ws bt bv cu cw cf cn rd) e) = Some None"
    and "map_option log_level
           (findExistingExecution (logExecutionStart env w e ws bt bv cu cw cf cn rd) e) = Some ''info''"
    by (simp_all add: findExistingExecution_def logExecutionStart_def exec_randomUUID_def)
qed

lemma logExecutionCompletion_row:
  assumes "findExistingExecution w e \<noteq> None"
  shows "findExistingExecution (logExecutionCompletion w e dur ok out err tu ac cc rd bt) e \<noteq> None"
    and "map_option log_endedAt
           (findExistingExecution (logExecutionCompletion w e dur ok out err tu ac cc rd bt) e)
         = Some (Some (xw_clock w))"
    and "map_option log_level
           (findExistingExecution (logExecutionCompletion w e dur ok out err tu ac cc rd bt) e)
         = Some (if ok then ''info'' else ''error'')"
proof -
  from assms obtain row where row: "findExistingExecution w e = Some row" by auto
  show "findExistingExecution (logExecutionCompletion w e dur ok out err tu ac cc rd bt) e \<noteq> None"
    by (simp add: logExecutionCompletion_def find_update_logs row)
  show "map_option log_endedAt
           (findExistingExecution (logExecutionCompletion w e dur ok out err tu ac cc rd bt) e)
         = Some (Some (xw_clock w))"
    by (simp add: logExecutionCompletion_def find_update_logs row)
  show "map_option log_level
           (findExistingExecution (logExecutionCompletion w e dur ok out err tu ac cc rd bt) e)
         = Some (if ok then ''info'' else ''error'')"
    by (simp add: logExecutionCompletion_def find_update_logs row)
qed

lemma logExecutionRunning_row:
  "map_option log_level (findExistingExecution (logExecutionRunning w e dur out tu ac cc rd bt ax) e)
     = map_option log_level (findExistingExecution w e)"
  "map_option log_endedAt (findExistingExecution (logExecutionRunning w e dur out tu ac cc rd bt ax) e)
     = map_option log_endedAt (findExistingExecution w e)"
  by (simp_all add: logExecutionRunning_def find_update_logs option.map_comp comp_def)

lemma POST_catch_timeout:
  assumes "e \<noteq> []" "bt \<noteq> []" "findExistingExecution w e \<noteq> None"
  shows "status (fst (POST_catch w st e (Some rp) (Some bt) True (Error ''EXECUTION_TIMEOUT''))) = 504"
    and "response_code (fst (POST_catch w st e (Some rp) (Some bt) True (Error ''EXECUTION_TIMEOUT'')))
         = Some ''TIMEOUT''"
    and "findExistingExecution
           (snd (POST_catch w st e (Some rp) (Some bt) True (Error ''EXECUTION_TIMEOUT''))) e \<noteq> None"
    and "map_option log_endedAt (findExistingExecution
           (snd (POST_catch w st e (Some rp) (Some bt) True (Error ''EXECUTION_TIMEOUT''))) e)
         = Some (Some (xw_clock w))"
    and "map_option log_level (findExistingExecution
           (snd (POST_catch w st e (Some rp) (Some bt) True (Error ''EXECUTION_TIMEOUT''))) e)
         = Some ''error''"
  using assms logExecutionCompletion_row[OF assms(3), of "xw_clock w - st" False "[]" "Some ''EXECUTION_TIMEOUT''"
      Null Null Null rp bt]
  by (simp_all add: POST_catch_def Let_def errorResponse_def response_code_def)

lemma run_block_timeout:
  assumes "e \<noteq> []" "bc_type bc \<noteq> []" "findExistingExecution w e = None"
      and "\<forall>n c. \<not> settles_within (executeTool env n c) (timeoutMs_of d)"
  shows "status (fst (run_block env w sc d st e cu bc hp tid su ws)) = 504 \<and>
         response_code (fst (run_block env w sc d st e cu bc hp tid su ws)) = Some ''TIMEOUT'' \<and>
         findExistingExecution (snd (run_block env w sc d st e cu bc hp tid su ws)) e \<noteq> None \<and>
         map_option log_endedAt
           (findExistingExecution (snd (run_block env w sc d st e cu bc hp tid su ws)) e)
           = Some (Some (xw_clock w + (if retryOnFailure_of d then 2 else 1) * timeoutMs_of d)) \<and>
         map_option log_level
           (findExistingExecution (snd (run_block env w sc d st e cu bc hp tid su ws)) e)
           = Some ''error''"
proof -
  define ec where "ec = buildCanvasExecutionContext e ws su (context_workflowId d)"
  define rp where "rp = requestPayload_of env sc d e cu tid hp"
  define w1 where "w1 = logExecutionStart env w e ws (bc_type bc) (br_blockVersion d) cu
              (ctx_canvasWorkspaceId sc) (context_workflowId d) (context_nodeId d)
              (requestPayload_of env sc d e cu tid hp)"
  from executeWithRetry_all_expired[OF assms(4), of w1 tid "toolInputs_of sc d e su ec hp" ec
      "retryOnFailure_of d"]
  obtain w2 where
    ex: "executeWithRetry env w1 tid (toolInputs_of sc d e su ec hp) ec (timeoutMs_of d)
              (retryOnFailure_of d) = (Inl (Error ''EXECUTION_TIMEOUT''), w2)"
    and logs: "xw_logs w2 = xw_logs w1"
    and clock2: "xw_clock w2 = xw_clock w1 + (if retryOnFailure_of d then 2 else 1) * timeoutMs_of d"
    by blast
  have rb: "run_block env w sc d st e cu bc hp tid su ws =
              POST_catch w2 st e (Some rp) (Some (bc_type bc)) True (Error ''EXECUTION_TIMEOUT'')"
    using run_block_result[OF w1_def ec_def ex, of st] by (simp add: rp_def)
  have f1: "findExistingExecution w1 e \<noteq> None" unfolding w1_def by (rule logExecutionStart_row(1)[OF assms(3)])
  have f2: "findExistingExecution w2 e \<noteq> None"
    using f1 find_same_logs[OF logs, of e] by simp
  have "xw_clock w1 = xw_clock w"
    by (simp add: w1_def logExecutionStart_def exec_randomUUID_def)
  with clock2 have clock: "xw_clock w2 = xw_clock w + (if retryOnFailure_of d then 2 else 1) * timeoutMs_of d"
    by simp
  show ?thesis
    unfolding rb using POST_catch_timeout[OF assms(1,2) f2, of st rp] clock by simp
qed

lemma run_block_reported_failure:
  assumes "findExistingExecution w e = None"
      and "\<not> retryOnFailure_of d"
      and "\<forall>n c. executeTool env n c = Resolves dl res" "dl < timeoutMs_of d" "\<not> tr_success res"
  shows "map_option log_level
           (findExistingExecution (snd (run_block env w sc d st e cu bc hp tid su ws)) e) = Some ''error''"
    and "map_option log_endedAt
           (findExistingExecution (snd (run_block env w sc d st e cu bc hp tid su ws)) e)
           = Some (Some (xw_clock w + dl))"
proof -
  define ec where "ec = buildCanvasExecutionContext e ws su (context_workflowId d)"
  define rp where "rp = requestPayload_of env sc d e cu tid hp"
  define w1 where "w1 = logExecutionStart env w e ws (bc_type bc) (br_blockVersion d) cu
              (ctx_canvasWorkspaceId sc) (context_workflowId d) (context_nodeId d)
              (requestPayload_of env sc d e cu tid hp)"
  define c where "c = \<lparr>call_toolId = tid, call_inputs = toolInputs_of sc d e su ec hp, call_context = ec\<rparr>"
  define w2 where "w2 = w1\<lparr>xw_calls := xw_calls w1 @ [c], xw_clock := xw_clock w1 + dl\<rparr>"
  have ex: "executeWithRetry env w1 tid (toolInputs_of sc d e su ec hp) ec (timeoutMs_of d)
              (retryOnFailure_of d) = (Inr res, w2)"
    using executeWithRetry_once[of env w1 tid "toolInputs_of sc d e su ec hp" ec dl res
        "timeoutMs_of d"] assms(2,3,4)
    by (simp add: c_def w2_def)
  have rb: "run_block env w sc d st e cu bc hp tid su ws = finish_execution env w2 st e rp bc res"
    using run_block_result[OF w1_def ec_def ex, of st] by (simp add: rp_def)
  have f1: "findExistingExecution w1 e \<noteq> None" unfolding w1_def by (rule logExecutionStart_row(1)[OF assms(1)])
  have "xw_logs w2 = xw_logs w1" by (simp add: w2_def)
  from find_same_logs[OF this, of e] f1 have f2: "findExistingExecution w2 e \<noteq> None" by simp
  have clock: "xw_clock w2 = xw_clock w + dl"
    by (simp add: w2_def w1_def logExecutionStart_def exec_randomUUID_def)
  have fin: "snd (finish_execution env w2 st e rp bc res) =
               logExecutionCompletion w2 e (xw_clock w2 - st) False
                 (redactApiKeys env (case tr_output res of None \<Rightarrow> [] | Some out \<Rightarrow> out))
                 (tr_error res) (extractTokensUsed (tr_output res))
                 (extractApiCallsMade (tr_output res)) (extractCreditsConsumed (tr_output res)) rp
                 (bc_type bc)"
    using assms(5) by (simp add: finish_execution_def Let_def)
  show "map_option log_level
           (findExistingExecution (snd (run_block env w sc d st e cu bc hp tid su ws)) e) = Some ''error''"
    unfolding rb fin using logExecutionCompletion_row(3)[OF f2, where ok = False] by simp
  show "map_option log_endedAt
           (findExistingExecution (snd (run_block env w sc d st e cu bc hp tid su ws)) e)
           = Some (Some (xw_clock w + dl))"
    unfolding rb fin using logExecutionCompletion_row(2)[OF f2, where ok = False] clock by simp
qed

lemma POST_catch_envelope:
  "payload_status (fst (POST_catch w st e rp bt ls err)) = None \<and>
   response_code (fst (POST_catch w st e rp bt ls err)) \<in> {Some ''EXECUTION_FAILED'', Some ''TIMEOUT''} \<and>
   status (fst (POST_catch w st e rp bt ls err)) \<in> {500, 504}"
  by (simp add: POST_catch_def Let_def errorResponse_def payload_status_def response_code_def)

lemma finish_execution_error_level:
  assumes "map_option log_level (findExistingExecution w e) = Some ''info''"
      and "map_option log_level (findExistingExecution (snd (finish_execution env w st e rp bc result)) e)
             = Some ''error''"
  shows "payload_status (fst (finish_execution env w st e rp bc result)) = None \<and>
         response_code (fst (finish_execution env w st e rp bc result))
           \<in> {Some ''MISSING_CREDENTIALS'', Some ''EXECUTION_FAILED''} \<and>
         status (fst (finish_execution env w st e rp bc result)) \<in> {400, 500}"
proof -
  have ne: "findExistingExecution w e \<noteq> None" using assms(1) by auto
  show ?thesis
  proof (cases "tr_success result \<and> detectAsyncExecution env (tr_output result) \<noteq> None")
    case True
    then obtain ax where ax: "detectAsyncExecution env (tr_output result) = Some ax" by auto
    with True have "map_option log_level
        (findExistingExecution (snd (finish_execution env w st e rp bc result)) e) =
        map_option log_level (findExistingExecution w e)"
      by (simp add: finish_execution_def Let_def logExecutionRunning_row)
    with assms show ?thesis by auto
  next
    case False
    show ?thesis
    proof (cases "tr_success result")
      case True
      with False have "detectAsyncExecution env (tr_output result) = None" by simp
      with True have "map_option log_level
        (findExistingExecution (snd (finish_execution env w st e rp bc result)) e) = Some ''info''"
        using logExecutionCompletion_row(3)[OF ne, where ok = True] by (simp add: finish_execution_def Let_def)
      with assms(2) show ?thesis by auto
    next
      case False
      then show ?thesis
        by (simp add: finish_execution_def Let_def errorResponse_def payload_status_def
            response_code_def)
    qed
  qed
qed

lemma run_block_error_level:
  assumes "findExistingExecution w e = None"
      and "map_option log_level
             (findExistingExecution (snd (run_block env w sc d st e cu bc hp tid su ws)) e) = Some ''error''"
  shows "payload_status (fst (run_block env w sc d st e cu bc hp tid su ws)) = None \<and>
         response_code (fst (run_block env w sc d st e cu bc hp tid su ws))
           \<in> {Some ''MISSING_CREDENTIALS'', Some ''EXECUTION_FAILED'', Some ''TIMEOUT''} \<and>
         status (fst (run_block env w sc d st e cu bc hp tid su ws)) \<in> {400, 500, 504}"
proof -
  define ec where "ec = buildCanvasExecutionContext e ws su (context_workflowId d)"
  define rp where "rp = requestPayload_of env sc d e cu tid hp"
  define w1 where "w1 = logExecutionStart env w e ws (bc_type bc) (br_blockVersion d) cu
              (ctx_canvasWorkspaceId sc) (context_workflowId d) (context_nodeId d)
              (requestPayload_of env sc d e cu tid hp)"
  obtain res w2 where
    ex: "executeWithRetry env w1 tid (toolInputs_of sc d e su ec hp) ec (timeoutMs_of d)
              (retryOnFailure_of d) = (res, w2)" by force
  note rb = run_block_result[OF w1_def ec_def ex, of st, folded rp_def]
  from executeWithRetry_frame[OF ex] have logs: "xw_logs w2 = xw_logs w1" by blast
  have "map_option log_level (findExistingExecution w1 e) = Some ''info''"
    unfolding w1_def by (rule logExecutionStart_row(3)[OF assms(1)])
  then have info: "map_option log_level (findExistingExecution w2 e) = Some ''info''"
    using find_same_logs[OF logs, of e] by simp
  show ?thesis
  proof (cases res)
    case (Inl err)
    then show ?thesis using POST_catch_envelope[of w2 st e "Some rp" "Some (bc_type bc)" True err]
      by (auto simp: rb)
  next
    case (Inr result)
    with assms(2) have "map_option log_level
        (findExistingExecution (snd (finish_execution env w2 st e rp bc result)) e) = Some ''error''"
      by (simp add: rb)
    from finish_execution_error_level[OF info this] Inr show ?thesis by (auto simp: rb)
  qed
qed

lemma error_record_means_error_envelope:
  assumes "POST_execute env w sc b = (r, w')"
      and "findExistingExecution w e = None"
      and "map_option log_level (findExistingExecution w' e) = Some ''error''"
  shows "payload_status r = None \<and>
         response_code r \<in> {Some ''MISSING_CREDENTIALS'', Some ''EXECUTION_FAILED'', Some ''TIMEOUT''} \<and>
         status r \<in> {400, 500, 504}"
proof -
  have changed: "xw_logs w' \<noteq> xw_logs w"
    using assms(2,3) find_same_logs[of w' w e] by auto
  have notcatch: "POST_catch w (xw_clock w) [] None None False err \<noteq> (r, w')" for err
    using changed by (auto simp: POST_catch_def Let_def)
  from assms(1) changed notcatch obtain d where
    ev: "execute_validated env w sc d = (r, w')"
    by (auto simp: POST_execute_def split: parsed_body.splits)
  from execute_validated_cases[OF ev] changed obtain e' w1 cu bc hp tid su ws where
    ch: "chooseExecutionId env w sc d = (e', w1)" and
    none: "findExistingExecution w1 e' = None" and
    rb: "run_block env w1 sc d (xw_clock w) e' cu bc hp tid su ws = (r, w')"
    by auto
  have l1: "xw_logs w1 = xw_logs w" by (rule chooseExecutionId_frame(1)[OF ch])
  from run_block_frame[OF rb] have ids: "log_ids w' = log_ids w1 @ [e']" by auto
  have "e \<in> set (log_ids w')" using assms(3) find_None_iff[of w' e] by auto
  moreover have "e \<notin> set (log_ids w1)"
    using assms(2) find_None_iff[of w e] l1 by (simp add: log_ids_def)
  ultimately have "e' = e" using ids by auto
  with run_block_error_level[OF none, of env sc d "xw_clock w" cu bc hp tid su ws] rb assms(3)
  show ?thesis by simp
qed

lemma GET_status_terminal:
  assumes "findExistingExecution w e = Some existing" "log_endedAt existing \<noteq> None"
  shows "GET_status w False e = buildExecutionStatusResponse existing e"
proof -
  from assms(1) obtain others where
    "filter (\<lambda>l. log_executionId l = e) (xw_logs w) = existing # others"
    by (auto simp: findExistingExecution_def split: list.splits)
  moreover have "get_field (coalesce v (Obj [])) key = get_field v key" for v key
    by (cases v) (simp_all add: coalesce_def nullish_def get_field_def get_prop_def)
  ultimately show ?thesis using assms(2)
    by (auto simp: GET_status_def buildExecutionStatusResponse_def singleResponse_def Let_def)
qed

lemma chooseExecutionId_idempotencyKey:
  assumes "context_executionId d = None" "ctx_idempotencyKey sc = Some k"
  shows "chooseExecutionId env w sc d = (k, w)"
  using assms by (simp add: chooseExecutionId_def)

lemma POST_execute_wrote_record:
  assumes "executeRequestSchema shaped = Valid d"
      and "xw_logs (snd (POST_execute env w sc (Valid shaped))) \<noteq> xw_logs w"
  shows "fst (chooseExecutionId env w sc d) \<in> set (log_ids (snd (POST_execute env w sc (Valid shaped))))"
proof -
  obtain r w' where p: "execute_validated env w sc d = (r, w')" by force
  then have pe: "POST_execute env w sc (Valid shaped) = (r, w')"
    using assms(1) by (simp add: POST_execute_def)
  from execute_validated_cases[OF p] assms(2) pe obtain e w1 cu bc hp tid su ws where
    ch: "chooseExecutionId env w sc d = (e, w1)" and
    rb: "run_block env w1 sc d (xw_clock w) e cu bc hp tid su ws = (r, w')"
    by auto
  from run_block_frame[OF rb] have "e \<in> set (log_ids w')" by auto
  with ch pe show ?thesis by simp
qed

section \<open>The concrete catalog, user and requests\<close>

lemma demo_valid: "executeRequestSchema (demo_request e r) = Valid (demo_request e r)"
  by (simp add: executeRequestSchema_def demo_request_def options_timeout_def
      MAX_EXECUTION_TIMEOUT_MS_def)

lemma demo_user: "ctx_canvasUserId (demo_context i) = Some ''canvas-user-1''"
  by (simp add: demo_context_def)

lemma demo_choose: "chooseExecutionId env w sc (demo_request (Some e) r) = (e, w)"
  by (simp add: chooseExecutionId_def context_executionId_def demo_request_def)

lemma demo_resolve:
  "resolveBlock (demo_env b) (br_blockType (demo_request e r)) = Some (gmail_block, None)"
  by (simp add: resolveBlock_def demo_env_def demo_request_def)

lemma demo_tool: "chosen_toolId gmail_block None hp = ''gmail_send''"
  by (simp add: chosen_toolId_def resolveToolId_def gmail_block_def)

lemma demo_links:
  assumes "xw_db w = demo_db"
  shows "findLinkedSimUser w ''canvas-user-1'' = Some ''sim-user-1''"
    and "findUserWorkspace w ''sim-user-1'' = Some ''workspace-1''"
  using assms
  by (simp_all add: findLinkedSimUser_def findUserWorkspace_def demo_db_def CANVAS_PROVIDER_ID_def)

lemma demo_timeout: "timeoutMs_of (demo_request e r) = 1000"
  and demo_retry: "retryOnFailure_of (demo_request e r) = r"
  by (simp_all add: timeoutMs_of_def retryOnFailure_of_def options_timeout_def
      options_retryOnFailure_def demo_request_def)

lemma demo_runs:
  assumes "xw_db w = demo_db" "findExistingExecution w e = None"
  shows "POST_execute (demo_env b) w (demo_context i) (Valid (demo_request (Some e) r)) =
           run_block (demo_env b) w (demo_context i) (demo_request (Some e) r) (xw_clock w) e
             ''canvas-user-1'' gmail_block
             (bc_transforms gmail_block (params_of (demo_request (Some e) r)))
             ''gmail_send'' ''sim-user-1'' ''workspace-1''"
  by (rule POST_execute_runs[OF demo_valid demo_user _ demo_choose assms(2) demo_resolve demo_tool _
        demo_links[OF assms(1)]]) simp_all

lemma demo_runs_idem:
  assumes "xw_db w = demo_db" "findExistingExecution w k = None"
  shows "POST_execute (demo_env b) w (demo_context (Some k)) (Valid (demo_request None r)) =
           run_block (demo_env b) w (demo_context (Some k)) (demo_request None r) (xw_clock w) k
             ''canvas-user-1'' gmail_block
             (bc_transforms gmail_block (params_of (demo_request None r)))
             ''gmail_send'' ''sim-user-1'' ''workspace-1''"
proof -
  have ch: "chooseExecutionId (demo_env b) w (demo_context (Some k)) (demo_request None r) = (k, w)"
    by (rule chooseExecutionId_idempotencyKey)
       (simp_all add: context_executionId_def demo_request_def demo_context_def)
  show ?thesis
    by (rule POST_execute_runs[OF demo_valid demo_user _ ch assms(2) demo_resolve demo_tool _
          demo_links[OF assms(1)]]) simp_all
qed

section \<open>Classifying an output as an asynchronous job\<close>

lemma getString_first_of: "getString (first_of out names) = spec_field_text out names"
proof (induction out names rule: first_of.induct)
  case (1 out)
  then show ?case by (simp add: getString_def spec_field_text_def)
next
  case (2 out k)
  then show ?case
    by (cases "get_prop out k") (simp_all add: getString_def spec_field_text_def)
next
  case (3 out k v va)
  then show ?case
    by (cases "get_prop out k")
       (simp_all add: getString_def spec_field_text_def coalesce_def nullish_def)
qed

lemma detectAsyncExecution_iff:
  "(detectAsyncExecution env (Some output) \<noteq> None) =
     ((\<exists>s. spec_field_text output [''status'', ''state'', ''jobStatus'', ''job_state''] = Some s \<and>
           toLowerCase s \<in> set [''queued'', ''running'', ''processing'', ''pending'', ''in_progress'',
                                  ''in-progress'', ''started'']) \<or>
      (spec_field_text output [''jobId'', ''job_id'', ''taskId'', ''task_id''] \<noteq> None \<and>
       (\<exists>m. spec_field_text output [''currentStep'', ''message'', ''statusMessage'', ''status_message'']
              = Some m \<and> ASYNC_MESSAGE_PATTERN_test m)))"
  unfolding detectAsyncExecution_def status_of_output_def jobId_of_output_def
    message_of_output_def getString_first_of
  by (auto simp: Let_def ASYNC_STATUS_VALUES_def split: option.splits)

lemma finish_execution_status:
  "(status (fst (finish_execution env w startTime eid rp bc result)) = 202) =
     (tr_success result \<and> detectAsyncExecution env (tr_output result) \<noteq> None)"
  by (auto simp: finish_execution_def Let_def singleResponse_def errorResponse_def
      split: option.splits)

lemma POST_catch_status: "status (fst (POST_catch w st e rp bt started err)) \<noteq> 202"
  by (simp add: POST_catch_def Let_def errorResponse_def)

lemma executeWithRetry_resolving:
  assumes "\<forall>n c. executeTool env n c = Resolves dl answer" "dl < tm"
  shows "fst (executeWithRetry env w tid ti ec tm retry) = Inr answer"
proof -
  have t: "executeWithTimeout env w' tid ti ec tm =
             (Inr answer,
              w'\<lparr>xw_calls := xw_calls w' @ [\<lparr>call_toolId = tid, call_inputs = ti, call_context = ec\<rparr>],
                 xw_clock := xw_clock w' + dl\<rparr>)" for w'
    using assms by (simp add: executeWithTimeout_resolved)
  show ?thesis by (simp add: executeWithRetry_def t)
qed

lemma run_block_answered:
  assumes "\<forall>n c. executeTool env n c = Resolves dl answer" "dl < timeoutMs_of d"
  shows "(status (fst (run_block env w sc d st e cu bc hp tid su ws)) = 202) =
           (tr_success answer \<and> detectAsyncExecution env (tr_output answer) \<noteq> None)"
proof -
  define w1 where "w1 = logExecutionStart env w e ws (bc_type bc) (br_blockVersion d) cu
              (ctx_canvasWorkspaceId sc) (context_workflowId d) (context_nodeId d)
              (requestPayload_of env sc d e cu tid hp)"
  define ec where "ec = buildCanvasExecutionContext e ws su (context_workflowId d)"
  obtain res w2 where r: "executeWithRetry env w1 tid (toolInputs_of sc d e su ec hp) ec
              (timeoutMs_of d) (retryOnFailure_of d) = (res, w2)" by force
  have "res = Inr answer"
    using executeWithRetry_resolving[OF assms, of w1 tid "toolInputs_of sc d e su ec hp" ec
        "retryOnFailure_of d"] r by simp
  with run_block_result[OF w1_def ec_def r, of st] show ?thesis
    by (simp add: finish_execution_status)
qed

text \<open>
  C7 (amended). An output is classified as an in-flight asynchronous job if and only if
  its status is one of the seven markers \<open>queued\<close>, \<open>running\<close>, \<open>processing\<close>,
  \<open>pending\<close>, \<open>in_progress\<close>, \<open>in-progress\<close>, \<open>started\<close>, or a job or task identifier
  occurs together with a message that matches the asynchronous pattern. The status is the
  text of the first of \<open>status\<close>, \<open>state\<close>, \<open>jobStatus\<close>, \<open>job_state\<close> that is neither
  undefined nor null, in lower case; the identifier that of \<open>jobId\<close>, \<open>job_id\<close>,
  \<open>taskId\<close>, \<open>task_id\<close>; the message that of \<open>currentStep\<close>, \<open>message\<close>,
  \<open>statusMessage\<close>, \<open>status_message\<close>. An absent output is never classified so. After
  the tool has answered, the response has the status 202 exactly when the tool reported
  success and its output is classified as in flight; and a request that runs the block,
  with a tool that answers within the timeout, is answered 202 exactly in that case.
\<close>

theorem async_detection_classification:
  "(detectAsyncExecution env (Some out) \<noteq> None) =
     ((\<exists>s. spec_field_text out [''status'', ''state'', ''jobStatus'', ''job_state''] = Some s \<and>
           toLowerCase s \<in> set [''queued'', ''running'', ''processing'', ''pending'', ''in_progress'',
                                  ''in-progress'', ''started'']) \<or>
      (spec_field_text out [''jobId'', ''job_id'', ''taskId'', ''task_id''] \<noteq> None \<and>
       (\<exists>m. spec_field_text out [''currentStep'', ''message'', ''statusMessage'', ''status_message'']
              = Some m \<and> ASYNC_MESSAGE_PATTERN_test m)))
   \<and> detectAsyncExecution env None = None
   \<and> (status (fst (finish_execution env w startTime eid rp bc result)) = 202) =
       (tr_success result \<and> detectAsyncExecution env (tr_output result) \<noteq> None)
   \<and> (executeRequestSchema shaped = Valid d \<and> ctx_canvasUserId sc = Some cu \<and> cu \<noteq> [] \<and>
        chooseExecutionId env w0 sc d = (e, w1) \<and> findExistingExecution w1 e = None \<and>
        resolveBlock env (br_blockType d) = Some (bc0, preset) \<and>
        chosen_toolId bc0 preset (bc_transforms bc0 (params_of d)) = tid \<and> tid \<noteq> [] \<and>
        findLinkedSimUser w1 cu = Some su \<and> findUserWorkspace w1 su = Some ws \<and>
        (\<forall>n c. executeTool env n c = Resolves dl answer) \<and> dl < timeoutMs_of d \<longrightarrow>
        (status (fst (POST_execute env w0 sc (Valid shaped))) = 202) =
          (tr_success answer \<and> detectAsyncExecution env (tr_output answer) \<noteq> None))"
proof (intro conjI impI)
  show "(detectAsyncExecution env (Some out) \<noteq> None) =
     ((\<exists>s. spec_field_text out [''status'', ''state'', ''jobStatus'', ''job_state''] = Some s \<and>
           toLowerCase s \<in> set [''queued'', ''running'', ''processing'', ''pending'', ''in_progress'',
                                  ''in-progress'', ''started'']) \<or>
      (spec_field_text out [''jobId'', ''job_id'', ''taskId'', ''task_id''] \<noteq> None \<and>
       (\<exists>m. spec_field_text out [''currentStep'', ''message'', ''statusMessage'', ''status_message'']
              = Some m \<and> ASYNC_MESSAGE_PATTERN_test m)))"
    by (rule detectAsyncExecution_iff)
  show "detectAsyncExecution env None = None" by (simp add: detectAsyncExecution_def)
  show "(status (fst (finish_execution env w startTime eid rp bc result)) = 202) =
       (tr_success result \<and> detectAsyncExecution env (tr_output result) \<noteq> None)"
    by (rule finish_execution_status)
next
  assume a: "executeRequestSchema shaped = Valid d \<and> ctx_canvasUserId sc = Some cu \<and> cu \<noteq> [] \<and>
        chooseExecutionId env w0 sc d = (e, w1) \<and> findExistingExecution w1 e = None \<and>
        resolveBlock env (br_blockType d) = Some (bc0, preset) \<and>
        chosen_toolId bc0 preset (bc_transforms bc0 (params_of d)) = tid \<and> tid \<noteq> [] \<and>
        findLinkedSimUser w1 cu = Some su \<and> findUserWorkspace w1 su = Some ws \<and>
        (\<forall>n c. executeTool env n c = Resolves dl answer) \<and> dl < timeoutMs_of d"
  then have runs: "POST_execute env w0 sc (Valid shaped) =
           run_block env w1 sc d (xw_clock w0) e cu bc0 (bc_transforms bc0 (params_of d)) tid su ws"
    by (elim conjE) (rule POST_execute_runs; assumption)
  from a have tool: "\<forall>n c. executeTool env n c = Resolves dl answer" and dl: "dl < timeoutMs_of d"
    by simp_all
  show "(status (fst (POST_execute env w0 sc (Valid shaped))) = 202) =
          (tr_success answer \<and> detectAsyncExecution env (tr_output answer) \<noteq> None)"
    unfolding runs by (rule run_block_answered[OF tool dl])
qed

text \<open>
  A tool that answers \<open>{state: ' Queued '}\<close> with success: the request that runs the
  block is answered 202. The status is found under the second name, trimmed and put in
  lower case.
\<close>

theorem async_detection_classification_witness:
  "detectAsyncExecution (demo_env queued_behaviour) (Some [(''state'', Str '' Queued '')]) \<noteq> None \<and>
   status (fst (POST_execute (demo_env queued_behaviour) demo_world (demo_context None)
                  (Valid (demo_request (Some ''exec-1'') False)))) = 202"
proof -
  have none: "findExistingExecution demo_world ''exec-1'' = None"
    by (simp add: findExistingExecution_def demo_world_def)
  have links: "findLinkedSimUser demo_world ''canvas-user-1'' = Some ''sim-user-1''"
       "findUserWorkspace demo_world ''sim-user-1'' = Some ''workspace-1''"
    by (rule demo_links; simp add: demo_world_def)+
  have tool: "\<forall>n c. executeTool (demo_env queued_behaviour) n c = Resolves 5 queued_response"
    by (simp add: demo_env_def queued_behaviour_def)
  have dl: "5 < timeoutMs_of (demo_request (Some ''exec-1'') False)" by (simp add: demo_timeout)
  have ne: "''canvas-user-1'' \<noteq> []" "''gmail_send'' \<noteq> []" by simp_all
  have field: "spec_field_text [(''state'', Str '' Queued '')]
                 [''status'', ''state'', ''jobStatus'', ''job_state''] = Some ''Queued''"
    by code_simp
  have lower: "toLowerCase ''Queued'' = ''queued''" by code_simp
  have ok: "tr_success queued_response" "tr_output queued_response = Some [(''state'', Str '' Queued '')]"
    by (simp_all add: queued_response_def)
  note inst = async_detection_classification[where env = "demo_env queued_behaviour"
      and out = "[(''state'', Str '' Queued '')]" and shaped = "demo_request (Some ''exec-1'') False"
      and d = "demo_request (Some ''exec-1'') False" and sc = "demo_context None"
      and cu = "''canvas-user-1''" and ?w0.0 = demo_world and ?w1.0 = demo_world and e = "''exec-1''"
      and ?bc0.0 = gmail_block and preset = None and tid = "''gmail_send''"
      and su = "''sim-user-1''" and ws = "''workspace-1''" and dl = 5 and answer = queued_response]
  from inst have detected:
    "detectAsyncExecution (demo_env queued_behaviour) (Some [(''state'', Str '' Queued '')]) \<noteq> None"
    using field lower by simp
  from inst have "status (fst (POST_execute (demo_env queued_behaviour) demo_world (demo_context None)
                  (Valid (demo_request (Some ''exec-1'') False)))) = 202"
    using demo_valid demo_user ne demo_choose none demo_resolve demo_tool links tool dl ok detected
    by simp
  with detected show ?thesis by simp
qed

text \<open>
  The statement with six markers fails: the status \<open>in-progress\<close> (with a hyphen) is not
  among the six and there is neither a job identifier nor a message, yet the output is
  classified as in flight.
\<close>

theorem in_progress_marker_detected:
  "detectAsyncExecution (demo_env never_behaviour) (Some [(''status'', Str ''in-progress'')]) \<noteq> None \<and>
   spec_field_text [(''status'', Str ''in-progress'')] [''status'', ''state'', ''jobStatus'', ''job_state'']
     = Some ''in-progress'' \<and>
   toLowerCase ''in-progress'' \<notin> set [''queued'', ''running'', ''processing'', ''pending'', ''in_progress'',
                                          ''started''] \<and>
   spec_field_text [(''status'', Str ''in-progress'')] [''jobId'', ''job_id'', ''taskId'', ''task_id''] = None"
  by code_simp

text \<open>
  The reading of the fields, the white space, the case and the pattern on examples: the
  first name that is present decides; a no-break space is trimmed; the pattern wants whole
  words.
\<close>

lemma detectAsyncExecution_examples:
  "detectAsyncExecution (demo_env never_behaviour)
     (Some [(''status'', Null), (''job_state'', Str ''Started'')]) \<noteq> None"
  "detectAsyncExecution (demo_env never_behaviour)
     (Some [(''status'', Str ''done''), (''state'', Str ''running'')]) = None"
  "detectAsyncExecution (demo_env never_behaviour)
     (Some [(''jobStatus'', Str (char_of (160::nat) # ''pending'' @ [CHR 0x09]))]) \<noteq> None"
  "detectAsyncExecution (demo_env never_behaviour)
     (Some [(''status'', Num (Finite 1)), (''state'', Str ''running'')]) = None"
  "detectAsyncExecution (demo_env never_behaviour)
     (Some [(''task_id'', Str ''t-1''), (''message'', Str ''Job queued for later'')]) \<noteq> None"
  "detectAsyncExecution (demo_env never_behaviour)
     (Some [(''message'', Str ''Job queued for later'')]) = None"
  "detectAsyncExecution (demo_env never_behaviour)
     (Some [(''jobId'', Str ''j-1''), (''statusMessage'', Str ''spending'')]) = None"
  by code_simp+

lemma ASYNC_MESSAGE_PATTERN_examples:
  "ASYNC_MESSAGE_PATTERN_test ''Async export''"
  "ASYNC_MESSAGE_PATTERN_test ''asynchronous''"
  "ASYNC_MESSAGE_PATTERN_test ''job QUEUED''"
  "ASYNC_MESSAGE_PATTERN_test ''processing...''"
  "ASYNC_MESSAGE_PATTERN_test ''still running''"
  "ASYNC_MESSAGE_PATTERN_test ''(pending)''"
  "ASYNC_MESSAGE_PATTERN_test ''export in progress''"
  "\<not> ASYNC_MESSAGE_PATTERN_test ''asynchronously''"
  "\<not> ASYNC_MESSAGE_PATTERN_test ''running_total''"
  "\<not> ASYNC_MESSAGE_PATTERN_test ''in-progress''"
  "\<not> ASYNC_MESSAGE_PATTERN_test []"
  by code_simp+

lemma trim_examples:
  "trim ('' '' @ [CHR 0x09, CHR 0x0A, CHR 0x0B, CHR 0x0C, CHR 0x0D, char_of (160::nat)] @ ''a b'' @
         [char_of (160::nat), CHR 0x0A] @ '' '') = ''a b''"
  "trim [CHR 0x08, CHR 0x0E, char_of (133::nat)] = [CHR 0x08, CHR 0x0E, char_of (133::nat)]"
  by code_simp+

section \<open>Idempotent replay\<close>

text \<open>
  C1 (amended). For every valid execute request with the user header whose execution id
  matches an existing execution record, the handler returns the response built from the
  stored record and does not invoke the action nor touch the log: status 202 with a
  running payload when the record has no end timestamp, status 200 with the stored
  terminal payload (completed or failed) otherwise. Hence, for every execution id, at most
  one request of any sequence of requests invokes the action, and when no request asks
  for the automatic retry the action is invoked at most once for the execution id.
\<close>

theorem replay_without_invocation:
  assumes "executeRequestSchema shaped = Valid d"
      and "ctx_canvasUserId sc = Some cu" "cu \<noteq> []"
      and "chooseExecutionId env w sc d = (eid, w1)"
      and "findExistingExecution w1 eid = Some existing"
  shows "POST_execute env w sc (Valid shaped) = (buildExecutionStatusResponse existing eid, w1) \<and>
         xw_calls w1 = xw_calls w \<and> xw_logs w1 = xw_logs w \<and>
         status (buildExecutionStatusResponse existing eid) =
           (if log_endedAt existing = None then 202 else 200) \<and>
         payload_status (buildExecutionStatusResponse existing eid) =
           Some (if log_endedAt existing = None then Running
                 else if log_level existing = ''error'' then Failed else Completed) \<and>
         invoking_requests env w0 rs e \<le> 1 \<and>
         (xw_calls w0 = [] \<and> (\<forall>(sc, b) \<in> set rs. \<not> retry_requested b) \<longrightarrow>
            invocations (run_requests env w0 rs) e \<le> 1)"
proof (intro conjI impI)
  show "POST_execute env w sc (Valid shaped) = (buildExecutionStatusResponse existing eid, w1)"
    using assms by (rule replay_existing)
  show "xw_calls w1 = xw_calls w" "xw_logs w1 = xw_logs w"
    using chooseExecutionId_frame[OF assms(4)] by simp_all
  show "status (buildExecutionStatusResponse existing eid) =
           (if log_endedAt existing = None then 202 else 200)"
    by (subst status_response_shape) (simp split: option.splits)
  show "payload_status (buildExecutionStatusResponse existing eid) =
           Some (if log_endedAt existing = None then Running
                 else if log_level existing = ''error'' then Failed else Completed)"
    by (simp add: status_response_payload split: option.splits)
  show "invoking_requests env w0 rs e \<le> 1"
    using invoking_requests_bound[of env w0 rs e] by (simp split: if_splits)
next
  assume a: "xw_calls w0 = [] \<and> (\<forall>(sc, b) \<in> set rs. \<not> retry_requested b)"
  then have "invocations w0 e = 0" by (simp add: invocations_def)
  with run_requests_bound[of rs env w0 e] a show "invocations (run_requests env w0 rs) e \<le> 1"
    by (simp split: if_splits)
qed

text \<open>
  A request for the execution \<open>exec-1\<close>, which is stored as running, is answered from
  the record; two requests for \<open>exec-1\<close> on the fresh state invoke the action once.
\<close>

theorem replay_without_invocation_witness:
  "POST_execute (demo_env ok_behaviour) replay_world (demo_context None)
       (Valid (demo_request (Some ''exec-1'') False)) =
     (buildExecutionStatusResponse running_row ''exec-1'', replay_world) \<and>
   status (buildExecutionStatusResponse running_row ''exec-1'') = 202 \<and>
   payload_status (buildExecutionStatusResponse running_row ''exec-1'') = Some Running \<and>
   invoking_requests (demo_env ok_behaviour) demo_world demo_sequence ''exec-1'' \<le> 1 \<and>
   invocations (run_requests (demo_env ok_behaviour) demo_world demo_sequence) ''exec-1'' \<le> 1"
proof -
  have ne: "''canvas-user-1'' \<noteq> []" by simp
  have found: "findExistingExecution replay_world ''exec-1'' = Some running_row"
    by (simp add: findExistingExecution_def replay_world_def running_row_def)
  have running: "log_endedAt running_row = None" by (simp add: running_row_def)
  have fresh: "xw_calls demo_world = []" by (simp add: demo_world_def)
  have noretry: "\<forall>(sc, b) \<in> set demo_sequence. \<not> retry_requested b"
    by (simp add: demo_sequence_def retry_requested_def options_retryOnFailure_def demo_request_def)
  show ?thesis
    using replay_without_invocation[where env = "demo_env ok_behaviour" and sc = "demo_context None"
        and shaped = "demo_request (Some ''exec-1'') False" and ?w0.0 = demo_world and rs = demo_sequence and e = "''exec-1''",
        OF demo_valid demo_user ne demo_choose found]
      running fresh noretry
    by simp
qed

text \<open>
  The statement as worded, at most one invocation per execution id, fails for a single
  request: with the automatic retry requested and a tool that reports a failure, the
  action is invoked twice for \<open>exec-1\<close>.
\<close>

theorem retry_invokes_action_twice:
  "invocations
     (snd (POST_execute (demo_env failing_behaviour) demo_world (demo_context None)
            (Valid (demo_request (Some ''exec-1'') True))))
     ''exec-1'' = 2"
proof -
  have db: "xw_db demo_world = demo_db" by (simp add: demo_world_def)
  have none: "findExistingExecution demo_world ''exec-1'' = None"
    by (simp add: findExistingExecution_def demo_world_def)
  have zero: "invocations demo_world ''exec-1'' = 0" by (simp add: invocations_def demo_world_def)
  have tool: "\<forall>n c. executeTool (demo_env failing_behaviour) n c = Resolves 5 failed_response"
    by (simp add: demo_env_def failing_behaviour_def)
  have nf: "\<not> tr_success failed_response" by (simp add: failed_response_def)
  show ?thesis
    unfolding demo_runs[OF db none]
    using run_block_failing_twice[of "demo_request (Some ''exec-1'') True"
        "demo_env failing_behaviour" 5 failed_response, OF _ tool _ nf] zero
    by (simp add: demo_timeout demo_retry)
qed

section \<open>The automatic retry\<close>

text \<open>
  C6. With the automatic retry requested, a first attempt that reports a failure and a
  second attempt that throws are followed by a third attempt, whose result is returned:
  the retry is awaited inside the \<open>try\<close> block, so its rejection reaches the
  \<open>catch\<close>, which retries again. The specification allows exactly one additional attempt.
\<close>

theorem executeWithRetry_third_attempt:
  "length (xw_calls (snd (executeWithRetry (demo_env flaky_behaviour) demo_world ''gmail_send'' []
             demo_execution_context 1000 True))) = 3 \<and>
   fst (executeWithRetry (demo_env flaky_behaviour) demo_world ''gmail_send'' []
          demo_execution_context 1000 True) = Inr ok_response"
  by (simp add: executeWithRetry_def executeWithTimeout_def demo_env_def flaky_behaviour_def
      demo_world_def Let_def failed_response_def)

section \<open>A timeout writes the terminal record\<close>

lemma replay_of_failed:
  assumes "map_option log_endedAt (findExistingExecution w' eid) = Some (Some t)"
      and "map_option log_level (findExistingExecution w' eid) = Some ''error''"
      and "executeRequestSchema shaped2 = Valid d2"
      and "ctx_canvasUserId sc2 = Some cu2" "cu2 \<noteq> []"
      and "chooseExecutionId env2 w' sc2 d2 = (eid, w2)"
  shows "status (fst (POST_execute env2 w' sc2 (Valid shaped2))) = 200 \<and>
         payload_status (fst (POST_execute env2 w' sc2 (Valid shaped2))) = Some Failed \<and>
         xw_calls (snd (POST_execute env2 w' sc2 (Valid shaped2))) = xw_calls w' \<and>
         xw_logs (snd (POST_execute env2 w' sc2 (Valid shaped2))) = xw_logs w'"
proof -
  from assms(1) obtain existing where ex: "findExistingExecution w' eid = Some existing"
    and ended: "log_endedAt existing = Some t" by auto
  from assms(2) ex have level: "log_level existing = ''error''" by simp
  note frame = chooseExecutionId_frame[OF assms(6)]
  have "findExistingExecution w2 eid = Some existing"
    using find_same_logs[OF frame(1), of eid] ex by simp
  then have post: "POST_execute env2 w' sc2 (Valid shaped2) =
                     (buildExecutionStatusResponse existing eid, w2)"
    by (rule replay_existing[OF assms(3,4,5,6)])
  have st: "status (buildExecutionStatusResponse existing eid) = 200"
    by (subst status_response_shape) (simp add: ended)
  have pl: "payload_status (buildExecutionStatusResponse existing eid) = Some Failed"
    by (simp add: status_response_payload ended level)
  show ?thesis by (simp add: post st pl frame)
qed

text \<open>
  C2 (amended). When no attempt of the action settles within the timeout, the caller
  receives the terminal timeout error (status 504, code \<open>TIMEOUT\<close>), and the handler's
  own error path marks the stored record terminal: for a non-empty execution id and block
  type the record gets its end timestamp, at the moment the last timer fired, and the
  level \<open>error\<close>, although no completion or failure of the action was observed. A later
  request for the same execution id is therefore answered from that record, with the
  status 200 and the payload of a failed execution, and neither invokes the action nor
  writes to the log.
\<close>

theorem timeout_marks_record_terminal:
  assumes "executeRequestSchema shaped = Valid d"
      and "ctx_canvasUserId sc = Some cu" "cu \<noteq> []"
      and "chooseExecutionId env w sc d = (eid, w1)" "eid \<noteq> []"
      and "findExistingExecution w1 eid = None"
      and "resolveBlock env (br_blockType d) = Some (bc, preset)" "bc_type bc \<noteq> []"
      and "chosen_toolId bc preset (bc_transforms bc (params_of d)) = tid" "tid \<noteq> []"
      and "findLinkedSimUser w1 cu = Some su" "findUserWorkspace w1 su = Some ws"
      and "\<forall>n c. \<not> settles_within (executeTool env n c) (timeoutMs_of d)"
  shows "status (fst (POST_execute env w sc (Valid shaped))) = 504 \<and>
         response_code (fst (POST_execute env w sc (Valid shaped))) = Some ''TIMEOUT'' \<and>
         findExistingExecution (snd (POST_execute env w sc (Valid shaped))) eid \<noteq> None \<and>
         map_option log_endedAt (findExistingExecution (snd (POST_execute env w sc (Valid shaped))) eid)
           = Some (Some (xw_clock w + (if retryOnFailure_of d then 2 else 1) * timeoutMs_of d)) \<and>
         map_option log_level (findExistingExecution (snd (POST_execute env w sc (Valid shaped))) eid)
           = Some ''error'' \<and>
         (executeRequestSchema shaped2 = Valid d2 \<and> ctx_canvasUserId sc2 = Some cu2 \<and> cu2 \<noteq> [] \<and>
          chooseExecutionId env2 (snd (POST_execute env w sc (Valid shaped))) sc2 d2 = (eid, w2) \<longrightarrow>
          status (fst (POST_execute env2 (snd (POST_execute env w sc (Valid shaped))) sc2
                         (Valid shaped2))) = 200 \<and>
          payload_status (fst (POST_execute env2 (snd (POST_execute env w sc (Valid shaped))) sc2
                                 (Valid shaped2))) = Some Failed \<and>
          xw_calls (snd (POST_execute env2 (snd (POST_execute env w sc (Valid shaped))) sc2
                           (Valid shaped2))) =
            xw_calls (snd (POST_execute env w sc (Valid shaped))) \<and>
          xw_logs (snd (POST_execute env2 (snd (POST_execute env w sc (Valid shaped))) sc2
                          (Valid shaped2))) =
            xw_logs (snd (POST_execute env w sc (Valid shaped))))"
proof -
  let ?w' = "snd (POST_execute env w sc (Valid shaped))"
  have clock: "xw_clock w1 = xw_clock w" by (rule chooseExecutionId_frame(3)[OF assms(4)])
  have first:
    "status (fst (POST_execute env w sc (Valid shaped))) = 504 \<and>
     response_code (fst (POST_execute env w sc (Valid shaped))) = Some ''TIMEOUT'' \<and>
     findExistingExecution ?w' eid \<noteq> None \<and>
     map_option log_endedAt (findExistingExecution ?w' eid)
       = Some (Some (xw_clock w + (if retryOnFailure_of d then 2 else 1) * timeoutMs_of d)) \<and>
     map_option log_level (findExistingExecution ?w' eid) = Some ''error''"
    unfolding POST_execute_runs[OF assms(1-4,6,7,9-12)]
    using run_block_timeout[OF assms(5,8,6,13), of sc "xw_clock w" cu
        "bc_transforms bc (params_of d)" tid su ws] clock
    by simp
  then have ended: "map_option log_endedAt (findExistingExecution ?w' eid)
       = Some (Some (xw_clock w + (if retryOnFailure_of d then 2 else 1) * timeoutMs_of d))"
    and level: "map_option log_level (findExistingExecution ?w' eid) = Some ''error''"
    by blast+
  have replay:
    "executeRequestSchema shaped2 = Valid d2 \<and> ctx_canvasUserId sc2 = Some cu2 \<and> cu2 \<noteq> [] \<and>
     chooseExecutionId env2 ?w' sc2 d2 = (eid, w2) \<longrightarrow>
     status (fst (POST_execute env2 ?w' sc2 (Valid shaped2))) = 200 \<and>
     payload_status (fst (POST_execute env2 ?w' sc2 (Valid shaped2))) = Some Failed \<and>
     xw_calls (snd (POST_execute env2 ?w' sc2 (Valid shaped2))) = xw_calls ?w' \<and>
     xw_logs (snd (POST_execute env2 ?w' sc2 (Valid shaped2))) = xw_logs ?w'"
  proof
    assume "executeRequestSchema shaped2 = Valid d2 \<and> ctx_canvasUserId sc2 = Some cu2 \<and>
            cu2 \<noteq> [] \<and> chooseExecutionId env2 ?w' sc2 d2 = (eid, w2)"
    then show "status (fst (POST_execute env2 ?w' sc2 (Valid shaped2))) = 200 \<and>
     payload_status (fst (POST_execute env2 ?w' sc2 (Valid shaped2))) = Some Failed \<and>
     xw_calls (snd (POST_execute env2 ?w' sc2 (Valid shaped2))) = xw_calls ?w' \<and>
     xw_logs (snd (POST_execute env2 ?w' sc2 (Valid shaped2))) = xw_logs ?w'"
      by (elim conjE) (rule replay_of_failed[OF ended level]; assumption)
  qed
  from first replay show ?thesis by (elim conjE) (intro conjI; assumption)
qed

text \<open>
  A tool that never answers, a timeout of one second, the clock at 1000: the request ends
  at 2000 with the timeout error and the record is terminal; the same request sent again
  is answered 200 with the payload of a failed execution, and the tool is not invoked
  again.
\<close>

theorem timeout_marks_record_terminal_witness:
  "status (fst (POST_execute (demo_env never_behaviour) demo_world (demo_context None)
                  (Valid (demo_request (Some ''exec-1'') False)))) = 504 \<and>
   response_code (fst (POST_execute (demo_env never_behaviour) demo_world (demo_context None)
                  (Valid (demo_request (Some ''exec-1'') False)))) = Some ''TIMEOUT'' \<and>
   findExistingExecution (snd (POST_execute (demo_env never_behaviour) demo_world (demo_context None)
                  (Valid (demo_request (Some ''exec-1'') False)))) ''exec-1'' \<noteq> None \<and>
   map_option log_endedAt (findExistingExecution (snd (POST_execute (demo_env never_behaviour)
                  demo_world (demo_context None) (Valid (demo_request (Some ''exec-1'') False))))
                  ''exec-1'') = Some (Some 2000) \<and>
   map_option log_level (findExistingExecution (snd (POST_execute (demo_env never_behaviour)
                  demo_world (demo_context None) (Valid (demo_request (Some ''exec-1'') False))))
                  ''exec-1'') = Some ''error'' \<and>
   status (fst (POST_execute (demo_env never_behaviour)
                  (snd (POST_execute (demo_env never_behaviour) demo_world (demo_context None)
                          (Valid (demo_request (Some ''exec-1'') False))))
                  (demo_context None) (Valid (demo_request (Some ''exec-1'') False)))) = 200 \<and>
   payload_status (fst (POST_execute (demo_env never_behaviour)
                  (snd (POST_execute (demo_env never_behaviour) demo_world (demo_context None)
                          (Valid (demo_request (Some ''exec-1'') False))))
                  (demo_context None) (Valid (demo_request (Some ''exec-1'') False)))) = Some Failed \<and>
   xw_calls (snd (POST_execute (demo_env never_behaviour)
                  (snd (POST_execute (demo_env never_behaviour) demo_world (demo_context None)
                          (Valid (demo_request (Some ''exec-1'') False))))
                  (demo_context None) (Valid (demo_request (Some ''exec-1'') False)))) =
     xw_calls (snd (POST_execute (demo_env never_behaviour) demo_world (demo_context None)
                          (Valid (demo_request (Some ''exec-1'') False))))"
proof -
  let ?first = "POST_execute (demo_env never_behaviour) demo_world (demo_context None)
                  (Valid (demo_request (Some ''exec-1'') False))"
  have none: "findExistingExecution demo_world ''exec-1'' = None"
    by (simp add: findExistingExecution_def demo_world_def)
  have links: "findLinkedSimUser demo_world ''canvas-user-1'' = Some ''sim-user-1''"
       "findUserWorkspace demo_world ''sim-user-1'' = Some ''workspace-1''"
    by (rule demo_links; simp add: demo_world_def)+
  have never: "\<forall>n c. \<not> settles_within
                 (executeTool (demo_env never_behaviour) n c)
                 (timeoutMs_of (demo_request (Some ''exec-1'') False))"
    by (simp add: demo_env_def never_behaviour_def settles_within_def)
  have bt: "bc_type gmail_block \<noteq> []" by (simp add: gmail_block_def)
  have ne: "''canvas-user-1'' \<noteq> []" "''exec-1'' \<noteq> []" "''gmail_send'' \<noteq> []" by simp_all
  have clock: "xw_clock demo_world + timeoutMs_of (demo_request (Some ''exec-1'') False) = 2000"
    by (simp add: demo_world_def demo_timeout)
  have again: "executeRequestSchema (demo_request (Some ''exec-1'') False) =
                 Valid (demo_request (Some ''exec-1'') False) \<and>
               ctx_canvasUserId (demo_context None) = Some ''canvas-user-1'' \<and>
               ''canvas-user-1'' \<noteq> [] \<and>
               chooseExecutionId (demo_env never_behaviour) (snd ?first) (demo_context None)
                 (demo_request (Some ''exec-1'') False) = (''exec-1'', snd ?first)"
    by (simp add: demo_valid demo_user demo_choose)
  note inst = timeout_marks_record_terminal[where env = "demo_env never_behaviour"
      and w = demo_world and sc = "demo_context None"
      and shaped = "demo_request (Some ''exec-1'') False"
      and ?env2.0 = "demo_env never_behaviour" and ?sc2.0 = "demo_context None"
      and ?shaped2.0 = "demo_request (Some ''exec-1'') False"
      and ?d2.0 = "demo_request (Some ''exec-1'') False" and ?cu2.0 = "''canvas-user-1''"
      and ?w2.0 = "snd ?first",
      OF demo_valid demo_user ne(1) demo_choose ne(2) none demo_resolve bt demo_tool ne(3) links never]
  from inst have imp:
    "executeRequestSchema (demo_request (Some ''exec-1'') False) =
       Valid (demo_request (Some ''exec-1'') False) \<and>
     ctx_canvasUserId (demo_context None) = Some ''canvas-user-1'' \<and>
     ''canvas-user-1'' \<noteq> [] \<and>
     chooseExecutionId (demo_env never_behaviour) (snd ?first) (demo_context None)
       (demo_request (Some ''exec-1'') False) = (''exec-1'', snd ?first) \<longrightarrow>
     status (fst (POST_execute (demo_env never_behaviour) (snd ?first) (demo_context None)
                    (Valid (demo_request (Some ''exec-1'') False)))) = 200 \<and>
     payload_status (fst (POST_execute (demo_env never_behaviour) (snd ?first) (demo_context None)
                    (Valid (demo_request (Some ''exec-1'') False)))) = Some Failed \<and>
     xw_calls (snd (POST_execute (demo_env never_behaviour) (snd ?first) (demo_context None)
                    (Valid (demo_request (Some ''exec-1'') False)))) = xw_calls (snd ?first) \<and>
     xw_logs (snd (POST_execute (demo_env never_behaviour) (snd ?first) (demo_context None)
                    (Valid (demo_request (Some ''exec-1'') False)))) = xw_logs (snd ?first)"
    by (elim conjE)
  note replayed = mp[OF imp again]
  from inst have ended: "map_option log_endedAt (findExistingExecution (snd ?first) ''exec-1'')
       = Some (Some (xw_clock demo_world +
            (if retryOnFailure_of (demo_request (Some ''exec-1'') False) then 2 else 1) *
            timeoutMs_of (demo_request (Some ''exec-1'') False)))"
    by (elim conjE)
  have at: "map_option log_endedAt (findExistingExecution (snd ?first) ''exec-1'') = Some (Some 2000)"
    unfolding ended using clock by (simp add: demo_retry)
  from inst replayed at show ?thesis
    by (elim conjE) (intro conjI; assumption)
qed

text \<open>
  The statement as worded, that the timeout path does not write to the execution record,
  fails: after the timed-out request the record of \<open>exec-1\<close> has the end timestamp 2000
  and the level \<open>error\<close>, written while the action never completed.
\<close>

theorem timeout_path_writes_record:
  "response_code (fst (POST_execute (demo_env never_behaviour) demo_world (demo_context None)
                  (Valid (demo_request (Some ''exec-1'') False)))) = Some ''TIMEOUT'' \<and>
   map_option log_endedAt (findExistingExecution (snd (POST_execute (demo_env never_behaviour)
                  demo_world (demo_context None) (Valid (demo_request (Some ''exec-1'') False))))
                  ''exec-1'') = Some (Some 2000) \<and>
   map_option log_level (findExistingExecution (snd (POST_execute (demo_env never_behaviour)
                  demo_world (demo_context None) (Valid (demo_request (Some ''exec-1'') False))))
                  ''exec-1'') = Some ''error''"
proof -
  have db: "xw_db demo_world = demo_db" by (simp add: demo_world_def)
  have none: "findExistingExecution demo_world ''exec-1'' = None"
    by (simp add: findExistingExecution_def demo_world_def)
  have never: "\<forall>n c. \<not> settles_within
                 (executeTool (demo_env never_behaviour) n c)
                 (timeoutMs_of (demo_request (Some ''exec-1'') False))"
    by (simp add: demo_env_def never_behaviour_def settles_within_def)
  have noretry: "\<not> retryOnFailure_of (demo_request (Some ''exec-1'') False)"
    by (simp add: demo_retry)
  have bt: "bc_type gmail_block \<noteq> []" by (simp add: gmail_block_def)
  have clock: "xw_clock demo_world + timeoutMs_of (demo_request (Some ''exec-1'') False) = 2000"
    by (simp add: demo_world_def demo_timeout)
  show ?thesis
    unfolding demo_runs[OF db none]
    using run_block_timeout[OF _ bt none never, of "demo_context None" "xw_clock demo_world"
        "''canvas-user-1''" "bc_transforms gmail_block (params_of (demo_request (Some ''exec-1'') False))"
        "''gmail_send''" "''sim-user-1''" "''workspace-1''"]
    by (simp add: clock demo_retry)
qed

section \<open>The execution id\<close>

lemma chooseExecutionId_cases:
  "chooseExecutionId env w sc d =
     (case context_executionId d of
        Some e \<Rightarrow> (e, w)
      | None \<Rightarrow>
          (case ctx_idempotencyKey sc of
             Some k \<Rightarrow> (k, w)
           | None \<Rightarrow>
               (exec_uuid env (uuid_counter (xw_db w)),
                w\<lparr>xw_db := (xw_db w)\<lparr>uuid_counter := Suc (uuid_counter (xw_db w))\<rparr>\<rparr>)))"
  by (simp add: chooseExecutionId_def exec_randomUUID_def split: option.splits)

lemma chooseExecutionId_fresh:
  assumes "context_executionId d = None" "ctx_idempotencyKey sc = None"
      and "context_executionId d' = None" "ctx_idempotencyKey sc' = None"
      and "inj (exec_uuid env)"
      and "uuid_counter (xw_db w) < uuid_counter (xw_db w')"
  shows "fst (chooseExecutionId env w' sc' d') \<noteq> fst (chooseExecutionId env w sc d)"
  using assms by (auto simp: chooseExecutionId_cases dest: injD)

text \<open>
  C9. The execution id of a request is the execution id of its context if present,
  otherwise the idempotency key if present, otherwise a freshly generated UUID: in the
  third case, and only there, the next value of the UUID generator is drawn and the
  generator moves on, so that (the generator never repeating itself) every later draw
  gives another id. Two requests without a context execution id that carry the same
  idempotency key therefore get the same execution id, and once the first of them has
  written its execution record the second is answered from that record.
\<close>

theorem idempotency_key_fallback:
  assumes "context_executionId d1 = None" "ctx_idempotencyKey sc1 = Some k"
      and "context_executionId d2 = None" "ctx_idempotencyKey sc2 = Some k"
      and "executeRequestSchema s1 = Valid d1" "executeRequestSchema s2 = Valid d2"
      and "ctx_canvasUserId sc2 = Some cu2" "cu2 \<noteq> []"
      and "xw_logs (snd (POST_execute env w sc1 (Valid s1))) \<noteq> xw_logs w"
  shows "chooseExecutionId env0 w0 sc0 d0 =
           (case context_executionId d0 of
              Some e \<Rightarrow> (e, w0)
            | None \<Rightarrow>
                (case ctx_idempotencyKey sc0 of
                   Some i \<Rightarrow> (i, w0)
                 | None \<Rightarrow>
                     (exec_uuid env0 (uuid_counter (xw_db w0)),
                      w0\<lparr>xw_db := (xw_db w0)\<lparr>uuid_counter := Suc (uuid_counter (xw_db w0))\<rparr>\<rparr>))) \<and>
         (context_executionId d0 = None \<and> ctx_idempotencyKey sc0 = None \<and>
          context_executionId d9 = None \<and> ctx_idempotencyKey sc9 = None \<and>
          inj (exec_uuid env0) \<and> uuid_counter (xw_db w0) < uuid_counter (xw_db w9) \<longrightarrow>
          fst (chooseExecutionId env0 w9 sc9 d9) \<noteq> fst (chooseExecutionId env0 w0 sc0 d0)) \<and>
         fst (chooseExecutionId env w sc1 d1) = k \<and>
         fst (chooseExecutionId env' w' sc2 d2) = k \<and>
         (\<exists>existing.
            findExistingExecution (snd (POST_execute env w sc1 (Valid s1))) k = Some existing \<and>
            POST_execute env' (snd (POST_execute env w sc1 (Valid s1))) sc2 (Valid s2) =
              (buildExecutionStatusResponse existing k, snd (POST_execute env w sc1 (Valid s1))))"
proof (intro conjI impI)
  show "chooseExecutionId env0 w0 sc0 d0 =
           (case context_executionId d0 of
              Some e \<Rightarrow> (e, w0)
            | None \<Rightarrow>
                (case ctx_idempotencyKey sc0 of
                   Some i \<Rightarrow> (i, w0)
                 | None \<Rightarrow>
                     (exec_uuid env0 (uuid_counter (xw_db w0)),
                      w0\<lparr>xw_db := (xw_db w0)\<lparr>uuid_counter := Suc (uuid_counter (xw_db w0))\<rparr>\<rparr>)))"
    by (rule chooseExecutionId_cases)
  show "fst (chooseExecutionId env w sc1 d1) = k"
    by (simp add: chooseExecutionId_idempotencyKey[OF assms(1,2)])
  show "fst (chooseExecutionId env' w' sc2 d2) = k"
    by (simp add: chooseExecutionId_idempotencyKey[OF assms(3,4)])
  let ?w1 = "snd (POST_execute env w sc1 (Valid s1))"
  have "k \<in> set (log_ids ?w1)"
    using POST_execute_wrote_record[OF assms(5,9)]
    by (simp add: chooseExecutionId_idempotencyKey[OF assms(1,2)])
  then obtain existing where ex: "findExistingExecution ?w1 k = Some existing"
    using find_None_iff[of ?w1 k] by (cases "findExistingExecution ?w1 k") auto
  have "POST_execute env' ?w1 sc2 (Valid s2) = (buildExecutionStatusResponse existing k, ?w1)"
    by (rule replay_existing[OF assms(6,7,8) chooseExecutionId_idempotencyKey[OF assms(3,4)] ex])
  with ex show "\<exists>existing. findExistingExecution ?w1 k = Some existing \<and>
            POST_execute env' ?w1 sc2 (Valid s2) = (buildExecutionStatusResponse existing k, ?w1)"
    by blast
next
  assume "context_executionId d0 = None \<and> ctx_idempotencyKey sc0 = None \<and>
          context_executionId d9 = None \<and> ctx_idempotencyKey sc9 = None \<and>
          inj (exec_uuid env0) \<and> uuid_counter (xw_db w0) < uuid_counter (xw_db w9)"
  then show "fst (chooseExecutionId env0 w9 sc9 d9) \<noteq> fst (chooseExecutionId env0 w0 sc0 d0)"
    by (elim conjE) (rule chooseExecutionId_fresh; assumption)
qed

text \<open>
  A request with neither a context execution id nor an idempotency key draws the first
  UUID of the generator, \<open>uuid-\<close>, and moves the generator on; the request after it draws
  another one. Two requests with the idempotency key \<open>idem-1\<close> and no context execution
  id: the first runs the block, the second is answered from the record of \<open>idem-1\<close>.
\<close>

theorem idempotency_key_fallback_witness:
  "chooseExecutionId (demo_env ok_behaviour) demo_world (demo_context None) (demo_request None False) =
     (''uuid-'', demo_world\<lparr>xw_db := demo_db\<lparr>uuid_counter := 1\<rparr>\<rparr>) \<and>
   fst (chooseExecutionId (demo_env ok_behaviour) (demo_world\<lparr>xw_db := demo_db\<lparr>uuid_counter := 1\<rparr>\<rparr>)
          (demo_context None) (demo_request None False)) \<noteq> ''uuid-'' \<and>
   fst (chooseExecutionId (demo_env ok_behaviour) demo_world (demo_context (Some ''idem-1''))
          (demo_request None False)) = ''idem-1'' \<and>
   (\<exists>existing.
      findExistingExecution
        (snd (POST_execute (demo_env ok_behaviour) demo_world (demo_context (Some ''idem-1''))
                (Valid (demo_request None False)))) ''idem-1'' = Some existing \<and>
      POST_execute (demo_env ok_behaviour)
        (snd (POST_execute (demo_env ok_behaviour) demo_world (demo_context (Some ''idem-1''))
                (Valid (demo_request None False))))
        (demo_context (Some ''idem-1'')) (Valid (demo_request None True)) =
        (buildExecutionStatusResponse existing ''idem-1'',
         snd (POST_execute (demo_env ok_behaviour) demo_world (demo_context (Some ''idem-1''))
                (Valid (demo_request None False)))))"
proof -
  have db: "xw_db demo_world = demo_db" by (simp add: demo_world_def)
  have none: "findExistingExecution demo_world ''idem-1'' = None"
    by (simp add: findExistingExecution_def demo_world_def)
  have c1: "context_executionId (demo_request None False) = None"
    and c2: "context_executionId (demo_request None True) = None"
    by (simp_all add: context_executionId_def demo_request_def)
  have k: "ctx_idempotencyKey (demo_context (Some ''idem-1'')) = Some ''idem-1''"
    and nk: "ctx_idempotencyKey (demo_context None) = None"
    by (simp_all add: demo_context_def)
  have ne: "''canvas-user-1'' \<noteq> []" by simp
  have gen: "exec_uuid (demo_env ok_behaviour) = (\<lambda>n. ''uuid-'' @ replicate n CHR ''x'')"
    by (simp add: demo_env_def)
  have "replicate n CHR ''x'' = replicate m CHR ''x'' \<Longrightarrow> n = m" for n m
    by (metis length_replicate)
  then have inj: "inj (exec_uuid (demo_env ok_behaviour))"
    unfolding gen by (auto simp: inj_def)
  have counters: "uuid_counter (xw_db demo_world) = 0"
      "uuid_counter (xw_db (demo_world\<lparr>xw_db := demo_db\<lparr>uuid_counter := 1\<rparr>\<rparr>)) = 1"
    by (simp_all add: demo_world_def demo_db_def)
  obtain r w' where rb: "run_block (demo_env ok_behaviour) demo_world (demo_context (Some ''idem-1''))
             (demo_request None False) (xw_clock demo_world) ''idem-1''
             ''canvas-user-1'' gmail_block
             (bc_transforms gmail_block (params_of (demo_request None False)))
             ''gmail_send'' ''sim-user-1'' ''workspace-1'' = (r, w')" by force
  from run_block_frame[OF rb] have "log_ids w' \<noteq> log_ids demo_world" by auto
  then have "xw_logs w' \<noteq> xw_logs demo_world" by (auto simp: log_ids_def)
  then have wrote: "xw_logs (snd (POST_execute (demo_env ok_behaviour) demo_world
                      (demo_context (Some ''idem-1'')) (Valid (demo_request None False))))
                    \<noteq> xw_logs demo_world"
    by (simp add: demo_runs_idem[OF db none] rb)
  note inst = idempotency_key_fallback[where ?env0.0 = "demo_env ok_behaviour" and ?w0.0 = demo_world
        and ?sc0.0 = "demo_context None" and ?d0.0 = "demo_request None False"
        and ?w9.0 = "demo_world\<lparr>xw_db := demo_db\<lparr>uuid_counter := 1\<rparr>\<rparr>"
        and ?sc9.0 = "demo_context None" and ?d9.0 = "demo_request None False"
        and env' = "demo_env ok_behaviour" and w' = demo_world,
        OF c1 k c2 k demo_valid demo_valid demo_user ne wrote]
  have first: "chooseExecutionId (demo_env ok_behaviour) demo_world (demo_context None)
                 (demo_request None False) =
               (''uuid-'', demo_world\<lparr>xw_db := demo_db\<lparr>uuid_counter := 1\<rparr>\<rparr>)"
    using inst c1 nk db counters(1) by (simp add: gen)
  from inst have imp:
    "context_executionId (demo_request None False) = None \<and>
     ctx_idempotencyKey (demo_context None) = None \<and>
     context_executionId (demo_request None False) = None \<and>
     ctx_idempotencyKey (demo_context None) = None \<and>
     inj (exec_uuid (demo_env ok_behaviour)) \<and>
     uuid_counter (xw_db demo_world)
       < uuid_counter (xw_db (demo_world\<lparr>xw_db := demo_db\<lparr>uuid_counter := 1\<rparr>\<rparr>)) \<longrightarrow>
     fst (chooseExecutionId (demo_env ok_behaviour)
            (demo_world\<lparr>xw_db := demo_db\<lparr>uuid_counter := 1\<rparr>\<rparr>)
            (demo_context None) (demo_request None False)) \<noteq>
     fst (chooseExecutionId (demo_env ok_behaviour) demo_world (demo_context None)
            (demo_request None False))"
    by (elim conjE)
  have prem:
    "context_executionId (demo_request None False) = None \<and>
     ctx_idempotencyKey (demo_context None) = None \<and>
     context_executionId (demo_request None False) = None \<and>
     ctx_idempotencyKey (demo_context None) = None \<and>
     inj (exec_uuid (demo_env ok_behaviour)) \<and>
     uuid_counter (xw_db demo_world)
       < uuid_counter (xw_db (demo_world\<lparr>xw_db := demo_db\<lparr>uuid_counter := 1\<rparr>\<rparr>))"
    using c1 nk inj by (simp add: counters)
  have "fst (chooseExecutionId (demo_env ok_behaviour)
            (demo_world\<lparr>xw_db := demo_db\<lparr>uuid_counter := 1\<rparr>\<rparr>)
            (demo_context None) (demo_request None False)) \<noteq>
     fst (chooseExecutionId (demo_env ok_behaviour) demo_world (demo_context None)
            (demo_request None False))"
    by (rule mp[OF imp prem])
  then have second: "fst (chooseExecutionId (demo_env ok_behaviour)
                  (demo_world\<lparr>xw_db := demo_db\<lparr>uuid_counter := 1\<rparr>\<rparr>)
                  (demo_context None) (demo_request None False)) \<noteq> ''uuid-''"
    unfolding first by simp
  from inst first second show ?thesis
    by (elim conjE) (intro conjI; assumption)
qed

section \<open>Replaying a failed execution\<close>

text \<open>
  C10. Replaying an execution whose stored record is terminal with the level
  \<open>error\<close> returns HTTP 200 with a success body whose payload has the status failed and
  no error code, and the status endpoint returns the very same response for that record;
  the request that wrote the error-level record, in contrast, received an error body
  (code \<open>MISSING_CREDENTIALS\<close>, \<open>EXECUTION_FAILED\<close> or \<open>TIMEOUT\<close>, status 400, 500 or
  504).
\<close>

theorem failed_replay_success_envelope:
  assumes "executeRequestSchema shaped = Valid d"
      and "ctx_canvasUserId sc = Some cu" "cu \<noteq> []"
      and "chooseExecutionId env w sc d = (eid, w1)"
      and "map_option log_level (findExistingExecution w1 eid) = Some ''error''"
      and "map_option log_endedAt (findExistingExecution w1 eid) \<noteq> Some None"
      and "POST_execute env0 w0 sc0 b0 = (resp0, w0')"
      and "findExistingExecution w0 eid0 = None"
      and "map_option log_level (findExistingExecution w0' eid0) = Some ''error''"
  shows "status (fst (POST_execute env w sc (Valid shaped))) = 200 \<and>
         payload_status (fst (POST_execute env w sc (Valid shaped))) = Some Failed \<and>
         response_code (fst (POST_execute env w sc (Valid shaped))) = None \<and>
         GET_status w1 False eid = fst (POST_execute env w sc (Valid shaped)) \<and>
         payload_status resp0 = None \<and>
         response_code resp0 \<in> {Some ''MISSING_CREDENTIALS'', Some ''EXECUTION_FAILED'', Some ''TIMEOUT''} \<and>
         status resp0 \<in> {400, 500, 504}"
proof -
  from assms(5) obtain existing where
    ex: "findExistingExecution w1 eid = Some existing" and lv: "log_level existing = ''error''"
    by auto
  with assms(6) obtain t where t: "log_endedAt existing = Some t" by auto
  have p: "POST_execute env w sc (Valid shaped) = (buildExecutionStatusResponse existing eid, w1)"
    by (rule replay_existing[OF assms(1-4) ex])
  have s: "status (buildExecutionStatusResponse existing eid) = 200"
    by (subst status_response_shape) (simp add: t)
  have ps: "payload_status (buildExecutionStatusResponse existing eid) = Some Failed"
    by (simp add: status_response_payload t lv)
  have rc: "response_code (buildExecutionStatusResponse existing eid) = None"
    by (simp add: response_code_def buildExecutionStatusResponse_def singleResponse_def Let_def t)
  have g: "GET_status w1 False eid = buildExecutionStatusResponse existing eid"
    by (rule GET_status_terminal[OF ex]) (simp add: t)
  from error_record_means_error_envelope[OF assms(7,8,9)] p s ps rc g show ?thesis by simp
qed

text \<open>
  A tool that reports a failure: the first request for \<open>exec-1\<close> gets the error body,
  its replay and the status endpoint get the success body with the status failed.
\<close>

theorem failed_replay_success_envelope_witness:
  "status (fst (POST_execute (demo_env failing_behaviour)
             (snd (POST_execute (demo_env failing_behaviour) demo_world (demo_context None)
                     (Valid (demo_request (Some ''exec-1'') False))))
             (demo_context None) (Valid (demo_request (Some ''exec-1'') False)))) = 200 \<and>
   payload_status (fst (POST_execute (demo_env failing_behaviour)
             (snd (POST_execute (demo_env failing_behaviour) demo_world (demo_context None)
                     (Valid (demo_request (Some ''exec-1'') False))))
             (demo_context None) (Valid (demo_request (Some ''exec-1'') False)))) = Some Failed \<and>
   GET_status (snd (POST_execute (demo_env failing_behaviour) demo_world (demo_context None)
                     (Valid (demo_request (Some ''exec-1'') False)))) False ''exec-1'' =
     fst (POST_execute (demo_env failing_behaviour)
             (snd (POST_execute (demo_env failing_behaviour) demo_world (demo_context None)
                     (Valid (demo_request (Some ''exec-1'') False))))
             (demo_context None) (Valid (demo_request (Some ''exec-1'') False))) \<and>
   payload_status (fst (POST_execute (demo_env failing_behaviour) demo_world (demo_context None)
                     (Valid (demo_request (Some ''exec-1'') False)))) = None \<and>
   status (fst (POST_execute (demo_env failing_behaviour) demo_world (demo_context None)
                     (Valid (demo_request (Some ''exec-1'') False)))) \<in> {400, 500, 504}"
proof -
  let ?P0 = "POST_execute (demo_env failing_behaviour) demo_world (demo_context None)
               (Valid (demo_request (Some ''exec-1'') False))"
  have db: "xw_db demo_world = demo_db" by (simp add: demo_world_def)
  have none: "findExistingExecution demo_world ''exec-1'' = None"
    by (simp add: findExistingExecution_def demo_world_def)
  have tool: "\<forall>n c. executeTool (demo_env failing_behaviour) n c = Resolves 5 failed_response"
    by (simp add: demo_env_def failing_behaviour_def)
  have nf: "\<not> tr_success failed_response" by (simp add: failed_response_def)
  have nr: "\<not> retryOnFailure_of (demo_request (Some ''exec-1'') False)" by (simp add: demo_retry)
  have tm: "5 < timeoutMs_of (demo_request (Some ''exec-1'') False)" by (simp add: demo_timeout)
  have level: "map_option log_level (findExistingExecution (snd ?P0) ''exec-1'') = Some ''error''"
    unfolding demo_runs[OF db none] by (rule run_block_reported_failure(1)[OF none nr tool tm nf])
  have ended: "map_option log_endedAt (findExistingExecution (snd ?P0) ''exec-1'') \<noteq> Some None"
  proof -
    have "map_option log_endedAt (findExistingExecution (snd ?P0) ''exec-1'')
            = Some (Some (xw_clock demo_world + 5))"
      unfolding demo_runs[OF db none] by (rule run_block_reported_failure(2)[OF none nr tool tm nf])
    then show ?thesis by auto
  qed
  have orig: "?P0 = (fst ?P0, snd ?P0)" by simp
  have ne: "''canvas-user-1'' \<noteq> []" by simp
  show ?thesis
    using failed_replay_success_envelope[where env = "demo_env failing_behaviour"
        and sc = "demo_context None" and shaped = "demo_request (Some ''exec-1'') False",
        OF demo_valid demo_user ne demo_choose level ended orig none level]
    by (elim conjE) (intro conjI; assumption)
qed

end
